theory Spec2Isabelle
  imports Main "HOL-Library.Sublist"
begin

section \<open>The simulated exchange of \<^verbatim>\<open>nautilus_trader/backtest/exchange.pyx\<close>\<close>

text \<open>
  A shallow embedding of the class \<^verbatim>\<open>SimulatedExchange\<close>. Every method becomes a
  function from the exchange (a record of the object's attributes) to the updated
  exchange or the exception it raised. Python's leading underscore of private methods is
  dropped (\<^verbatim>\<open>_fill_order\<close> is \<open>fill_order\<close>), and the attribute \<^verbatim>\<open>order.type\<close> is the
  field \<open>order_type\<close>.
\<close>

subsection \<open>Identifiers, enumerations and value objects\<close>

type_synonym ClientOrderId = string
type_synonym VenueOrderId = string
type_synonym PositionId = string
type_synonym ExecutionId = string
type_synonym InstrumentId = string
type_synonym StrategyId = string

text \<open>
  Modelled from the spec: the classes \<^verbatim>\<open>Price\<close> and \<^verbatim>\<open>Quantity\<close> (model/objects) are
  not among the sources. They are decimal numbers compared and added by value; the model
  counts them in a fixed smallest unit, so that a price increment is one or more units and
  re-quantising a sum \<^verbatim>\<open>Price(px + increment, precision)\<close> changes nothing ("shift fill_px
  by one price increment against the trader").
\<close>

type_synonym Price = int
type_synonym Quantity = int

datatype OrderSide = BUY | SELL
datatype OrderType = MARKET | LIMIT | STOP_MARKET | STOP_LIMIT
datatype OrderStatus =
  INITIALIZED | SUBMITTED | ACCEPTED | PENDING_UPDATE | PENDING_CANCEL | REJECTED
  | TRIGGERED | PARTIALLY_FILLED | FILLED | CANCELED | EXPIRED
datatype ContingencyType = NO_CONTINGENCY | OTO | OCO
datatype LiquiditySide = MAKER | TAKER
datatype OMSType = NETTING | HEDGING
datatype BookType = L1_TBBO | L2_MBP | L3_MBO
datatype DepthType = VOLUME | EXPOSURE
datatype PositionSide = FLAT | LONG | SHORT

text \<open>
  Modelled from the spec: the declaration of the C enum \<^verbatim>\<open>OMSType\<close>
  (model/c_enums/oms_type.pxd) is not among the sources. \<^verbatim>\<open>_get_position_id\<close> tests the
  enum constant \<^verbatim>\<open>OMSType.HEDGING\<close> itself for truth, which in Cython is the test that
  the constant's integer value is not zero. The enums of this repository number their
  members from one (core/rust/model.pxd: \<^verbatim>\<open>Buy # = 1, Sell # = 2\<close>), zero standing for
  no value; the spec's two disciplines are \<^verbatim>\<open>NETTING\<close> and \<^verbatim>\<open>HEDGING\<close>.
\<close>

definition OMSType_value :: "OMSType \<Rightarrow> int" where
  "OMSType_value t = (case t of NETTING \<Rightarrow> 1 | HEDGING \<Rightarrow> 2)"

record Money =
  amount :: int
  currency :: string

record AccountBalance =
  bal_currency :: string
  total :: Money
  locked :: Money
  free :: Money

record Instrument =
  instr_id :: InstrumentId
  quote_currency :: string
  price_precision :: nat
  price_increment :: Price

text \<open>
  An order object. \<^verbatim>\<open>expire_time\<close> is a datetime or \<^verbatim>\<open>None\<close> and \<^verbatim>\<open>expire_time_ns\<close>
  its nanosecond timestamp; the source reads both. A market order has no \<open>price\<close> and
  only a stop-limit order a \<open>trigger\<close>: the engine reads these fields of passive orders
  only.
\<close>

record Order =
  client_order_id :: ClientOrderId
  strategy_id :: StrategyId
  instrument_id :: InstrumentId
  side :: OrderSide
  order_type :: OrderType
  quantity :: Quantity
  filled_qty :: Quantity
  leaves_qty :: Quantity
  price :: Price
  trigger :: Price
  is_post_only :: bool
  is_reduce_only :: bool
  is_triggered :: bool
  expire_time :: "int option"
  expire_time_ns :: int
  contingency :: ContingencyType
  parent_order_id :: "ClientOrderId option"
  child_order_ids :: "ClientOrderId list option"
  contingency_ids :: "ClientOrderId list"
  venue_order_id :: "VenueOrderId option"
  position_id :: "PositionId option"
  status :: OrderStatus

record Position =
  pos_id :: PositionId
  pos_instrument_id :: InstrumentId
  pos_side :: PositionSide
  pos_quantity :: Quantity

text \<open>
  Modelled from the spec: the predicates of the classes \<^verbatim>\<open>Order\<close> and \<^verbatim>\<open>Position\<close>
  (model/orders, model/position) are not among the sources. The spec's terminal states
  are Filled, Canceled, Expired and Rejected; an order is working once accepted and not
  terminal, and active while not terminal; Market orders are the aggressive ones, all
  others passive; a position is closed when it is flat.
\<close>

definition is_completed_c :: "Order \<Rightarrow> bool" where
  "is_completed_c order = (status order \<in> {REJECTED, CANCELED, EXPIRED, FILLED})"

definition is_working_c :: "Order \<Rightarrow> bool" where
  "is_working_c order =
     (status order \<in> {ACCEPTED, TRIGGERED, PENDING_CANCEL, PENDING_UPDATE, PARTIALLY_FILLED})"

definition is_active_c :: "Order \<Rightarrow> bool" where
  "is_active_c order = (\<not> is_completed_c order)"

definition is_passive_c :: "Order \<Rightarrow> bool" where
  "is_passive_c order = (order_type order \<noteq> MARKET)"

definition is_buy_c :: "Order \<Rightarrow> bool" where
  "is_buy_c order = (side order = BUY)"

definition is_sell_c :: "Order \<Rightarrow> bool" where
  "is_sell_c order = (side order = SELL)"

definition is_closed_c :: "Position \<Rightarrow> bool" where
  "is_closed_c position = (pos_side position = FLAT)"

definition is_long_c :: "Position \<Rightarrow> bool" where
  "is_long_c position = (pos_side position = LONG)"

definition is_short_c :: "Position \<Rightarrow> bool" where
  "is_short_c position = (pos_side position = SHORT)"

definition side_string_c :: "Order \<Rightarrow> string" where
  "side_string_c order = (case side order of BUY \<Rightarrow> ''BUY'' | SELL \<Rightarrow> ''SELL'')"

definition type_string_c :: "Order \<Rightarrow> string" where
  "type_string_c order =
     (case order_type order of MARKET \<Rightarrow> ''MARKET'' | LIMIT \<Rightarrow> ''LIMIT''
      | STOP_MARKET \<Rightarrow> ''STOP_MARKET'' | STOP_LIMIT \<Rightarrow> ''STOP_LIMIT'')"

subsection \<open>Events and commands\<close>

text \<open>
  One constructor for each \<^verbatim>\<open>generate_*\<close> method of the execution client, carrying the
  keyword arguments the exchange passes.
\<close>

datatype Event =
    AccountState (ev_balances: "AccountBalance list") (ev_reported: bool) (ts_event: int)
  | OrderSubmitted (ev_strategy_id: StrategyId) (ev_instrument_id: InstrumentId)
      (ev_client_order_id: ClientOrderId) (ts_event: int)
  | OrderRejected (ev_strategy_id: StrategyId) (ev_instrument_id: InstrumentId)
      (ev_client_order_id: ClientOrderId) (ev_reason: string) (ts_event: int)
  | OrderAccepted (ev_strategy_id: StrategyId) (ev_instrument_id: InstrumentId)
      (ev_client_order_id: ClientOrderId) (ev_venue_order_id: "VenueOrderId option")
      (ts_event: int)
  | OrderPendingUpdate (ev_strategy_id: StrategyId) (ev_instrument_id: InstrumentId)
      (ev_client_order_id: ClientOrderId) (ev_venue_order_id: "VenueOrderId option")
      (ts_event: int)
  | OrderPendingCancel (ev_strategy_id: StrategyId) (ev_instrument_id: InstrumentId)
      (ev_client_order_id: ClientOrderId) (ev_venue_order_id: "VenueOrderId option")
      (ts_event: int)
  | OrderModifyRejected (ev_strategy_id: StrategyId) (ev_instrument_id: InstrumentId)
      (ev_client_order_id: ClientOrderId) (ev_venue_order_id: "VenueOrderId option")
      (ev_reason: string) (ts_event: int)
  | OrderCancelRejected (ev_strategy_id: StrategyId) (ev_instrument_id: InstrumentId)
      (ev_client_order_id: ClientOrderId) (ev_venue_order_id: "VenueOrderId option")
      (ev_reason: string) (ts_event: int)
  | OrderUpdated (ev_strategy_id: StrategyId) (ev_instrument_id: InstrumentId)
      (ev_client_order_id: ClientOrderId) (ev_venue_order_id: "VenueOrderId option")
      (ev_quantity: Quantity) (ev_price: "Price option") (ev_trigger: "Price option")
      (ts_event: int) (ev_venue_order_id_modified: bool)
  | OrderCanceled (ev_strategy_id: StrategyId) (ev_instrument_id: InstrumentId)
      (ev_client_order_id: ClientOrderId) (ev_venue_order_id: "VenueOrderId option")
      (ts_event: int)
  | OrderTriggered (ev_strategy_id: StrategyId) (ev_instrument_id: InstrumentId)
      (ev_client_order_id: ClientOrderId) (ev_venue_order_id: "VenueOrderId option")
      (ts_event: int)
  | OrderExpired (ev_strategy_id: StrategyId) (ev_instrument_id: InstrumentId)
      (ev_client_order_id: ClientOrderId) (ev_venue_order_id: "VenueOrderId option")
      (ts_event: int)
  | OrderFilled (ev_strategy_id: StrategyId) (ev_instrument_id: InstrumentId)
      (ev_client_order_id: ClientOrderId) (ev_venue_order_id: "VenueOrderId option")
      (ev_venue_position_id: "PositionId option") (ev_execution_id: ExecutionId)
      (ev_order_side: OrderSide) (ev_order_type: OrderType) (ev_last_qty: Quantity)
      (ev_last_px: Price) (ev_quote_currency: string) (ev_commission: Money)
      (ev_liquidity_side: LiquiditySide) (ts_event: int)

text \<open>
  An order object is referred to by the key under which the object store holds it (its
  client order id): the lists and the index of the exchange, the commands and the cache
  all hold references to the same objects, which the applied events mutate.
\<close>

type_synonym OrderRef = ClientOrderId
type_synonym PositionRef = PositionId

datatype TradingCommand =
    SubmitOrder OrderRef
  | SubmitOrderList "OrderRef list"
  | CancelOrder StrategyId InstrumentId ClientOrderId "VenueOrderId option"
  | ModifyOrder StrategyId InstrumentId ClientOrderId "VenueOrderId option"
      "Quantity option" "Price option" "Price option"

datatype Err =
    RecursionError
  | RuntimeError string
  | AssertionError string
  | KeyError
  | ValueError
  | TypeError
  | AttributeError

subsection \<open>External collaborators\<close>

text \<open>
  Modelled from the spec: the cache (\<^verbatim>\<open>CacheFacade\<close>, cache/base) is not among the
  sources. It owns the orders and positions ("Positions are owned by the external cache")
  and hands out the objects themselves. A Python reference always leads to an object, so
  the stores are total; the cache knows the orders of \<open>cached_orders\<close> and the positions
  of \<open>cached_positions\<close>, and indexes a position id for an order.
\<close>

record Account =
  balances :: "string \<rightharpoonup> AccountBalance"

record Cache =
  order_objs :: "OrderRef \<Rightarrow> Order"
  cached_orders :: "ClientOrderId list"
  position_objs :: "PositionRef \<Rightarrow> Position"
  cached_positions :: "PositionId list"
  order_position_ids :: "ClientOrderId \<rightharpoonup> PositionId"
  account_for_venue :: "Account option"

text \<open>
  The execution client (\<^verbatim>\<open>BacktestExecClient\<close>, not among the sources): each
  \<^verbatim>\<open>generate_*\<close> call hands the event to the execution engine, which applies it to the
  objects of the cache before the call returns. What it does there is the parameter
  \<open>handle_event\<close>; the account's commission rule is the parameter \<open>calculate_commission\<close>
  (instrument, last_qty, last_px, liquidity_side).
\<close>

record ExecClient =
  handle_event :: "Event \<Rightarrow> Cache \<Rightarrow> Cache"
  calculate_commission :: "Instrument \<Rightarrow> Quantity \<Rightarrow> Price \<Rightarrow> LiquiditySide \<Rightarrow> Money"

text \<open>
  The fill model (only its declaration models.pxd is among the sources): each call of
  \<^verbatim>\<open>is_limit_filled\<close>, \<^verbatim>\<open>is_stop_filled\<close> or \<^verbatim>\<open>is_slipped\<close> is a fresh draw. The outcomes
  are the parameters; \<open>draws\<close> counts the draws made.
\<close>

record FillModel =
  limit_outcome :: "nat \<Rightarrow> bool"
  stop_outcome :: "nat \<Rightarrow> bool"
  slip_outcome :: "nat \<Rightarrow> bool"
  draws :: nat

text \<open>
  The narrow view of an order book the engine consumes (\<^verbatim>\<open>OrderBook\<close> is not among the
  sources): the best prices and, for each side's ladder, the simulation of an incoming
  order's fills.
\<close>

record OrderBookOrder =
  obo_price :: Price
  obo_size :: Quantity
  obo_side :: OrderSide

record OrderBook =
  book_level :: BookType
  book_price_precision :: nat
  book_best_bid_price :: "Price option"
  book_best_ask_price :: "Price option"
  asks_simulate_order_fills :: "OrderBookOrder \<Rightarrow> DepthType option \<Rightarrow> (Price \<times> Quantity) list"
  bids_simulate_order_fills :: "OrderBookOrder \<Rightarrow> DepthType option \<Rightarrow> (Price \<times> Quantity) list"

text \<open>
  Modelled from the spec: \<^verbatim>\<open>OrderBook.create\<close> is not among the sources; a freshly
  created book has no best prices and no depth to fill against.
\<close>

definition OrderBook_create :: "Instrument \<Rightarrow> BookType \<Rightarrow> OrderBook" where
  "OrderBook_create instrument level =
     \<lparr>book_level = level, book_price_precision = price_precision instrument,
      book_best_bid_price = None, book_best_ask_price = None,
      asks_simulate_order_fills = (\<lambda>_ _. []), bids_simulate_order_fills = (\<lambda>_ _. [])\<rparr>"

text \<open>
  Market data. What \<^verbatim>\<open>book.update_tick(tick)\<close> and \<^verbatim>\<open>book.apply(data)\<close> do to a book is
  outside the sources and carried by the datum.
\<close>

record Tick =
  tick_instrument_id :: InstrumentId
  tick_ts_init :: int
  tick_update :: "OrderBook \<Rightarrow> OrderBook"

record OrderBookData =
  data_instrument_id :: InstrumentId
  data_ts_init :: int
  data_apply :: "OrderBook \<Rightarrow> OrderBook"

subsection \<open>The exchange\<close>

text \<open>
  The attributes of \<^verbatim>\<open>SimulatedExchange\<close>. \<open>clock\<close> is the time of the test clock and
  \<open>emitted\<close> the sequence of events handed to the execution client so far. The exchange is
  modelled without simulation modules.
\<close>

record SimulatedExchange =
  clock :: int
  oms_type :: OMSType
  book_type :: BookType
  bar_execution :: bool
  reject_stop_orders :: bool
  is_frozen_account :: bool
  starting_balances :: "Money list"
  exec_client :: ExecClient
  cache :: Cache
  fill_model :: FillModel
  instruments :: "InstrumentId \<rightharpoonup> Instrument"
  instrument_indexer :: "InstrumentId \<rightharpoonup> nat"
  books :: "InstrumentId \<rightharpoonup> OrderBook"
  last_bids :: "InstrumentId \<rightharpoonup> Price"
  last_asks :: "InstrumentId \<rightharpoonup> Price"
  order_index :: "ClientOrderId \<rightharpoonup> OrderRef"
  orders_bid :: "InstrumentId \<rightharpoonup> OrderRef list"
  orders_ask :: "InstrumentId \<rightharpoonup> OrderRef list"
  oto_orders :: "ClientOrderId \<rightharpoonup> ClientOrderId"
  symbol_pos_count :: "InstrumentId \<rightharpoonup> nat"
  symbol_ord_count :: "InstrumentId \<rightharpoonup> nat"
  executions_count :: nat
  message_queue :: "TradingCommand list"
  emitted :: "Event list"

type_synonym Res = "Err + SimulatedExchange"

text \<open>Sequencing of two steps: an exception of the first ends the run.\<close>

definition seq :: "Res \<Rightarrow> (SimulatedExchange \<Rightarrow> Res) \<Rightarrow> Res" where
  "seq r f = (case r of Inl e \<Rightarrow> Inl e | Inr s \<Rightarrow> f s)"

text \<open>A \<^verbatim>\<open>for\<close> loop over a list whose body may raise.\<close>

fun for_each :: "'a list \<Rightarrow> ('a \<Rightarrow> SimulatedExchange \<Rightarrow> Res) \<Rightarrow> SimulatedExchange \<Rightarrow> Res" where
  "for_each [] body s = Inr s"
| "for_each (x # xs) body s = seq (body x s) (for_each xs body)"

text \<open>The order object behind a reference, as it is now.\<close>

definition obj :: "SimulatedExchange \<Rightarrow> OrderRef \<Rightarrow> Order" where
  "obj s r = order_objs (cache s) r"

definition pos_obj :: "SimulatedExchange \<Rightarrow> PositionRef \<Rightarrow> Position" where
  "pos_obj s r = position_objs (cache s) r"

text \<open>
  Modelled from the spec: the queries of the cache the exchange uses (cache/base is not
  among the sources): an order and a position by id, the position id indexed for an order
  ("look up \<^verbatim>\<open>cache.position_id(cid)\<close>"), the open positions of an instrument, and the
  orders indexed for a position.
\<close>

definition cache_order :: "SimulatedExchange \<Rightarrow> ClientOrderId \<Rightarrow> OrderRef option" where
  "cache_order s cid = (if cid \<in> set (cached_orders (cache s)) then Some cid else None)"

definition cache_position_id :: "SimulatedExchange \<Rightarrow> ClientOrderId \<Rightarrow> PositionId option" where
  "cache_position_id s cid = order_position_ids (cache s) cid"

definition cache_position :: "SimulatedExchange \<Rightarrow> PositionId \<Rightarrow> PositionRef option" where
  "cache_position s pid = (if pid \<in> set (cached_positions (cache s)) then Some pid else None)"

definition cache_position_for_order :: "SimulatedExchange \<Rightarrow> ClientOrderId \<Rightarrow> PositionRef option" where
  "cache_position_for_order s cid =
     (case cache_position_id s cid of None \<Rightarrow> None | Some pid \<Rightarrow> cache_position s pid)"

definition cache_positions_open :: "SimulatedExchange \<Rightarrow> InstrumentId \<Rightarrow> PositionRef list" where
  "cache_positions_open s iid =
     filter (\<lambda>r. pos_instrument_id (pos_obj s r) = iid \<and> \<not> is_closed_c (pos_obj s r))
       (cached_positions (cache s))"

definition cache_orders_for_position :: "SimulatedExchange \<Rightarrow> PositionId option \<Rightarrow> OrderRef list" where
  "cache_orders_for_position s pid =
     filter (\<lambda>r. pid \<noteq> None \<and> order_position_ids (cache s) r = pid) (cached_orders (cache s))"

text \<open>
  Modelled from the spec: \<^verbatim>\<open>cache.add_position_id\<close> (not among the sources) indexes a
  position id for an order ("assign the parent's venue-position-id to the child"); like the
  methods of this repository it refuses \<^verbatim>\<open>None\<close> for an argument that is not optional.
\<close>

definition cache_add_position_id :: "SimulatedExchange \<Rightarrow> PositionId option \<Rightarrow> ClientOrderId \<Rightarrow> Res" where
  "cache_add_position_id s pid cid =
     (case pid of
        None \<Rightarrow> Inl ValueError
      | Some p \<Rightarrow>
          Inr (s\<lparr>cache := (cache s)\<lparr>order_position_ids := (order_position_ids (cache s))(cid \<mapsto> p)\<rparr>\<rparr>))"

text \<open>
  Handing an event to the execution client: it joins the emitted sequence and is applied
  to the cache.
\<close>

definition emit :: "Event \<Rightarrow> SimulatedExchange \<Rightarrow> SimulatedExchange" where
  "emit e s = s\<lparr>emitted := emitted s @ [e], cache := handle_event (exec_client s) e (cache s)\<rparr>"

subsection \<open>Rendering of numbers in identifiers and messages\<close>

definition digit_char :: "nat \<Rightarrow> char" where
  "digit_char d = ''0123456789'' ! (d mod 10)"

fun str_nat :: "nat \<Rightarrow> string" where
  "str_nat n = (if n < 10 then [digit_char n] else str_nat (n div 10) @ [digit_char (n mod 10)])"

declare str_nat.simps [simp del]

definition str_int :: "int \<Rightarrow> string" where
  "str_int i = (if i < 0 then CHR ''-'' # str_nat (nat (- i)) else str_nat (nat i))"

text \<open>The format \<^verbatim>\<open>{n:03d}\<close>: at least three digits, padded with zeros.\<close>

definition format_03d :: "nat \<Rightarrow> string" where
  "format_03d n = replicate (3 - length (str_nat n)) CHR ''0'' @ str_nat n"

definition str_price_opt :: "Price option \<Rightarrow> string" where
  "str_price_opt p = (case p of None \<Rightarrow> ''None'' | Some v \<Rightarrow> str_int v)"

text \<open>
  Modelled from the spec: the identifier classes (model/identifiers) are not among the
  sources. The source builds the reason of a rejected cancel or modify with
  \<^verbatim>\<open>repr(command.client_order_id)\<close>, the representation of the identifier object, and
  not with the plain interpolation it uses where the bare id is meant
  (\<^verbatim>\<open>f"REJECT OTO from {parent.client_order_id}"\<close>). The representation of an identifier
  is its class name followed, in parentheses and single quotes, by its value:
  \<^verbatim>\<open>ClientOrderId('O-7')\<close>, where the spec writes \<^verbatim>\<open><cid>\<close>.
\<close>

definition repr_ClientOrderId :: "ClientOrderId \<Rightarrow> string" where
  "repr_ClientOrderId cid = ''ClientOrderId('' @ [CHR 0x27] @ cid @ [CHR 0x27] @ '')''"

subsection \<open>Identifier generators\<close>

definition generate_venue_position_id ::
  "SimulatedExchange \<Rightarrow> InstrumentId \<Rightarrow> Err + (PositionId \<times> SimulatedExchange)" where
  "generate_venue_position_id s iid =
     (let pos_count = (case symbol_pos_count s iid of None \<Rightarrow> 0 | Some c \<Rightarrow> c) + 1;
          s' = s\<lparr>symbol_pos_count := (symbol_pos_count s)(iid \<mapsto> pos_count)\<rparr>
      in case instrument_indexer s' iid of
           None \<Rightarrow> Inl KeyError
         | Some idx \<Rightarrow> Inr (str_nat idx @ ''-'' @ format_03d pos_count, s'))"

definition generate_venue_order_id ::
  "SimulatedExchange \<Rightarrow> InstrumentId \<Rightarrow> Err + (VenueOrderId \<times> SimulatedExchange)" where
  "generate_venue_order_id s iid =
     (let ord_count = (case symbol_ord_count s iid of None \<Rightarrow> 0 | Some c \<Rightarrow> c) + 1;
          s' = s\<lparr>symbol_ord_count := (symbol_ord_count s)(iid \<mapsto> ord_count)\<rparr>
      in case instrument_indexer s' iid of
           None \<Rightarrow> Inl KeyError
         | Some idx \<Rightarrow> Inr (str_nat idx @ ''-'' @ format_03d ord_count, s'))"

definition generate_execution_id :: "SimulatedExchange \<Rightarrow> ExecutionId \<times> SimulatedExchange" where
  "generate_execution_id s =
     (let s' = s\<lparr>executions_count := executions_count s + 1\<rparr>
      in (str_nat (executions_count s'), s'))"

text \<open>
  \<^verbatim>\<open>_get_position_id\<close>. The guard of the first branch is the constant
  \<^verbatim>\<open>OMSType.HEDGING\<close>, not a comparison with \<^verbatim>\<open>self.oms_type\<close>.
\<close>

definition get_position_id ::
  "SimulatedExchange \<Rightarrow> OrderRef \<Rightarrow> bool \<Rightarrow> Err + (PositionId option \<times> SimulatedExchange)" where
  "get_position_id s order generate =
     (let netting =
            (case cache_positions_open s (instrument_id (obj s order)) of
               [] \<Rightarrow> Inr (None, s)
             | p # _ \<Rightarrow> Inr (Some (pos_id (pos_obj s p)), s))
      in if OMSType_value HEDGING \<noteq> 0 then
           (case cache_position_id s (client_order_id (obj s order)) of
              Some cached_id \<Rightarrow> Inr (Some cached_id, s)
            | None \<Rightarrow>
                if generate then
                  (case generate_venue_position_id s (instrument_id (obj s order)) of
                     Inl e \<Rightarrow> Inl e
                   | Inr (new_id, s') \<Rightarrow> Inr (Some new_id, s'))
                else netting)
         else netting)"

subsection \<open>Event generators\<close>

definition timestamp_ns :: "SimulatedExchange \<Rightarrow> int" where
  "timestamp_ns s = clock s"

text \<open>
  \<^verbatim>\<open>_generate_fresh_account_state\<close>; the leverages it then sets on a margin account
  are settings of the account object and emit nothing.
\<close>

definition generate_fresh_account_state :: "SimulatedExchange \<Rightarrow> SimulatedExchange" where
  "generate_fresh_account_state s =
     emit (AccountState
             (map (\<lambda>money. \<lparr>bal_currency = currency money, total = money,
                             locked = \<lparr>amount = 0, currency = currency money\<rparr>, free = money\<rparr>)
                (starting_balances s))
             True (timestamp_ns s)) s"

definition generate_order_submitted :: "SimulatedExchange \<Rightarrow> OrderRef \<Rightarrow> SimulatedExchange" where
  "generate_order_submitted s order =
     emit (OrderSubmitted (strategy_id (obj s order)) (instrument_id (obj s order))
             (client_order_id (obj s order)) (timestamp_ns s)) s"

definition generate_order_rejected :: "SimulatedExchange \<Rightarrow> OrderRef \<Rightarrow> string \<Rightarrow> SimulatedExchange" where
  "generate_order_rejected s order reason =
     emit (OrderRejected (strategy_id (obj s order)) (instrument_id (obj s order))
             (client_order_id (obj s order)) reason (timestamp_ns s)) s"

definition generate_order_accepted :: "SimulatedExchange \<Rightarrow> OrderRef \<Rightarrow> Res" where
  "generate_order_accepted s order =
     (case generate_venue_order_id s (instrument_id (obj s order)) of
        Inl e \<Rightarrow> Inl e
      | Inr (new_id, s') \<Rightarrow>
          Inr (emit (OrderAccepted (strategy_id (obj s order)) (instrument_id (obj s order))
                       (client_order_id (obj s order)) (Some new_id) (timestamp_ns s')) s'))"

definition generate_order_pending_update :: "SimulatedExchange \<Rightarrow> OrderRef \<Rightarrow> SimulatedExchange" where
  "generate_order_pending_update s order =
     emit (OrderPendingUpdate (strategy_id (obj s order)) (instrument_id (obj s order))
             (client_order_id (obj s order)) (venue_order_id (obj s order)) (timestamp_ns s)) s"

definition generate_order_pending_cancel :: "SimulatedExchange \<Rightarrow> OrderRef \<Rightarrow> SimulatedExchange" where
  "generate_order_pending_cancel s order =
     emit (OrderPendingCancel (strategy_id (obj s order)) (instrument_id (obj s order))
             (client_order_id (obj s order)) (venue_order_id (obj s order)) (timestamp_ns s)) s"

definition generate_order_modify_rejected ::
  "SimulatedExchange \<Rightarrow> StrategyId \<Rightarrow> InstrumentId \<Rightarrow> ClientOrderId \<Rightarrow> VenueOrderId option
     \<Rightarrow> string \<Rightarrow> SimulatedExchange" where
  "generate_order_modify_rejected s strat iid cid void reason =
     emit (OrderModifyRejected strat iid cid void reason (timestamp_ns s)) s"

definition generate_order_cancel_rejected ::
  "SimulatedExchange \<Rightarrow> StrategyId \<Rightarrow> InstrumentId \<Rightarrow> ClientOrderId \<Rightarrow> VenueOrderId option
     \<Rightarrow> string \<Rightarrow> SimulatedExchange" where
  "generate_order_cancel_rejected s strat iid cid void reason =
     emit (OrderCancelRejected strat iid cid void reason (timestamp_ns s)) s"

definition generate_order_updated ::
  "SimulatedExchange \<Rightarrow> OrderRef \<Rightarrow> Quantity \<Rightarrow> Price option \<Rightarrow> Price option \<Rightarrow> Res" where
  "generate_order_updated s order qty px trg =
     (case venue_order_id (obj s order) of
        Some void \<Rightarrow>
          Inr (emit (OrderUpdated (strategy_id (obj s order)) (instrument_id (obj s order))
                       (client_order_id (obj s order)) (Some void) qty px trg
                       (timestamp_ns s) False) s)
      | None \<Rightarrow>
          (case generate_venue_order_id s (instrument_id (obj s order)) of
             Inl e \<Rightarrow> Inl e
           | Inr (new_id, s') \<Rightarrow>
               Inr (emit (OrderUpdated (strategy_id (obj s order)) (instrument_id (obj s order))
                            (client_order_id (obj s order)) (Some new_id) qty px trg
                            (timestamp_ns s') True) s')))"

definition generate_order_canceled :: "SimulatedExchange \<Rightarrow> OrderRef \<Rightarrow> SimulatedExchange" where
  "generate_order_canceled s order =
     emit (OrderCanceled (strategy_id (obj s order)) (instrument_id (obj s order))
             (client_order_id (obj s order)) (venue_order_id (obj s order)) (timestamp_ns s)) s"

definition generate_order_triggered :: "SimulatedExchange \<Rightarrow> OrderRef \<Rightarrow> SimulatedExchange" where
  "generate_order_triggered s order =
     emit (OrderTriggered (strategy_id (obj s order)) (instrument_id (obj s order))
             (client_order_id (obj s order)) (venue_order_id (obj s order)) (timestamp_ns s)) s"

text \<open>\<^verbatim>\<open>_generate_order_expired\<close> stamps the event with \<^verbatim>\<open>order.expire_time_ns\<close>.\<close>

definition generate_order_expired :: "SimulatedExchange \<Rightarrow> OrderRef \<Rightarrow> SimulatedExchange" where
  "generate_order_expired s order =
     emit (OrderExpired (strategy_id (obj s order)) (instrument_id (obj s order))
             (client_order_id (obj s order)) (venue_order_id (obj s order))
             (expire_time_ns (obj s order))) s"

definition generate_order_filled ::
  "SimulatedExchange \<Rightarrow> OrderRef \<Rightarrow> PositionId option \<Rightarrow> Quantity \<Rightarrow> Price \<Rightarrow> string \<Rightarrow> Money
     \<Rightarrow> LiquiditySide \<Rightarrow> Res" where
  "generate_order_filled s order venue_position_id last_qty last_px quote commission liquidity_side =
     (case (case venue_order_id (obj s order) of
              Some void \<Rightarrow> Inr (void, s)
            | None \<Rightarrow> generate_venue_order_id s (instrument_id (obj s order))) of
        Inl e \<Rightarrow> Inl e
      | Inr (void, s1) \<Rightarrow>
          (case generate_execution_id s1 of
             (execution_id, s2) \<Rightarrow>
               Inr (emit (OrderFilled (strategy_id (obj s order)) (instrument_id (obj s order))
                            (client_order_id (obj s order)) (Some void) venue_position_id
                            execution_id (side (obj s order)) (order_type (obj s order))
                            last_qty last_px quote commission liquidity_side
                            (timestamp_ns s2)) s2)))"

subsection \<open>Account\<close>

definition initialize_account :: "SimulatedExchange \<Rightarrow> SimulatedExchange" where
  "initialize_account s = generate_fresh_account_state s"

definition adjust_account :: "SimulatedExchange \<Rightarrow> Money \<Rightarrow> SimulatedExchange" where
  "adjust_account s adjustment =
     (if is_frozen_account s then s
      else case account_for_venue (cache s) of
             None \<Rightarrow> s
           | Some account \<Rightarrow>
               (case balances account (currency adjustment) of
                  None \<Rightarrow> s
                | Some balance \<Rightarrow>
                    (let balance' = balance
                           \<lparr>total := \<lparr>amount = amount (total balance) + amount adjustment,
                                      currency = currency adjustment\<rparr>,
                            free := \<lparr>amount = amount (free balance) + amount adjustment,
                                     currency = currency adjustment\<rparr>\<rparr>;
                         account' = account
                           \<lparr>balances := (balances account)(currency adjustment \<mapsto> balance')\<rparr>;
                         s' = s\<lparr>cache := (cache s)\<lparr>account_for_venue := Some account'\<rparr>\<rparr>
                     in emit (AccountState [balance'] True (timestamp_ns s')) s')))"

definition send :: "SimulatedExchange \<Rightarrow> TradingCommand \<Rightarrow> SimulatedExchange" where
  "send s command = s\<lparr>message_queue := message_queue s @ [command]\<rparr>"

subsection \<open>Market queries\<close>

definition best_bid_price :: "SimulatedExchange \<Rightarrow> InstrumentId \<Rightarrow> Price option" where
  "best_bid_price s iid =
     (case books s iid of None \<Rightarrow> None | Some order_book \<Rightarrow> book_best_bid_price order_book)"

definition best_ask_price :: "SimulatedExchange \<Rightarrow> InstrumentId \<Rightarrow> Price option" where
  "best_ask_price s iid =
     (case books s iid of None \<Rightarrow> None | Some order_book \<Rightarrow> book_best_ask_price order_book)"

definition get_book ::
  "SimulatedExchange \<Rightarrow> InstrumentId \<Rightarrow> Err + (OrderBook \<times> SimulatedExchange)" where
  "get_book s iid =
     (case books s iid of
        Some book \<Rightarrow> Inr (book, s)
      | None \<Rightarrow>
          (case instruments s iid of
             None \<Rightarrow> Inl (RuntimeError (''cannot create OrderBook: no instrument for '' @ iid))
           | Some instrument \<Rightarrow>
               (let book = OrderBook_create instrument (book_type s)
                in Inr (book, s\<lparr>books := (books s)(iid \<mapsto> book)\<rparr>))))"

text \<open>
  Modelled from the spec: the methods of the fill model (models.pyx is not among the
  sources) are "each returning a fresh boolean draw".
\<close>

definition is_limit_filled :: "SimulatedExchange \<Rightarrow> bool \<times> SimulatedExchange" where
  "is_limit_filled s =
     (limit_outcome (fill_model s) (draws (fill_model s)),
      s\<lparr>fill_model := (fill_model s)\<lparr>draws := draws (fill_model s) + 1\<rparr>\<rparr>)"

definition is_stop_filled :: "SimulatedExchange \<Rightarrow> bool \<times> SimulatedExchange" where
  "is_stop_filled s =
     (stop_outcome (fill_model s) (draws (fill_model s)),
      s\<lparr>fill_model := (fill_model s)\<lparr>draws := draws (fill_model s) + 1\<rparr>\<rparr>)"

definition is_slipped :: "SimulatedExchange \<Rightarrow> bool \<times> SimulatedExchange" where
  "is_slipped s =
     (slip_outcome (fill_model s) (draws (fill_model s)),
      s\<lparr>fill_model := (fill_model s)\<lparr>draws := draws (fill_model s) + 1\<rparr>\<rparr>)"

definition is_limit_marketable :: "SimulatedExchange \<Rightarrow> InstrumentId \<Rightarrow> OrderSide \<Rightarrow> Price \<Rightarrow> bool" where
  "is_limit_marketable s iid sd order_price =
     (if sd = BUY then
        (case best_ask_price s iid of None \<Rightarrow> False | Some ask \<Rightarrow> order_price \<ge> ask)
      else
        (case best_bid_price s iid of None \<Rightarrow> False | Some bid \<Rightarrow> order_price \<le> bid))"

definition is_limit_matched ::
  "SimulatedExchange \<Rightarrow> InstrumentId \<Rightarrow> OrderSide \<Rightarrow> Price \<Rightarrow> bool \<times> SimulatedExchange" where
  "is_limit_matched s iid sd px =
     (if sd = BUY then
        (case best_ask_price s iid of
           None \<Rightarrow> (False, s)
         | Some ask \<Rightarrow>
             if px > ask then (True, s) else if ask = px then is_limit_filled s else (False, s))
      else
        (case best_bid_price s iid of
           None \<Rightarrow> (False, s)
         | Some bid \<Rightarrow>
             if px < bid then (True, s) else if bid = px then is_limit_filled s else (False, s)))"

definition is_stop_marketable :: "SimulatedExchange \<Rightarrow> InstrumentId \<Rightarrow> OrderSide \<Rightarrow> Price \<Rightarrow> bool" where
  "is_stop_marketable s iid sd px =
     (if sd = BUY then
        (case best_ask_price s iid of None \<Rightarrow> False | Some ask \<Rightarrow> ask \<ge> px)
      else
        (case best_bid_price s iid of None \<Rightarrow> False | Some bid \<Rightarrow> bid \<le> px))"

definition is_stop_triggered ::
  "SimulatedExchange \<Rightarrow> InstrumentId \<Rightarrow> OrderSide \<Rightarrow> Price \<Rightarrow> bool \<times> SimulatedExchange" where
  "is_stop_triggered s iid sd px =
     (if sd = BUY then
        (case best_ask_price s iid of
           None \<Rightarrow> (False, s)
         | Some ask \<Rightarrow>
             if ask > px then (True, s) else if ask = px then is_stop_filled s else (False, s))
      else
        (case best_bid_price s iid of
           None \<Rightarrow> (False, s)
         | Some bid \<Rightarrow>
             if bid < px then (True, s) else if bid = px then is_stop_filled s else (False, s)))"

definition INT_MAX :: int where
  "INT_MAX = 2147483647"

definition INT_MIN :: int where
  "INT_MIN = - 2147483648"

text \<open>
  The fill plans. An order is a buy or a sell, so the source's fall through to \<^verbatim>\<open>None\<close>
  (which \<^verbatim>\<open>_apply_fills\<close> treats as the empty plan) is not reached.
\<close>

definition determine_limit_price_and_volume ::
  "SimulatedExchange \<Rightarrow> OrderRef \<Rightarrow> Err + ((Price \<times> Quantity) list \<times> SimulatedExchange)" where
  "determine_limit_price_and_volume s order =
     (if bar_execution s then
        Inr ([(price (obj s order), leaves_qty (obj s order))],
             if is_buy_c (obj s order) then
               s\<lparr>last_bids := (last_bids s)(instrument_id (obj s order) \<mapsto> price (obj s order))\<rparr>
             else
               s\<lparr>last_asks := (last_asks s)(instrument_id (obj s order) \<mapsto> price (obj s order))\<rparr>)
      else
        (case get_book s (instrument_id (obj s order)) of
           Inl e \<Rightarrow> Inl e
         | Inr (book, s') \<Rightarrow>
             (let submit_order = \<lparr>obo_price = price (obj s order), obo_size = quantity (obj s order),
                                  obo_side = side (obj s order)\<rparr>
              in if is_buy_c (obj s order) then
                   Inr (asks_simulate_order_fills book submit_order (Some VOLUME), s')
                 else
                   Inr (bids_simulate_order_fills book submit_order (Some VOLUME), s'))))"

definition market_book_fills ::
  "SimulatedExchange \<Rightarrow> OrderRef \<Rightarrow> Err + ((Price \<times> Quantity) list \<times> SimulatedExchange)" where
  "market_book_fills s order =
     (let submit_order = \<lparr>obo_price = (if side (obj s order) = BUY then INT_MAX else INT_MIN),
                          obo_size = quantity (obj s order), obo_side = side (obj s order)\<rparr>
      in case get_book s (instrument_id (obj s order)) of
           Inl e \<Rightarrow> Inl e
         | Inr (book, s') \<Rightarrow>
             if is_buy_c (obj s order) then
               Inr (asks_simulate_order_fills book submit_order None, s')
             else
               Inr (bids_simulate_order_fills book submit_order None, s'))"

definition determine_market_price_and_volume ::
  "SimulatedExchange \<Rightarrow> OrderRef \<Rightarrow> Err + ((Price \<times> Quantity) list \<times> SimulatedExchange)" where
  "determine_market_price_and_volume s order =
     (if bar_execution s then
        (if order_type (obj s order) = MARKET then
           (case (if is_buy_c (obj s order) then last_asks s (instrument_id (obj s order))
                  else last_bids s (instrument_id (obj s order))) of
              Some px \<Rightarrow> Inr ([(px, leaves_qty (obj s order))], s)
            | None \<Rightarrow> market_book_fills s order)
         else
           Inr ([(price (obj s order), leaves_qty (obj s order))],
                if is_buy_c (obj s order) then
                  s\<lparr>last_asks := (last_asks s)(instrument_id (obj s order) \<mapsto> price (obj s order))\<rparr>
                else
                  s\<lparr>last_bids := (last_bids s)(instrument_id (obj s order) \<mapsto> price (obj s order))\<rparr>))
      else market_book_fills s order)"

subsection \<open>The working orders\<close>

text \<open>
  Python's \<^verbatim>\<open>list.sort(key=..., reverse=True)\<close> is stable: it reverses the list, sorts it
  and reverses the result.
\<close>

definition sort_reverse :: "('a \<Rightarrow> int) \<Rightarrow> 'a list \<Rightarrow> 'a list" where
  "sort_reverse key xs = rev (sort_key key (rev xs))"

definition add_order :: "SimulatedExchange \<Rightarrow> OrderRef \<Rightarrow> SimulatedExchange" where
  "add_order s order =
     (let s1 = s\<lparr>order_index := (order_index s)(client_order_id (obj s order) \<mapsto> order)\<rparr>
      in if is_buy_c (obj s1 order) then
           s1\<lparr>orders_bid := (orders_bid s1)(instrument_id (obj s1 order) \<mapsto>
                 sort_reverse (\<lambda>x. price (obj s1 x))
                   ((case orders_bid s1 (instrument_id (obj s1 order)) of
                       None \<Rightarrow> [] | Some bids \<Rightarrow> bids) @ [order]))\<rparr>
         else
           s1\<lparr>orders_ask := (orders_ask s1)(instrument_id (obj s1 order) \<mapsto>
                 sort_key (\<lambda>x. price (obj s1 x))
                   ((case orders_ask s1 (instrument_id (obj s1 order)) of
                       None \<Rightarrow> [] | Some asks \<Rightarrow> asks) @ [order]))\<rparr>)"

text \<open>\<^verbatim>\<open>list.remove\<close> raises \<^verbatim>\<open>ValueError\<close> when the element is not in the list.\<close>

definition delete_order :: "SimulatedExchange \<Rightarrow> OrderRef \<Rightarrow> Res" where
  "delete_order s order =
     (let s1 = s\<lparr>order_index := (order_index s)(client_order_id (obj s order) := None)\<rparr>
      in if is_buy_c (obj s1 order) then
           (case orders_bid s1 (instrument_id (obj s1 order)) of
              None \<Rightarrow> Inr s1
            | Some bids \<Rightarrow>
                if order \<in> set bids then
                  Inr (s1\<lparr>orders_bid := (orders_bid s1)(instrument_id (obj s1 order) \<mapsto>
                             remove1 order bids)\<rparr>)
                else Inl ValueError)
         else
           (case orders_ask s1 (instrument_id (obj s1 order)) of
              None \<Rightarrow> Inr s1
            | Some asks \<Rightarrow>
                if order \<in> set asks then
                  Inr (s1\<lparr>orders_ask := (orders_ask s1)(instrument_id (obj s1 order) \<mapsto>
                             remove1 order asks)\<rparr>)
                else Inl ValueError))"

definition accept_order :: "SimulatedExchange \<Rightarrow> OrderRef \<Rightarrow> Res" where
  "accept_order s order = generate_order_accepted (add_order s order) order"

text \<open>
  \<^verbatim>\<open>_cancel_order\<close> and \<^verbatim>\<open>_cancel_oco_orders\<close> call each other, the second always with
  \<^verbatim>\<open>cancel_ocos=False\<close>, which ends the recursion. \<open>cancel_order_alone\<close> is
  \<^verbatim>\<open>_cancel_order\<close> up to its test of \<^verbatim>\<open>cancel_ocos\<close>.
\<close>

definition set_venue_order_id :: "SimulatedExchange \<Rightarrow> OrderRef \<Rightarrow> VenueOrderId \<Rightarrow> SimulatedExchange" where
  "set_venue_order_id s order void =
     s\<lparr>cache := (cache s)\<lparr>order_objs := (order_objs (cache s))
          (order := (obj s order)\<lparr>venue_order_id := Some void\<rparr>)\<rparr>\<rparr>"

definition cancel_order_alone :: "SimulatedExchange \<Rightarrow> OrderRef \<Rightarrow> Res" where
  "cancel_order_alone s order =
     seq (case venue_order_id (obj s order) of
            Some _ \<Rightarrow> Inr s
          | None \<Rightarrow>
              (case generate_venue_order_id s (instrument_id (obj s order)) of
                 Inl e \<Rightarrow> Inl e
               | Inr (new_id, s') \<Rightarrow> Inr (set_venue_order_id s' order new_id)))
       (\<lambda>s. Inr (generate_order_canceled
          (if is_buy_c (obj s order) then
             (case orders_bid s (instrument_id (obj s order)) of
                None \<Rightarrow> s
              | Some bids \<Rightarrow>
                  if order \<in> set bids then
                    s\<lparr>orders_bid := (orders_bid s)(instrument_id (obj s order) \<mapsto>
                         remove1 order bids)\<rparr>
                  else s)
           else
             (case orders_ask s (instrument_id (obj s order)) of
                None \<Rightarrow> s
              | Some asks \<Rightarrow>
                  if order \<in> set asks then
                    s\<lparr>orders_ask := (orders_ask s)(instrument_id (obj s order) \<mapsto>
                         remove1 order asks)\<rparr>
                  else s))
          order))"

definition cancel_oco_sibling :: "ClientOrderId \<Rightarrow> SimulatedExchange \<Rightarrow> Res" where
  "cancel_oco_sibling cid s =
     (case cache_order s cid of
        None \<Rightarrow> Inl (AssertionError ''OCO order not found'')
      | Some oco_order \<Rightarrow>
          if is_active_c (obj s oco_order) then cancel_order_alone s oco_order else Inr s)"

definition cancel_oco_orders :: "SimulatedExchange \<Rightarrow> OrderRef \<Rightarrow> Res" where
  "cancel_oco_orders s order = for_each (contingency_ids (obj s order)) cancel_oco_sibling s"

definition cancel_order :: "SimulatedExchange \<Rightarrow> OrderRef \<Rightarrow> bool \<Rightarrow> Res" where
  "cancel_order s order cancel_ocos =
     seq (cancel_order_alone s order)
       (\<lambda>s. if contingency (obj s order) = OCO \<and> cancel_ocos then cancel_oco_orders s order
            else Inr s)"

definition expire_order :: "SimulatedExchange \<Rightarrow> OrderRef \<Rightarrow> Res" where
  "expire_order s order =
     (let s1 = generate_order_expired s order
      in if contingency (obj s1 order) = OCO then cancel_oco_orders s1 order else Inr s1)"

subsection \<open>Filling and updating orders\<close>

text \<open>
  In the source \<^verbatim>\<open>_update_order\<close>, \<^verbatim>\<open>_update_limit_order\<close> (or
  \<^verbatim>\<open>_update_stop_limit_order\<close>), \<^verbatim>\<open>_fill_limit_order\<close>, \<^verbatim>\<open>_apply_fills\<close> and
  \<^verbatim>\<open>_fill_order\<close> call each other in a cycle that nothing in the code bounds. The model
  cuts the cycle at \<^verbatim>\<open>_update_order\<close>: the functions of the cycle take the function to
  call for \<^verbatim>\<open>self._update_order\<close> as their first argument \<open>upd\<close>, and \<open>update_order\<close>
  below closes the cycle with a bound on the depth of the nested calls, beyond which the
  run ends in \<open>RecursionError\<close> as Python's does.
\<close>

type_synonym UpdateOrder =
  "SimulatedExchange \<Rightarrow> OrderRef \<Rightarrow> Quantity option \<Rightarrow> Price option \<Rightarrow> Price option \<Rightarrow> bool \<Rightarrow> Res"

text \<open>The body of the loop of \<^verbatim>\<open>_fill_order\<close> over the children of an OTO order.\<close>

definition fill_order_oto_child :: "OrderRef \<Rightarrow> ClientOrderId \<Rightarrow> SimulatedExchange \<Rightarrow> Res" where
  "fill_order_oto_child order cid s =
     (case cache_order s cid of
        None \<Rightarrow> Inl (AssertionError ''OTO child order not found'')
      | Some child_order \<Rightarrow>
          seq (if position_id (obj s child_order) = None then
                 cache_add_position_id s (position_id (obj s order)) cid
               else Inr s)
            (\<lambda>s. if \<not> is_working_c (obj s child_order) then accept_order s child_order
                 else Inr s))"

text \<open>The body of the loop of \<^verbatim>\<open>_fill_order\<close> over the siblings of an OCO order.\<close>

definition fill_order_oco_sibling ::
  "UpdateOrder \<Rightarrow> OrderRef \<Rightarrow> ClientOrderId \<Rightarrow> SimulatedExchange \<Rightarrow> Res" where
  "fill_order_oco_sibling upd order cid s =
     (case cache_order s cid of
        None \<Rightarrow> Inl (AssertionError ''OCO order not found'')
      | Some oco_order \<Rightarrow>
          if is_completed_c (obj s order) \<and> is_active_c (obj s oco_order) then
            cancel_order s oco_order True
          else if leaves_qty (obj s order) \<noteq> leaves_qty (obj s oco_order) then
            upd s oco_order (Some (leaves_qty (obj s order))) (Some (price (obj s oco_order)))
              None False
          else Inr s)"

text \<open>
  The body of the last loop of \<^verbatim>\<open>_fill_order\<close>, over the orders of the position.
\<close>

definition fill_order_reduce_only ::
  "UpdateOrder \<Rightarrow> PositionRef \<Rightarrow> OrderRef \<Rightarrow> SimulatedExchange \<Rightarrow> Res" where
  "fill_order_reduce_only upd position order s =
     (if is_reduce_only (obj s order) \<and> is_active_c (obj s order) \<and> is_passive_c (obj s order) then
        (if pos_quantity (pos_obj s position) = 0 then cancel_order s order True
         else if leaves_qty (obj s order) \<noteq> pos_quantity (pos_obj s position) then
           upd s order (Some (pos_quantity (pos_obj s position))) (Some (price (obj s order)))
             None True
         else Inr s)
      else Inr s)"

text \<open>
  \<^verbatim>\<open>_fill_order\<close>. The commission is asked for \<^verbatim>\<open>last_qty=order.quantity\<close>. Iterating
  \<^verbatim>\<open>child_order_ids\<close> when it is \<^verbatim>\<open>None\<close> is a \<^verbatim>\<open>TypeError\<close>.
\<close>

definition fill_order ::
  "UpdateOrder \<Rightarrow> SimulatedExchange \<Rightarrow> Instrument \<Rightarrow> OrderRef \<Rightarrow> PositionId option
     \<Rightarrow> PositionRef option \<Rightarrow> Quantity \<Rightarrow> Price \<Rightarrow> LiquiditySide \<Rightarrow> Res" where
  "fill_order upd s instrument order venue_position_id position last_qty last_px liquidity_side =
     seq (generate_order_filled s order venue_position_id last_qty last_px
            (quote_currency instrument)
            (calculate_commission (exec_client s) instrument (quantity (obj s order)) last_px
               liquidity_side)
            liquidity_side)
    (\<lambda>s. seq (if is_passive_c (obj s order) \<and> is_completed_c (obj s order)
              then delete_order s order else Inr s)
    (\<lambda>s. seq (if contingency (obj s order) = OTO then
                (case child_order_ids (obj s order) of
                   None \<Rightarrow> Inl TypeError
                 | Some children \<Rightarrow> for_each children (fill_order_oto_child order) s)
              else if contingency (obj s order) = OCO then
                for_each (contingency_ids (obj s order)) (fill_order_oco_sibling upd order) s
              else Inr s)
    (\<lambda>s. case position of
           None \<Rightarrow> Inr s
         | Some p \<Rightarrow>
             for_each (cache_orders_for_position s venue_position_id)
               (fill_order_reduce_only upd p) s)))"

text \<open>
  The body of the loop of \<^verbatim>\<open>_apply_fills\<close> for one allocation \<open>(fill_px, fill_qty)\<close> of
  the plan. The result says whether the body ended in \<^verbatim>\<open>return\<close>, which leaves
  \<^verbatim>\<open>_apply_fills\<close> altogether. A \<^verbatim>\<open>Quantity\<close> is unsigned; reading \<^verbatim>\<open>position.quantity\<close>
  of no position is an \<^verbatim>\<open>AttributeError\<close>.
\<close>

definition apply_fill ::
  "UpdateOrder \<Rightarrow> Instrument \<Rightarrow> OrderRef \<Rightarrow> LiquiditySide \<Rightarrow> PositionId option
     \<Rightarrow> PositionRef option \<Rightarrow> Price \<Rightarrow> Quantity \<Rightarrow> SimulatedExchange
     \<Rightarrow> Err + (bool \<times> SimulatedExchange)" where
  "apply_fill upd instrument order liquidity_side venue_position_id position fill_px fill_qty s =
     (if is_reduce_only (obj s order) \<and> leaves_qty (obj s order) = 0 then Inr (True, s)
      else
        (let px1 = (if order_type (obj s order) = STOP_MARKET then price (obj s order)
                    else fill_px)
         in case (if book_type s = L1_TBBO then is_slipped s else (False, s)) of
              (slipped, s1) \<Rightarrow>
                (let px2 = (if slipped then
                              (if side (obj s1 order) = BUY then px1 + price_increment instrument
                               else px1 - price_increment instrument)
                            else px1)
                 in case (if is_reduce_only (obj s1 order) then
                            (case position of
                               None \<Rightarrow> Inl AttributeError
                             | Some p \<Rightarrow>
                                 if fill_qty > pos_quantity (pos_obj s1 p) then
                                   (let org_qty = fill_qty;
                                        adj_qty = fill_qty - (fill_qty - pos_quantity (pos_obj s1 p));
                                        updated_qty = quantity (obj s1 order) - (org_qty - adj_qty)
                                    in if adj_qty < 0 then Inl ValueError
                                       else if updated_qty > 0 then
                                         (case generate_order_updated s1 order updated_qty None None of
                                            Inl e \<Rightarrow> Inl e
                                          | Inr s2 \<Rightarrow> Inr (adj_qty, s2))
                                       else Inr (adj_qty, s1))
                                 else Inr (fill_qty, s1))
                          else Inr (fill_qty, s1)) of
                      Inl e \<Rightarrow> Inl e
                    | Inr (qty, s2) \<Rightarrow>
                        if qty \<le> 0 then Inr (True, s2)
                        else
                          (case fill_order upd s2 instrument order venue_position_id position
                                  qty px2 liquidity_side of
                             Inl e \<Rightarrow> Inl e
                           | Inr s3 \<Rightarrow> Inr (False, s3)))))"

fun apply_fills_loop ::
  "UpdateOrder \<Rightarrow> Instrument \<Rightarrow> OrderRef \<Rightarrow> LiquiditySide \<Rightarrow> PositionId option
     \<Rightarrow> PositionRef option \<Rightarrow> (Price \<times> Quantity) list \<Rightarrow> SimulatedExchange
     \<Rightarrow> Err + (bool \<times> SimulatedExchange)" where
  "apply_fills_loop upd instrument order liquidity_side venue_position_id position [] s =
     Inr (False, s)"
| "apply_fills_loop upd instrument order liquidity_side venue_position_id position
     ((fill_px, fill_qty) # fills) s =
     (case apply_fill upd instrument order liquidity_side venue_position_id position
             fill_px fill_qty s of
        Inl e \<Rightarrow> Inl e
      | Inr (returned, s') \<Rightarrow>
          if returned then Inr (True, s')
          else apply_fills_loop upd instrument order liquidity_side venue_position_id position
                 fills s')"

definition apply_fills ::
  "UpdateOrder \<Rightarrow> SimulatedExchange \<Rightarrow> OrderRef \<Rightarrow> LiquiditySide \<Rightarrow> (Price \<times> Quantity) list
     \<Rightarrow> PositionId option \<Rightarrow> PositionRef option \<Rightarrow> Res" where
  "apply_fills upd s order liquidity_side fills venue_position_id position =
     (if fills = [] then Inr s
      else
        (case instruments s (instrument_id (obj s order)) of
           None \<Rightarrow> Inl KeyError
         | Some instrument \<Rightarrow>
             (case apply_fills_loop upd instrument order liquidity_side venue_position_id
                     position fills s of
                Inl e \<Rightarrow> Inl e
              | Inr (returned, s1) \<Rightarrow>
                  if returned then Inr s1
                  else if is_working_c (obj s1 order) \<and> book_type s1 = L1_TBBO
                          \<and> (order_type (obj s1 order) = MARKET
                               \<or> order_type (obj s1 order) = STOP_MARKET) then
                    fill_order upd s1 instrument order venue_position_id position
                      (leaves_qty (obj s1 order))
                      (if side (obj s1 order) = BUY
                       then fst (last fills) + price_increment instrument
                       else fst (last fills) - price_increment instrument)
                      liquidity_side
                  else Inr s1)))"

definition fill_limit_order ::
  "UpdateOrder \<Rightarrow> SimulatedExchange \<Rightarrow> OrderRef \<Rightarrow> LiquiditySide \<Rightarrow> Res" where
  "fill_limit_order upd s order liquidity_side =
     (case get_position_id s order True of
        Inl e \<Rightarrow> Inl e
      | Inr (venue_position_id, s1) \<Rightarrow>
          (let position = (case venue_position_id of
                             None \<Rightarrow> None | Some p \<Rightarrow> cache_position s1 p)
           in if is_reduce_only (obj s1 order) \<and> position = None then cancel_order s1 order True
              else
                (case determine_limit_price_and_volume s1 order of
                   Inl e \<Rightarrow> Inl e
                 | Inr (fills, s2) \<Rightarrow>
                     apply_fills upd s2 order liquidity_side fills venue_position_id position)))"

definition fill_market_order ::
  "UpdateOrder \<Rightarrow> SimulatedExchange \<Rightarrow> OrderRef \<Rightarrow> LiquiditySide \<Rightarrow> Res" where
  "fill_market_order upd s order liquidity_side =
     (case get_position_id s order True of
        Inl e \<Rightarrow> Inl e
      | Inr (venue_position_id, s1) \<Rightarrow>
          (let position = (case venue_position_id of
                             None \<Rightarrow> None | Some p \<Rightarrow> cache_position s1 p)
           in if is_reduce_only (obj s1 order) \<and> position = None then cancel_order s1 order True
              else
                (case determine_market_price_and_volume s1 order of
                   Inl e \<Rightarrow> Inl e
                 | Inr (fills, s2) \<Rightarrow>
                     apply_fills upd s2 order liquidity_side fills venue_position_id position)))"

definition post_only_reason :: "SimulatedExchange \<Rightarrow> OrderRef \<Rightarrow> string \<Rightarrow> Price \<Rightarrow> string" where
  "post_only_reason s order what px =
     ''POST_ONLY LIMIT '' @ side_string_c (obj s order) @ what @ str_int px
       @ '' would have been a TAKER: bid=''
       @ str_price_opt (best_bid_price s (instrument_id (obj s order)))
       @ '', ask='' @ str_price_opt (best_ask_price s (instrument_id (obj s order)))"

definition in_market_reason :: "SimulatedExchange \<Rightarrow> OrderRef \<Rightarrow> string \<Rightarrow> string \<Rightarrow> Price \<Rightarrow> string" where
  "in_market_reason s order kind what px =
     kind @ side_string_c (obj s order) @ what @ str_int px
       @ '' was in the market: bid=''
       @ str_price_opt (best_bid_price s (instrument_id (obj s order)))
       @ '', ask='' @ str_price_opt (best_ask_price s (instrument_id (obj s order)))"

definition update_limit_order ::
  "UpdateOrder \<Rightarrow> SimulatedExchange \<Rightarrow> OrderRef \<Rightarrow> Quantity \<Rightarrow> Price \<Rightarrow> Res" where
  "update_limit_order upd s order qty px =
     (if is_limit_marketable s (instrument_id (obj s order)) (side (obj s order)) px then
        (if is_post_only (obj s order) then
           Inr (generate_order_modify_rejected s (strategy_id (obj s order))
                  (instrument_id (obj s order)) (client_order_id (obj s order))
                  (venue_order_id (obj s order))
                  (post_only_reason s order '' order new limit px of '' px))
         else
           seq (generate_order_updated s order qty (Some px) None)
             (\<lambda>s. fill_limit_order upd s order TAKER))
      else generate_order_updated s order qty (Some px) None)"

definition update_stop_market_order ::
  "SimulatedExchange \<Rightarrow> OrderRef \<Rightarrow> Quantity \<Rightarrow> Price \<Rightarrow> Res" where
  "update_stop_market_order s order qty px =
     (if is_stop_marketable s (instrument_id (obj s order)) (side (obj s order)) px then
        Inr (generate_order_modify_rejected s (strategy_id (obj s order))
               (instrument_id (obj s order)) (client_order_id (obj s order))
               (venue_order_id (obj s order))
               (in_market_reason s order ''STOP '' '' order new stop px of '' px))
      else generate_order_updated s order qty (Some px) None)"

text \<open>
  \<^verbatim>\<open>_update_stop_limit_order\<close>; its caller has replaced a missing trigger by the order's,
  so \<^verbatim>\<open>trigger or order.trigger\<close> is the trigger given.
\<close>

definition update_stop_limit_order ::
  "UpdateOrder \<Rightarrow> SimulatedExchange \<Rightarrow> OrderRef \<Rightarrow> Quantity \<Rightarrow> Price \<Rightarrow> Price \<Rightarrow> Res" where
  "update_stop_limit_order upd s order qty px trg =
     (if \<not> is_triggered (obj s order) then
        (if is_stop_marketable s (instrument_id (obj s order)) (side (obj s order)) px then
           Inr (generate_order_modify_rejected s (strategy_id (obj s order))
                  (instrument_id (obj s order)) (client_order_id (obj s order))
                  (venue_order_id (obj s order))
                  (in_market_reason s order ''STOP_LIMIT '' '' order new trigger stop px of '' px))
         else generate_order_updated s order qty (Some px) (Some trg))
      else
        (if is_limit_marketable s (instrument_id (obj s order)) (side (obj s order)) px then
           (if is_post_only (obj s order) then
              Inr (generate_order_modify_rejected s (strategy_id (obj s order))
                     (instrument_id (obj s order)) (client_order_id (obj s order))
                     (venue_order_id (obj s order))
                     (post_only_reason s order '' order  new limit px of '' px))
            else
              seq (generate_order_updated s order qty (Some px) None)
                (\<lambda>s. fill_limit_order upd s order TAKER))
         else generate_order_updated s order qty (Some px) (Some trg)))"

definition update_oco_sibling ::
  "UpdateOrder \<Rightarrow> OrderRef \<Rightarrow> ClientOrderId \<Rightarrow> SimulatedExchange \<Rightarrow> Res" where
  "update_oco_sibling upd order cid s =
     (case cache_order s cid of
        None \<Rightarrow> Inl (AssertionError ''OCO order not found'')
      | Some oco_order \<Rightarrow>
          if leaves_qty (obj s oco_order) \<noteq> leaves_qty (obj s order) then
            upd s oco_order (Some (leaves_qty (obj s order))) (Some (price (obj s oco_order)))
              None False
          else Inr s)"

definition update_oco_orders :: "UpdateOrder \<Rightarrow> SimulatedExchange \<Rightarrow> OrderRef \<Rightarrow> Res" where
  "update_oco_orders upd s order =
     for_each (contingency_ids (obj s order)) (update_oco_sibling upd order) s"

text \<open>The body of \<^verbatim>\<open>_update_order\<close>, with \<open>upd\<close> for its recursive calls.\<close>

definition update_order_body :: "UpdateOrder \<Rightarrow> UpdateOrder" where
  "update_order_body upd s order qty px trg update_ocos =
     seq (let qty' = (case qty of None \<Rightarrow> quantity (obj s order) | Some q \<Rightarrow> q);
              px' = (case px of None \<Rightarrow> price (obj s order) | Some p \<Rightarrow> p)
          in case order_type (obj s order) of
               LIMIT \<Rightarrow> update_limit_order upd s order qty' px'
             | STOP_MARKET \<Rightarrow> update_stop_market_order s order qty' px'
             | STOP_LIMIT \<Rightarrow>
                 update_stop_limit_order upd s order qty' px'
                   (case trg of None \<Rightarrow> trigger (obj s order) | Some t \<Rightarrow> t)
             | MARKET \<Rightarrow> Inl (RuntimeError ''invalid order type''))
       (\<lambda>s. if contingency (obj s order) = OCO \<and> update_ocos then update_oco_orders upd s order
            else Inr s)"

text \<open>
  \<^verbatim>\<open>_update_order\<close>, nested at most \<open>depth\<close> deep.
\<close>

primrec update_order :: "nat \<Rightarrow> UpdateOrder" where
  "update_order 0 = (\<lambda>s order qty px trg update_ocos. Inl RecursionError)"
| "update_order (Suc depth) = update_order_body (update_order depth)"

subsection \<open>Command handling\<close>

definition process_market_order :: "nat \<Rightarrow> SimulatedExchange \<Rightarrow> OrderRef \<Rightarrow> Res" where
  "process_market_order depth s order =
     (if side (obj s order) = BUY \<and> best_ask_price s (instrument_id (obj s order)) = None then
        Inr (generate_order_rejected s order (''no market for '' @ instrument_id (obj s order)))
      else if side (obj s order) = SELL \<and> best_bid_price s (instrument_id (obj s order)) = None then
        Inr (generate_order_rejected s order (''no market for '' @ instrument_id (obj s order)))
      else fill_market_order (update_order depth) s order TAKER)"

definition process_limit_order :: "nat \<Rightarrow> SimulatedExchange \<Rightarrow> OrderRef \<Rightarrow> Res" where
  "process_limit_order depth s order =
     (if is_post_only (obj s order)
         \<and> is_limit_marketable s (instrument_id (obj s order)) (side (obj s order))
             (price (obj s order)) then
        Inr (generate_order_rejected s order
               (post_only_reason s order '' order limit px of '' (price (obj s order))))
      else
        seq (accept_order s order)
          (\<lambda>s. case is_limit_matched s (instrument_id (obj s order)) (side (obj s order))
                      (price (obj s order)) of
                 (matched, s1) \<Rightarrow>
                   if matched then fill_limit_order (update_order depth) s1 order TAKER
                   else Inr s1))"

definition process_stop_market_order :: "SimulatedExchange \<Rightarrow> OrderRef \<Rightarrow> Res" where
  "process_stop_market_order s order =
     (if is_stop_marketable s (instrument_id (obj s order)) (side (obj s order))
           (price (obj s order))
         \<and> reject_stop_orders s then
        Inr (generate_order_rejected s order
               (in_market_reason s order ''STOP '' '' order stop px of '' (price (obj s order))))
      else accept_order s order)"

definition process_stop_limit_order :: "SimulatedExchange \<Rightarrow> OrderRef \<Rightarrow> Res" where
  "process_stop_limit_order s order =
     (if is_stop_marketable s (instrument_id (obj s order)) (side (obj s order))
           (trigger (obj s order)) then
        Inr (generate_order_rejected s order
               (in_market_reason s order ''STOP_LIMIT '' '' order trigger stop px of ''
                  (trigger (obj s order))))
      else accept_order s order)"

text \<open>
  The parts of \<^verbatim>\<open>_process_order\<close> after its first test. The result of the first two says
  whether the method has returned.
\<close>

definition process_order_oto :: "SimulatedExchange \<Rightarrow> OrderRef \<Rightarrow> Err + (bool \<times> SimulatedExchange)" where
  "process_order_oto s order =
     (case (if contingency (obj s order) = OTO then
              (case child_order_ids (obj s order) of
                 None \<Rightarrow> Inl (AssertionError [])
               | Some children \<Rightarrow>
                   Inr (s\<lparr>oto_orders :=
                          fold (\<lambda>cid m. m(cid \<mapsto> client_order_id (obj s order))) children
                            (oto_orders s)\<rparr>))
            else Inr s) of
        Inl e \<Rightarrow> Inl e
      | Inr s1 \<Rightarrow>
          (case parent_order_id (obj s1 order) of
             None \<Rightarrow> Inr (False, s1)
           | Some parent_id \<Rightarrow>
               if oto_orders s1 (client_order_id (obj s1 order)) \<noteq> None then
                 (case cache_order s1 parent_id of
                    None \<Rightarrow> Inl (AssertionError ''OTO parent not found'')
                  | Some parent \<Rightarrow>
                      if status (obj s1 parent) = REJECTED \<and> is_active_c (obj s1 order) then
                        Inr (True,
                             generate_order_rejected s1 order
                               (''REJECT OTO from '' @ client_order_id (obj s1 parent)))
                      else if status (obj s1 parent) = ACCEPTED then Inr (True, s1)
                      else Inr (False, s1))
               else Inr (False, s1)))"

definition process_order_reduce_only :: "SimulatedExchange \<Rightarrow> OrderRef \<Rightarrow> bool \<times> SimulatedExchange" where
  "process_order_reduce_only s order =
     (if is_reduce_only (obj s order) then
        (case cache_position_for_order s (client_order_id (obj s order)) of
           None \<Rightarrow>
             (True,
              generate_order_rejected s order
                (''REDUCE_ONLY '' @ type_string_c (obj s order) @ '' ''
                   @ side_string_c (obj s order) @ '' order would have increased position.''))
         | Some position \<Rightarrow>
             if is_closed_c (pos_obj s position)
                \<or> (is_buy_c (obj s order) \<and> is_long_c (pos_obj s position))
                \<or> (is_sell_c (obj s order) \<and> is_short_c (pos_obj s position)) then
               (True,
                generate_order_rejected s order
                  (''REDUCE_ONLY '' @ type_string_c (obj s order) @ '' ''
                     @ side_string_c (obj s order) @ '' order would have increased position.''))
             else (False, s))
      else (False, s))"

definition process_order_dispatch :: "nat \<Rightarrow> SimulatedExchange \<Rightarrow> OrderRef \<Rightarrow> Res" where
  "process_order_dispatch depth s order =
     (case order_type (obj s order) of
        MARKET \<Rightarrow> process_market_order depth s order
      | LIMIT \<Rightarrow> process_limit_order depth s order
      | STOP_MARKET \<Rightarrow> process_stop_market_order s order
      | STOP_LIMIT \<Rightarrow> process_stop_limit_order s order)"

definition process_order :: "nat \<Rightarrow> SimulatedExchange \<Rightarrow> OrderRef \<Rightarrow> Res" where
  "process_order depth s order =
     (if order_index s (client_order_id (obj s order)) \<noteq> None then Inr s
      else
        (case process_order_oto s order of
           Inl e \<Rightarrow> Inl e
         | Inr (returned, s1) \<Rightarrow>
             if returned then Inr s1
             else
               (case process_order_reduce_only s1 order of
                  (returned', s2) \<Rightarrow>
                    if returned' then Inr s2 else process_order_dispatch depth s2 order)))"

text \<open>
  The body of the loop of \<^verbatim>\<open>process\<close> for one command taken from the queue.
  \<^verbatim>\<open>_order_index.pop(cid, None)\<close> removes the order from the index before anything else
  is looked at.
\<close>

definition process_command :: "nat \<Rightarrow> SimulatedExchange \<Rightarrow> TradingCommand \<Rightarrow> Res" where
  "process_command depth s command =
     (case command of
        SubmitOrder order \<Rightarrow> process_order depth s order
      | SubmitOrderList orders \<Rightarrow> for_each orders (\<lambda>order s. process_order depth s order) s
      | CancelOrder strat iid cid void \<Rightarrow>
          (case order_index s cid of
             None \<Rightarrow>
               Inr (generate_order_cancel_rejected s strat iid cid void
                      (repr_ClientOrderId cid @ '' not found''))
           | Some order \<Rightarrow>
               (let s1 = s\<lparr>order_index := (order_index s)(cid := None)\<rparr>
                in if is_active_c (obj s1 order) then
                     cancel_order (generate_order_pending_cancel s1 order) order True
                   else Inr s1))
      | ModifyOrder strat iid cid void qty px trg \<Rightarrow>
          (case order_index s cid of
             None \<Rightarrow>
               Inr (generate_order_modify_rejected s strat iid cid void
                      (repr_ClientOrderId cid @ '' not found''))
           | Some order \<Rightarrow>
               update_order depth (generate_order_pending_update s order) order qty px trg True))"

text \<open>
  \<^verbatim>\<open>process\<close>: the clock is set, the queue is drained in order, and the last bar prices
  are cleared. Nothing the exchange calls puts a command into the queue, so the loop runs
  over the commands queued at its start; each is taken from the queue before it is
  processed.
\<close>

definition process :: "nat \<Rightarrow> SimulatedExchange \<Rightarrow> int \<Rightarrow> Res" where
  "process depth s now_ns =
     seq (for_each (message_queue s)
            (\<lambda>command s. process_command depth (s\<lparr>message_queue := tl (message_queue s)\<rparr>) command)
            (s\<lparr>clock := now_ns\<rparr>))
       (\<lambda>s. Inr (s\<lparr>last_bids := Map.empty, last_asks := Map.empty\<rparr>))"

definition reset :: "SimulatedExchange \<Rightarrow> SimulatedExchange" where
  "reset s =
     (generate_fresh_account_state s)
       \<lparr>books := Map.empty, last_bids := Map.empty, last_asks := Map.empty,
        order_index := Map.empty, orders_bid := Map.empty, orders_ask := Map.empty,
        symbol_pos_count := Map.empty, symbol_ord_count := Map.empty,
        executions_count := 0, message_queue := []\<rparr>"

subsection \<open>The matching engine\<close>

definition match_limit_order :: "nat \<Rightarrow> SimulatedExchange \<Rightarrow> OrderRef \<Rightarrow> Res" where
  "match_limit_order depth s order =
     (case is_limit_matched s (instrument_id (obj s order)) (side (obj s order))
             (price (obj s order)) of
        (matched, s1) \<Rightarrow>
          if matched then fill_limit_order (update_order depth) s1 order MAKER else Inr s1)"

definition match_stop_market_order :: "nat \<Rightarrow> SimulatedExchange \<Rightarrow> OrderRef \<Rightarrow> Res" where
  "match_stop_market_order depth s order =
     (case is_stop_triggered s (instrument_id (obj s order)) (side (obj s order))
             (price (obj s order)) of
        (triggered, s1) \<Rightarrow>
          if triggered then fill_market_order (update_order depth) s1 order TAKER else Inr s1)"

definition match_stop_limit_order :: "nat \<Rightarrow> SimulatedExchange \<Rightarrow> OrderRef \<Rightarrow> Res" where
  "match_stop_limit_order depth s order =
     (if is_triggered (obj s order) then
        (case is_limit_matched s (instrument_id (obj s order)) (side (obj s order))
                (price (obj s order)) of
           (matched, s1) \<Rightarrow>
             if matched then fill_limit_order (update_order depth) s1 order MAKER else Inr s1)
      else
        (case is_stop_triggered s (instrument_id (obj s order)) (side (obj s order))
                (trigger (obj s order)) of
           (triggered, s1) \<Rightarrow>
             if triggered then
               (let s2 = generate_order_triggered s1 order
                in if \<not> is_limit_marketable s2 (instrument_id (obj s2 order))
                          (side (obj s2 order)) (price (obj s2 order)) then Inr s2
                   else if is_post_only (obj s2 order) then
                     seq (delete_order s2 order)
                       (\<lambda>s. Inr (generate_order_rejected s order
                                   (post_only_reason s order '' order limit px of ''
                                      (price (obj s order)))))
                   else fill_limit_order (update_order depth) s2 order TAKER)
             else Inr s1))"

definition match_order :: "nat \<Rightarrow> SimulatedExchange \<Rightarrow> OrderRef \<Rightarrow> Res" where
  "match_order depth s order =
     (case order_type (obj s order) of
        LIMIT \<Rightarrow> match_limit_order depth s order
      | STOP_MARKET \<Rightarrow> match_stop_market_order depth s order
      | STOP_LIMIT \<Rightarrow> match_stop_limit_order depth s order
      | MARKET \<Rightarrow> Inl (RuntimeError ''invalid order type''))"

text \<open>The body of the loop of \<^verbatim>\<open>_iterate_side\<close> for one order of the copied list.\<close>

definition iterate_order :: "nat \<Rightarrow> int \<Rightarrow> OrderRef \<Rightarrow> SimulatedExchange \<Rightarrow> Res" where
  "iterate_order depth timestamp order s =
     (if \<not> is_working_c (obj s order) then Inr s
      else if expire_time (obj s order) \<noteq> None \<and> timestamp \<ge> expire_time_ns (obj s order) then
        seq (delete_order s order) (\<lambda>s. expire_order s order)
      else match_order depth s order)"

definition iterate_side :: "nat \<Rightarrow> SimulatedExchange \<Rightarrow> OrderRef list \<Rightarrow> int \<Rightarrow> Res" where
  "iterate_side depth s orders timestamp = for_each orders (iterate_order depth timestamp) s"

definition iterate_matching_engine :: "nat \<Rightarrow> SimulatedExchange \<Rightarrow> InstrumentId \<Rightarrow> int \<Rightarrow> Res" where
  "iterate_matching_engine depth s iid timestamp =
     seq (case orders_bid s iid of
            None \<Rightarrow> Inr s
          | Some bids \<Rightarrow> iterate_side depth s bids timestamp)
       (\<lambda>s. case orders_ask s iid of
              None \<Rightarrow> Inr s
            | Some asks \<Rightarrow> iterate_side depth s asks timestamp)"

definition process_order_book :: "nat \<Rightarrow> SimulatedExchange \<Rightarrow> OrderBookData \<Rightarrow> Res" where
  "process_order_book depth s data =
     (case get_book (s\<lparr>clock := data_ts_init data\<rparr>) (data_instrument_id data) of
        Inl e \<Rightarrow> Inl e
      | Inr (book, s1) \<Rightarrow>
          iterate_matching_engine depth
            (s1\<lparr>books := (books s1)(data_instrument_id data \<mapsto> data_apply data book)\<rparr>)
            (data_instrument_id data) (data_ts_init data))"

definition process_tick :: "nat \<Rightarrow> SimulatedExchange \<Rightarrow> Tick \<Rightarrow> Res" where
  "process_tick depth s tick =
     (case get_book (s\<lparr>clock := tick_ts_init tick\<rparr>) (tick_instrument_id tick) of
        Inl e \<Rightarrow> Inl e
      | Inr (book, s1) \<Rightarrow>
          iterate_matching_engine depth
            (if book_level book = L1_TBBO then
               s1\<lparr>books := (books s1)(tick_instrument_id tick \<mapsto> tick_update tick book)\<rparr>
             else s1)
            (tick_instrument_id tick) (tick_ts_init tick))"

definition process_bar :: "SimulatedExchange \<Rightarrow> int \<Rightarrow> SimulatedExchange" where
  "process_bar s bar_ts_init = s\<lparr>clock := bar_ts_init\<rparr>"

subsection \<open>A world for the worked examples\<close>

text \<open>
  Modelled from the spec: the execution engine and the order and position classes are not
  among the sources. The execution client of the worked examples follows the spec's order
  state machine: \<open>OrderAccepted\<close> assigns the venue order id;
  \<open>OrderUpdated(qty, price, trigger)\<close> mutates the order (orders "are mutated on modify")
  and keeps \<open>filled_qty + leaves_qty = quantity\<close>; a fill adds to \<open>filled_qty\<close>, and the
  order is \<open>Filled\<close> when nothing is left; canceled, expired and rejected orders are
  terminal. A fill for a venue position id moves that position by the filled quantity.
\<close>

definition restored_status :: "Order \<Rightarrow> OrderStatus" where
  "restored_status order =
     (if filled_qty order > 0 then PARTIALLY_FILLED
      else if is_triggered order then TRIGGERED else ACCEPTED)"

definition apply_order_event :: "Event \<Rightarrow> Order \<Rightarrow> Order" where
  "apply_order_event e order =
     (case e of
        AccountState b r t \<Rightarrow> order
      | OrderSubmitted st i c t \<Rightarrow> order\<lparr>status := SUBMITTED\<rparr>
      | OrderRejected st i c r t \<Rightarrow> order\<lparr>status := REJECTED\<rparr>
      | OrderAccepted st i c v t \<Rightarrow> order\<lparr>status := ACCEPTED, venue_order_id := v\<rparr>
      | OrderPendingUpdate st i c v t \<Rightarrow> order\<lparr>status := PENDING_UPDATE\<rparr>
      | OrderPendingCancel st i c v t \<Rightarrow> order\<lparr>status := PENDING_CANCEL\<rparr>
      | OrderModifyRejected st i c v r t \<Rightarrow> order\<lparr>status := restored_status order\<rparr>
      | OrderCancelRejected st i c v r t \<Rightarrow> order\<lparr>status := restored_status order\<rparr>
      | OrderUpdated st i c v q p g t m \<Rightarrow>
          order\<lparr>venue_order_id := v, quantity := q, leaves_qty := q - filled_qty order,
                price := (case p of None \<Rightarrow> price order | Some p' \<Rightarrow> p'),
                trigger := (case g of None \<Rightarrow> trigger order | Some g' \<Rightarrow> g'),
                status := restored_status order\<rparr>
      | OrderCanceled st i c v t \<Rightarrow> order\<lparr>status := CANCELED\<rparr>
      | OrderTriggered st i c v t \<Rightarrow> order\<lparr>status := TRIGGERED, is_triggered := True\<rparr>
      | OrderExpired st i c v t \<Rightarrow> order\<lparr>status := EXPIRED\<rparr>
      | OrderFilled st i c v vp x sd ty lq lp qc cm ls t \<Rightarrow>
          order\<lparr>venue_order_id := v, position_id := vp,
                filled_qty := filled_qty order + lq,
                leaves_qty := quantity order - (filled_qty order + lq),
                status := (if quantity order - (filled_qty order + lq) \<le> 0 then FILLED
                           else PARTIALLY_FILLED)\<rparr>)"

definition signed_quantity :: "Position \<Rightarrow> int" where
  "signed_quantity position =
     (case pos_side position of
        FLAT \<Rightarrow> 0 | LONG \<Rightarrow> pos_quantity position | SHORT \<Rightarrow> - pos_quantity position)"

definition apply_position_fill :: "Event \<Rightarrow> Cache \<Rightarrow> Cache" where
  "apply_position_fill e c =
     (case e of
        OrderFilled st i cid v vp x sd ty lq lp qc cm ls t \<Rightarrow>
          (case vp of
             None \<Rightarrow> c
           | Some p \<Rightarrow>
               (let old = (if p \<in> set (cached_positions c) then signed_quantity (position_objs c p)
                           else 0);
                    new = old + (if sd = BUY then lq else - lq)
                in c\<lparr>position_objs := (position_objs c)
                        (p := \<lparr>pos_id = p, pos_instrument_id = i,
                               pos_side = (if new > 0 then LONG else if new < 0 then SHORT
                                           else FLAT),
                               pos_quantity = abs new\<rparr>),
                      cached_positions := (if p \<in> set (cached_positions c)
                                           then cached_positions c
                                           else cached_positions c @ [p]),
                      order_position_ids := (order_position_ids c)(cid \<mapsto> p)\<rparr>))
      | _ \<Rightarrow> c)"

definition example_handle_event :: "Event \<Rightarrow> Cache \<Rightarrow> Cache" where
  "example_handle_event e c =
     (case e of
        AccountState b r t \<Rightarrow> c
      | _ \<Rightarrow>
          apply_position_fill e
            (c\<lparr>order_objs := (order_objs c)
                  (ev_client_order_id e := apply_order_event e (order_objs c (ev_client_order_id e)))\<rparr>))"

text \<open>A commission of one unit of the quote currency for each unit of quantity.\<close>

definition example_commission :: "Instrument \<Rightarrow> Quantity \<Rightarrow> Price \<Rightarrow> LiquiditySide \<Rightarrow> Money" where
  "example_commission instrument last_qty last_px liquidity_side =
     \<lparr>amount = last_qty, currency = quote_currency instrument\<rparr>"

definition example_instrument :: Instrument where
  "example_instrument =
     \<lparr>instr_id = ''AUD/USD.SIM'', quote_currency = ''USD'', price_precision = 0,
      price_increment = 1\<rparr>"

definition example_order ::
  "ClientOrderId \<Rightarrow> OrderSide \<Rightarrow> OrderType \<Rightarrow> Quantity \<Rightarrow> Price \<Rightarrow> OrderStatus \<Rightarrow> Order" where
  "example_order cid sd ty qty px st =
     \<lparr>client_order_id = cid, strategy_id = ''S-001'', instrument_id = ''AUD/USD.SIM'',
      side = sd, order_type = ty, quantity = qty, filled_qty = 0, leaves_qty = qty,
      price = px, trigger = 0, is_post_only = False, is_reduce_only = False,
      is_triggered = False, expire_time = None, expire_time_ns = 0,
      contingency = NO_CONTINGENCY, parent_order_id = None, child_order_ids = None,
      contingency_ids = [], venue_order_id = None, position_id = None, status = st\<rparr>"

text \<open>A book with the given best prices whose ladders give every order the given plan.\<close>

definition example_book :: "BookType \<Rightarrow> Price option \<Rightarrow> Price option \<Rightarrow> (Price \<times> Quantity) list \<Rightarrow> OrderBook" where
  "example_book level bid ask plan =
     \<lparr>book_level = level, book_price_precision = 0, book_best_bid_price = bid,
      book_best_ask_price = ask, asks_simulate_order_fills = (\<lambda>_ _. plan),
      bids_simulate_order_fills = (\<lambda>_ _. plan)\<rparr>"

text \<open>
  An exchange for one instrument at time 10 with the given order objects, none of them
  working yet, no positions, and a fill model whose draws all fail.
\<close>

definition example_exchange :: "OMSType \<Rightarrow> BookType \<Rightarrow> (OrderRef \<Rightarrow> Order) \<Rightarrow> OrderBook \<Rightarrow> SimulatedExchange" where
  "example_exchange oms level objs book =
     \<lparr>clock = 10, oms_type = oms, book_type = level, bar_execution = False,
      reject_stop_orders = True, is_frozen_account = False,
      starting_balances = [\<lparr>amount = 1000000, currency = ''USD''\<rparr>],
      exec_client = \<lparr>handle_event = example_handle_event,
                     calculate_commission = example_commission\<rparr>,
      cache = \<lparr>order_objs = objs, cached_orders = [''O-1'', ''O-2''],
               position_objs = (\<lambda>_. \<lparr>pos_id = [], pos_instrument_id = [], pos_side = FLAT,
                                      pos_quantity = 0\<rparr>),
               cached_positions = [], order_position_ids = Map.empty,
               account_for_venue = None\<rparr>,
      fill_model = \<lparr>limit_outcome = (\<lambda>_. False), stop_outcome = (\<lambda>_. False),
                    slip_outcome = (\<lambda>_. False), draws = 0\<rparr>,
      instruments = [''AUD/USD.SIM'' \<mapsto> example_instrument],
      instrument_indexer = [''AUD/USD.SIM'' \<mapsto> 1],
      books = [''AUD/USD.SIM'' \<mapsto> book],
      last_bids = Map.empty, last_asks = Map.empty, order_index = Map.empty,
      orders_bid = Map.empty, orders_ask = Map.empty, oto_orders = Map.empty,
      symbol_pos_count = Map.empty, symbol_ord_count = Map.empty, executions_count = 0,
      message_queue = [], emitted = []\<rparr>"

text \<open>The exchanges of the worked examples.\<close>

definition expiring_exchange :: SimulatedExchange where
  "expiring_exchange =
     (example_exchange HEDGING L1_TBBO
        (\<lambda>_. (example_order ''O-1'' BUY LIMIT 10 100 ACCEPTED)
                \<lparr>expire_time := Some 5, expire_time_ns := 5\<rparr>)
        (example_book L1_TBBO (Some 99) (Some 101) []))
       \<lparr>orders_bid := [''AUD/USD.SIM'' \<mapsto> [''O-1'']], order_index := [''O-1'' \<mapsto> ''O-1''],
        message_queue := [CancelOrder ''S-001'' ''AUD/USD.SIM'' ''O-7'' None]\<rparr>"

definition example_tick :: Tick where
  "example_tick = \<lparr>tick_instrument_id = ''AUD/USD.SIM'', tick_ts_init = 10,
                    tick_update = (\<lambda>book. book)\<rparr>"

definition example_book_data :: OrderBookData where
  "example_book_data = \<lparr>data_instrument_id = ''AUD/USD.SIM'', data_ts_init = 10,
                         data_apply = (\<lambda>book. book)\<rparr>"

definition stop_exchange :: SimulatedExchange where
  "stop_exchange =
     (example_exchange HEDGING L2_MBP
        (\<lambda>_. example_order ''O-1'' BUY STOP_MARKET 30 99 ACCEPTED)
        (example_book L2_MBP (Some 99) (Some 100) [(100, 10), (101, 20)]))
       \<lparr>orders_bid := [''AUD/USD.SIM'' \<mapsto> [''O-1'']], order_index := [''O-1'' \<mapsto> ''O-1'']\<rparr>"

definition post_only_exchange :: SimulatedExchange where
  "post_only_exchange =
     example_exchange HEDGING L1_TBBO
       (\<lambda>_. (example_order ''O-1'' BUY LIMIT 10 100 SUBMITTED)\<lparr>is_post_only := True\<rparr>)
       (example_book L1_TBBO (Some 99) (Some 100) [(100, 10)])"

text \<open>
  An OTO order \<open>O-1\<close> (a Limit order to buy at 101, filled at once against the ask of 100)
  and its child \<open>O-2\<close>, a post-only Limit order to buy at 100; both are submitted.
\<close>

definition oto_exchange :: SimulatedExchange where
  "oto_exchange =
     (example_exchange HEDGING L1_TBBO
        ((\<lambda>_. (example_order ''O-1'' BUY LIMIT 10 101 SUBMITTED)
                 \<lparr>contingency := OTO, child_order_ids := Some [''O-2'']\<rparr>)
           (''O-2'' := (example_order ''O-2'' BUY LIMIT 10 100 SUBMITTED)
                 \<lparr>is_post_only := True, parent_order_id := Some ''O-1''\<rparr>))
        (example_book L1_TBBO (Some 99) (Some 100) [(100, 10)]))
       \<lparr>message_queue := [SubmitOrder ''O-1'', SubmitOrder ''O-2'']\<rparr>"

definition post_only_working_exchange :: SimulatedExchange where
  "post_only_working_exchange =
     (example_exchange HEDGING L1_TBBO
        (\<lambda>_. (example_order ''O-1'' BUY LIMIT 10 98 ACCEPTED)\<lparr>is_post_only := True\<rparr>)
        (example_book L1_TBBO (Some 99) (Some 100) [(100, 10)]))
       \<lparr>orders_bid := [''AUD/USD.SIM'' \<mapsto> [''O-1'']], order_index := [''O-1'' \<mapsto> ''O-1'']\<rparr>"

text \<open>The exchange \<open>stop_exchange\<close> after the first allocation of the plan.\<close>

definition stop_exchange_after_first :: SimulatedExchange where
  "stop_exchange_after_first =
     snd (projr (apply_fills_loop (update_order 1) example_instrument ''O-1'' TAKER
                   (Some ''1-001'') None [(100, 10)] stop_exchange))"

subsection \<open>Notions the properties are stated with\<close>

definition is_OrderFilled :: "Event \<Rightarrow> bool" where
  "is_OrderFilled e =
     (case e of OrderFilled st i c v vp x sd ty lq lp qc cm ls t \<Rightarrow> True | _ \<Rightarrow> False)"

definition is_OrderUpdated :: "Event \<Rightarrow> bool" where
  "is_OrderUpdated e = (case e of OrderUpdated st i c v q p g t m \<Rightarrow> True | _ \<Rightarrow> False)"

definition is_OrderAccepted :: "Event \<Rightarrow> bool" where
  "is_OrderAccepted e = (case e of OrderAccepted st i c v t \<Rightarrow> True | _ \<Rightarrow> False)"

definition is_OrderRejected :: "Event \<Rightarrow> bool" where
  "is_OrderRejected e = (case e of OrderRejected st i c r t \<Rightarrow> True | _ \<Rightarrow> False)"

definition is_OrderModifyRejected :: "Event \<Rightarrow> bool" where
  "is_OrderModifyRejected e =
     (case e of OrderModifyRejected st i c v r t \<Rightarrow> True | _ \<Rightarrow> False)"

text \<open>An \<open>OrderExpired\<close> event stamped no later than \<open>now\<close>.\<close>

definition expired_by :: "int \<Rightarrow> Event \<Rightarrow> bool" where
  "expired_by now e = (case e of OrderExpired st i c v t \<Rightarrow> t \<le> now | _ \<Rightarrow> False)"

text \<open>
  The price at which an allocation of a stop order is filled in the exchange \<open>s\<close>: the
  order's stop price, moved by one increment against the trader when the book is L1 and
  the next draw of the fill model slips.
\<close>

definition stop_fill_px :: "SimulatedExchange \<Rightarrow> Instrument \<Rightarrow> OrderRef \<Rightarrow> Price" where
  "stop_fill_px s instrument order =
     (if book_type s = L1_TBBO \<and> slip_outcome (fill_model s) (draws (fill_model s)) then
        (if side (obj s order) = BUY then price (obj s order) + price_increment instrument
         else price (obj s order) - price_increment instrument)
      else price (obj s order))"

text \<open>
  \<open>carries Q s s'\<close>: from \<open>s\<close> to \<open>s'\<close> the clock has not moved and the emitted sequence has
  only grown, by events that carry the clock's time or are allowed by \<open>Q\<close>. It is stated
  through every property \<open>P\<close> of the events emitted since some point \<open>old\<close>, so that steps
  compose by themselves.
\<close>

definition logged :: "(Event \<Rightarrow> bool) \<Rightarrow> Event list \<Rightarrow> SimulatedExchange \<Rightarrow> bool" where
  "logged P old s = (\<exists>new. emitted s = old @ new \<and> list_all P new)"

definition carries :: "(Event \<Rightarrow> bool) \<Rightarrow> SimulatedExchange \<Rightarrow> SimulatedExchange \<Rightarrow> bool" where
  "carries Q s s' =
     (clock s' = clock s
      \<and> (\<forall>P old. (\<forall>e. ts_event e = clock s \<or> Q e \<longrightarrow> P e) \<longrightarrow> logged P old s \<longrightarrow> logged P old s'))"

definition upd_carries :: "(Event \<Rightarrow> bool) \<Rightarrow> UpdateOrder \<Rightarrow> bool" where
  "upd_carries Q upd =
     (\<forall>s order qty px trg u s'. upd s order qty px trg u = Inr s' \<longrightarrow> carries Q s s')"

text \<open>
  The attributes of an order that are fixed when it is created: its client order id, its
  type, its post-only flag, its instrument and its side.
\<close>

definition same_attrs :: "Order \<Rightarrow> Order \<Rightarrow> bool" where
  "same_attrs a b =
     (client_order_id b = client_order_id a \<and> order_type b = order_type a
      \<and> is_post_only b = is_post_only a \<and> instrument_id b = instrument_id a
      \<and> side b = side a)"

text \<open>
  An execution client that leaves the fixed attributes of every order alone whatever event
  it applies, and changes a price only when it applies an \<open>OrderUpdated\<close>.
\<close>

definition handler_keeps :: "ExecClient \<Rightarrow> bool" where
  "handler_keeps ec =
     (\<forall>e c r. same_attrs (order_objs c r) (order_objs (handle_event ec e c) r)
        \<and> (is_OrderUpdated e
             \<or> price (order_objs (handle_event ec e c) r) = price (order_objs c r)))"

text \<open>
  \<open>orders_as known s\<close>: the execution client of \<open>s\<close> is such a client and the orders of
  \<open>s\<close> have the fixed attributes of the orders \<open>known\<close>.
\<close>

definition orders_as :: "(OrderRef \<Rightarrow> Order) \<Rightarrow> SimulatedExchange \<Rightarrow> bool" where
  "orders_as known s =
     (handler_keeps (exec_client s) \<and> (\<forall>r. same_attrs (known r) (obj s r)))"

text \<open>
  \<open>fill_allowed A known e\<close>: if \<open>e\<close> is an \<open>OrderFilled\<close>, it is the fill of one of the
  orders \<open>known\<close>, and \<open>A\<close> allows an order of that type and post-only flag to be filled
  on the liquidity side of \<open>e\<close>.
\<close>

definition fill_allowed ::
  "(OrderType \<Rightarrow> bool \<Rightarrow> LiquiditySide \<Rightarrow> bool) \<Rightarrow> (OrderRef \<Rightarrow> Order) \<Rightarrow> Event \<Rightarrow> bool" where
  "fill_allowed A known e =
     (\<not> is_OrderFilled e
      \<or> (\<exists>r. ev_client_order_id e = client_order_id (known r)
               \<and> ev_order_type e = order_type (known r)
               \<and> A (order_type (known r)) (is_post_only (known r)) (ev_liquidity_side e)))"

text \<open>
  \<open>allows A known s s'\<close>: if the orders of \<open>s\<close> are as \<open>known\<close>, so are those of \<open>s'\<close>,
  and from \<open>s\<close> to \<open>s'\<close> the emitted sequence has only grown, by events that are no fills
  or fills that \<open>A\<close> allows.
\<close>

definition allows ::
  "(OrderType \<Rightarrow> bool \<Rightarrow> LiquiditySide \<Rightarrow> bool) \<Rightarrow> (OrderRef \<Rightarrow> Order)
     \<Rightarrow> SimulatedExchange \<Rightarrow> SimulatedExchange \<Rightarrow> bool" where
  "allows A known s s' =
     (orders_as known s \<longrightarrow>
        orders_as known s'
        \<and> (\<forall>P old. (\<forall>e. fill_allowed A known e \<longrightarrow> P e) \<longrightarrow> logged P old s \<longrightarrow> logged P old s'))"

definition upd_allows ::
  "(OrderType \<Rightarrow> bool \<Rightarrow> LiquiditySide \<Rightarrow> bool) \<Rightarrow> (OrderRef \<Rightarrow> Order) \<Rightarrow> UpdateOrder \<Rightarrow> bool" where
  "upd_allows A known upd =
     (\<forall>s order qty px trg u s'. upd s order qty px trg u = Inr s' \<longrightarrow> allows A known s s')"

text \<open>
  The fills that \<^verbatim>\<open>_update_order\<close> can lead to are Taker fills of Limit and StopLimit
  orders that are not post-only; \<open>A\<close> has to allow them.
\<close>

definition upd_fills_allowed :: "(OrderType \<Rightarrow> bool \<Rightarrow> LiquiditySide \<Rightarrow> bool) \<Rightarrow> bool" where
  "upd_fills_allowed A = (A LIMIT False TAKER \<and> A STOP_LIMIT False TAKER)"

text \<open>
  Three choices of \<open>A\<close>: every fill; the fills of Limit and StopLimit orders only; every
  fill but a Taker fill of a post-only Limit order.
\<close>

definition any_fill :: "OrderType \<Rightarrow> bool \<Rightarrow> LiquiditySide \<Rightarrow> bool" where
  "any_fill ty po liq = True"

definition limit_fill :: "OrderType \<Rightarrow> bool \<Rightarrow> LiquiditySide \<Rightarrow> bool" where
  "limit_fill ty po liq = (ty = LIMIT \<or> ty = STOP_LIMIT)"

definition no_post_only_taker :: "OrderType \<Rightarrow> bool \<Rightarrow> LiquiditySide \<Rightarrow> bool" where
  "no_post_only_taker ty po liq = (\<not> (ty = LIMIT \<and> po \<and> liq = TAKER))"

section \<open>Properties\<close>

subsection \<open>Position ids\<close>

lemma str_nat_digit: "n < 10 \<Longrightarrow> str_nat n = [digit_char n]"
  by (simp add: str_nat.simps)

lemma str_nat_1: "str_nat (Suc 0) = ''1''"
  by (simp add: str_nat_digit digit_char_def)

lemma format_03d_1: "format_03d (Suc 0) = ''001''"
  by (simp add: format_03d_def str_nat_1 numeral_3_eq_3)

text \<open>
  C1 (what the code does instead). The claim says that under NETTING
  \<^verbatim>\<open>_get_position_id\<close> returns the open position's id or \<^verbatim>\<open>None\<close> and never generates a
  venue position id. The code's first branch is guarded by the constant
  \<^verbatim>\<open>OMSType.HEDGING\<close>, so it runs under NETTING as well: for an order without a cached
  position id a fresh venue position id is generated and the instrument's position
  counter advances.
\<close>

theorem get_position_id_netting_generates:
  assumes "oms_type s = NETTING"
    and "cache_position_id s (client_order_id (obj s order)) = None"
    and "instrument_indexer s (instrument_id (obj s order)) = Some idx"
    and "n = (case symbol_pos_count s (instrument_id (obj s order)) of None \<Rightarrow> 0 | Some c \<Rightarrow> c)"
  shows "get_position_id s order True =
           Inr (Some (str_nat idx @ ''-'' @ format_03d (n + 1)),
                s\<lparr>symbol_pos_count := (symbol_pos_count s)(instrument_id (obj s order) \<mapsto> n + 1)\<rparr>)"
  using assms
  by (simp add: get_position_id_def OMSType_value_def generate_venue_position_id_def Let_def)

theorem get_position_id_netting_generates_witness:
  "oms_type (example_exchange NETTING L1_TBBO
       (\<lambda>_. example_order ''O-1'' BUY LIMIT 10 100 ACCEPTED) (example_book L1_TBBO None None []))
     = NETTING
   \<and> cache_positions_open (example_exchange NETTING L1_TBBO
       (\<lambda>_. example_order ''O-1'' BUY LIMIT 10 100 ACCEPTED) (example_book L1_TBBO None None []))
       ''AUD/USD.SIM'' = []
   \<and> map_sum id fst (get_position_id (example_exchange NETTING L1_TBBO
       (\<lambda>_. example_order ''O-1'' BUY LIMIT 10 100 ACCEPTED) (example_book L1_TBBO None None []))
       ''O-1'' True) = Inr (Some ''1-001'')"
  using get_position_id_netting_generates
    [of "example_exchange NETTING L1_TBBO
       (\<lambda>_. example_order ''O-1'' BUY LIMIT 10 100 ACCEPTED) (example_book L1_TBBO None None [])"
      "''O-1''" 1 0]
  by (simp add: example_exchange_def example_order_def obj_def cache_position_id_def
      cache_positions_open_def str_nat_1 format_03d_1)

subsection \<open>Commissions\<close>

text \<open>
  C4 (what the code does instead). The claim says that the commission of every
  \<open>OrderFilled\<close> is calculated for that fill's quantity. \<^verbatim>\<open>_fill_order\<close> passes
  \<^verbatim>\<open>last_qty=order.quantity\<close> to \<^verbatim>\<open>calculate_commission\<close>. A market order to buy 30 is
  filled against the plan \<open>[(100, 10), (101, 20)]\<close> of an L2 book, the commission being
  one unit per unit of the quantity it is calculated for: the fills of 10 and of 20 both
  carry the commission of the whole order, 30.
\<close>

theorem fill_order_commission_for_order_quantity:
  "map_sum id (map (\<lambda>e. (ev_last_qty e, ev_last_px e, amount (ev_commission e))) \<circ> emitted)
     (fill_market_order (update_order 1)
        (example_exchange HEDGING L2_MBP (\<lambda>_. example_order ''O-1'' BUY MARKET 30 0 SUBMITTED)
           (example_book L2_MBP (Some 99) (Some 100) [(100, 10), (101, 20)]))
        ''O-1'' TAKER)
   = Inr [(10, 100, 30), (20, 101, 30)]"
  by code_simp

subsection \<open>The order of the working lists\<close>

text \<open>
  What \<^verbatim>\<open>_add_order\<close> does for the order of the lists: after every insertion the
  instrument's list of that side is sorted by the prices the orders have then, the bids
  non-increasing and the asks non-decreasing.
\<close>

lemma add_order_sorted:
  "is_buy_c (obj s order) \<Longrightarrow>
     \<exists>bids. orders_bid (add_order s order) (instrument_id (obj s order)) = Some bids
       \<and> order \<in> set bids
       \<and> sorted (rev (map (\<lambda>x. price (obj (add_order s order) x)) bids))"
  "\<not> is_buy_c (obj s order) \<Longrightarrow>
     \<exists>asks. orders_ask (add_order s order) (instrument_id (obj s order)) = Some asks
       \<and> order \<in> set asks
       \<and> sorted (map (\<lambda>x. price (obj (add_order s order) x)) asks)"
  by (simp_all add: add_order_def Let_def obj_def sort_reverse_def rev_map set_insort_key
      sorted_insort_key)

text \<open>
  C6 (what the code does instead). The claim says that after every operation the working
  bids are sorted non-increasing by price. \<^verbatim>\<open>_add_order\<close> sorts the list on every
  insertion, but a modification changes an order's price and leaves the list as it is.
  With working bids \<open>O-1\<close> at 100 and \<open>O-2\<close> at 99 and the best ask at 105, modifying
  \<open>O-2\<close> to 101 is accepted (\<open>OrderPendingUpdate\<close>, \<open>OrderUpdated\<close>) and leaves the bid list
  in the order \<open>O-1\<close>, \<open>O-2\<close>, that is with the prices 100, 101.
\<close>

theorem modify_leaves_bids_unsorted:
  "map_sum id (\<lambda>s. map (\<lambda>order. (order, price (obj s order), is_working_c (obj s order)))
                     (case orders_bid s ''AUD/USD.SIM'' of None \<Rightarrow> [] | Some bids \<Rightarrow> bids))
     (process_command 1
        ((example_exchange HEDGING L1_TBBO
            ((\<lambda>_. example_order ''O-1'' BUY LIMIT 10 100 ACCEPTED)
               (''O-2'' := example_order ''O-2'' BUY LIMIT 10 99 ACCEPTED))
            (example_book L1_TBBO (Some 90) (Some 105) []))
           \<lparr>orders_bid := [''AUD/USD.SIM'' \<mapsto> [''O-1'', ''O-2'']],
            order_index := [''O-1'' \<mapsto> ''O-1'', ''O-2'' \<mapsto> ''O-2'']\<rparr>)
        (ModifyOrder ''S-001'' ''AUD/USD.SIM'' ''O-2'' None None (Some 101) None))
   = Inr [(''O-1'', 100, True), (''O-2'', 101, True)]"
  by code_simp

subsection \<open>Commands that change nothing, or nearly\<close>

text \<open>
  C8. Submitting an order whose client order id is already in the order index is a no-op:
  \<^verbatim>\<open>_process_order\<close> returns at once with the exchange as it was (no event, the index,
  the lists, the counters and the OTO registry unchanged), whatever the depth bound.
\<close>

theorem process_order_already_indexed:
  assumes "order_index s (client_order_id (obj s order)) \<noteq> None"
  shows "process_order depth s order = Inr s
         \<and> process_command depth s (SubmitOrder order) = Inr s"
  using assms by (simp add: process_order_def process_command_def)

theorem process_order_already_indexed_witness:
  "order_index
     ((example_exchange HEDGING L1_TBBO (\<lambda>_. example_order ''O-1'' BUY LIMIT 10 100 ACCEPTED)
         (example_book L1_TBBO (Some 99) (Some 101) []))\<lparr>order_index := [''O-1'' \<mapsto> ''O-1'']\<rparr>)
     ''O-1'' = Some ''O-1''
   \<and> process_command 1
       ((example_exchange HEDGING L1_TBBO (\<lambda>_. example_order ''O-1'' BUY LIMIT 10 100 ACCEPTED)
           (example_book L1_TBBO (Some 99) (Some 101) []))\<lparr>order_index := [''O-1'' \<mapsto> ''O-1'']\<rparr>)
       (SubmitOrder ''O-1'')
     = Inr ((example_exchange HEDGING L1_TBBO (\<lambda>_. example_order ''O-1'' BUY LIMIT 10 100 ACCEPTED)
           (example_book L1_TBBO (Some 99) (Some 101) []))\<lparr>order_index := [''O-1'' \<mapsto> ''O-1'']\<rparr>)"
  using process_order_already_indexed
    [of "(example_exchange HEDGING L1_TBBO (\<lambda>_. example_order ''O-1'' BUY LIMIT 10 100 ACCEPTED)
           (example_book L1_TBBO (Some 99) (Some 101) []))\<lparr>order_index := [''O-1'' \<mapsto> ''O-1'']\<rparr>"
        "''O-1''" 1]
  by (simp add: example_exchange_def example_order_def obj_def)

text \<open>
  C10. With an empty fill plan \<^verbatim>\<open>_apply_fills\<close> returns the exchange as it was: no event
  is emitted, no residual fill is synthesized for a Market or StopMarket order, and no
  counter moves.
\<close>

theorem apply_fills_empty_plan:
  "apply_fills upd s order liquidity_side [] venue_position_id position = Inr s"
  by (simp add: apply_fills_def)




text \<open>
  C9. A \<open>CancelOrder\<close> for an order that is in the order index but not active removes
  it from the index and does nothing else: no event is emitted.
\<close>

theorem cancel_inactive_order:
  assumes "order_index s cid = Some order" and "\<not> is_active_c (obj s order)"
  shows "process_command depth s (CancelOrder strat iid cid void) =
           Inr (s\<lparr>order_index := (order_index s)(cid := None)\<rparr>)"
  using assms by (simp add: process_command_def Let_def obj_def)

theorem cancel_inactive_order_witness:
  "\<not> is_active_c (obj
       ((example_exchange HEDGING L1_TBBO (\<lambda>_. example_order ''O-1'' BUY LIMIT 10 100 CANCELED)
           (example_book L1_TBBO (Some 99) (Some 101) []))\<lparr>order_index := [''O-1'' \<mapsto> ''O-1'']\<rparr>)
       ''O-1'')
   \<and> map_sum id (\<lambda>s. (order_index s ''O-1'', emitted s))
       (process_command 1
          ((example_exchange HEDGING L1_TBBO (\<lambda>_. example_order ''O-1'' BUY LIMIT 10 100 CANCELED)
              (example_book L1_TBBO (Some 99) (Some 101) []))\<lparr>order_index := [''O-1'' \<mapsto> ''O-1'']\<rparr>)
          (CancelOrder ''S-001'' ''AUD/USD.SIM'' ''O-1'' None))
     = Inr (None, [])"
  using cancel_inactive_order
    [of "(example_exchange HEDGING L1_TBBO (\<lambda>_. example_order ''O-1'' BUY LIMIT 10 100 CANCELED)
           (example_book L1_TBBO (Some 99) (Some 101) []))\<lparr>order_index := [''O-1'' \<mapsto> ''O-1'']\<rparr>"
        "''O-1''" "''O-1''" 1 "''S-001''" "''AUD/USD.SIM''" None]
  by (simp add: example_exchange_def example_order_def obj_def is_active_c_def
      is_completed_c_def)

subsection \<open>What a step may emit\<close>

lemma carries_refl [simp]: "carries Q s s"
  by (simp add: carries_def)

lemma carries_trans: "carries Q s s1 \<Longrightarrow> carries Q s1 s2 \<Longrightarrow> carries Q s s2"
  by (simp add: carries_def)

lemma carries_same: "clock s' = clock s \<Longrightarrow> emitted s' = emitted s \<Longrightarrow> carries Q s s'"
  by (simp add: carries_def logged_def)

lemma carries_emit: "ts_event e = clock s \<or> Q e \<Longrightarrow> carries Q s (emit e s)"
  by (auto simp add: carries_def logged_def emit_def)

lemma carries_new:
  "carries Q s s' \<Longrightarrow>
     \<exists>new. emitted s' = emitted s @ new \<and> list_all (\<lambda>e. ts_event e = clock s \<or> Q e) new"
proof -
  assume c: "carries Q s s'"
  have "logged (\<lambda>e. ts_event e = clock s \<or> Q e) (emitted s) s"
    by (simp add: logged_def)
  with c have "logged (\<lambda>e. ts_event e = clock s \<or> Q e) (emitted s) s'"
    by (simp add: carries_def)
  then show ?thesis by (simp add: logged_def)
qed

lemma for_each_carries:
  assumes "\<And>a s1 s2. a \<in> set xs \<Longrightarrow> body a s1 = Inr s2 \<Longrightarrow> carries Q s1 s2"
  shows "for_each xs body s = Inr s' \<Longrightarrow> carries Q s s'"
  using assms
proof (induction xs arbitrary: s)
  case Nil
  then show ?case by simp
next
  case (Cons a xs)
  from Cons.prems(1) obtain s1 where a: "body a s = Inr s1" and r: "for_each xs body s1 = Inr s'"
    by (auto simp: seq_def split: sum.splits)
  have "carries Q s s1" using Cons.prems(2) [of a s s1] a by simp
  moreover have "carries Q s1 s'"
  proof (rule Cons.IH [OF r])
    fix b t1 t2
    assume "b \<in> set xs" and "body b t1 = Inr t2"
    then show "carries Q t1 t2" using Cons.prems(2) [of b t1 t2] by simp
  qed
  ultimately show ?case by (rule carries_trans)
qed

lemma seq_carries:
  assumes "seq r f = Inr s'" and "\<And>s1. r = Inr s1 \<Longrightarrow> carries Q s s1"
    and "\<And>s1. r = Inr s1 \<Longrightarrow> f s1 = Inr s' \<Longrightarrow> carries Q s1 s'"
  shows "carries Q s s'"
  using assms by (auto simp: seq_def split: sum.splits intro: carries_trans)

lemma generate_venue_order_id_carries:
  "generate_venue_order_id s iid = Inr (v, s') \<Longrightarrow> carries Q s s'"
  by (auto simp: generate_venue_order_id_def Let_def split: option.splits intro!: carries_same)

lemma generate_venue_position_id_carries:
  "generate_venue_position_id s iid = Inr (v, s') \<Longrightarrow> carries Q s s'"
  by (auto simp: generate_venue_position_id_def Let_def split: option.splits intro!: carries_same)

lemma generate_execution_id_carries:
  "generate_execution_id s = (v, s') \<Longrightarrow> carries Q s s'"
  by (auto simp: generate_execution_id_def Let_def intro!: carries_same)

lemma generate_simple_carries:
  "carries Q s (generate_fresh_account_state s)"
  "carries Q s (generate_order_submitted s order)"
  "carries Q s (generate_order_rejected s order reason)"
  "carries Q s (generate_order_pending_update s order)"
  "carries Q s (generate_order_pending_cancel s order)"
  "carries Q s (generate_order_modify_rejected s strat iid cid void reason)"
  "carries Q s (generate_order_cancel_rejected s strat iid cid void reason)"
  "carries Q s (generate_order_canceled s order)"
  "carries Q s (generate_order_triggered s order)"
  by (simp_all add: generate_fresh_account_state_def generate_order_submitted_def
      generate_order_rejected_def generate_order_pending_update_def
      generate_order_pending_cancel_def generate_order_modify_rejected_def
      generate_order_cancel_rejected_def generate_order_canceled_def
      generate_order_triggered_def timestamp_ns_def carries_emit)

lemma generate_order_accepted_carries:
  "generate_order_accepted s order = Inr s' \<Longrightarrow> carries Q s s'"
  by (auto simp: generate_order_accepted_def timestamp_ns_def split: sum.splits
      dest!: generate_venue_order_id_carries [where Q = Q]
      intro: carries_trans [OF _ carries_emit])

lemma generate_order_updated_carries:
  "generate_order_updated s order qty px trg = Inr s' \<Longrightarrow> carries Q s s'"
  by (auto simp: generate_order_updated_def timestamp_ns_def carries_emit
      split: sum.splits option.splits
      dest!: generate_venue_order_id_carries [where Q = Q]
      intro: carries_trans [OF _ carries_emit])

lemma generate_order_filled_carries:
  "generate_order_filled s order pid qty px quote cm liq = Inr s' \<Longrightarrow> carries Q s s'"
  by (auto simp: generate_order_filled_def timestamp_ns_def carries_emit
      split: sum.splits option.splits prod.splits
      dest!: generate_venue_order_id_carries [where Q = Q]
             generate_execution_id_carries [where Q = Q]
      intro: carries_trans [OF _ carries_emit] carries_trans [OF carries_trans [OF _ _] carries_emit])


lemma add_order_carries: "carries Q s (add_order s order)"
  by (simp add: add_order_def Let_def carries_same)

lemma delete_order_carries: "delete_order s order = Inr s' \<Longrightarrow> carries Q s s'"
  by (auto simp: delete_order_def Let_def split: option.splits if_splits intro!: carries_same)

lemma delete_order_cache: "delete_order s order = Inr s' \<Longrightarrow> cache s' = cache s"
  by (auto simp: delete_order_def Let_def split: option.splits if_splits)

lemma set_venue_order_id_carries: "carries Q s (set_venue_order_id s order void)"
  by (simp add: set_venue_order_id_def carries_same)

lemma cache_add_position_id_carries:
  "cache_add_position_id s pid cid = Inr s' \<Longrightarrow> carries Q s s'"
  by (auto simp: cache_add_position_id_def split: option.splits intro!: carries_same)

lemma get_book_carries: "get_book s iid = Inr (b, s') \<Longrightarrow> carries Q s s'"
  by (auto simp: get_book_def Let_def split: option.splits intro!: carries_same)

lemma get_position_id_carries: "get_position_id s order g = Inr (v, s') \<Longrightarrow> carries Q s s'"
  by (auto simp: get_position_id_def Let_def split: option.splits if_splits list.splits sum.splits
      dest!: generate_venue_position_id_carries [where Q = Q])

lemma draw_carries:
  "is_limit_filled s = (b, s') \<Longrightarrow> carries Q s s'"
  "is_stop_filled s = (b, s') \<Longrightarrow> carries Q s s'"
  "is_slipped s = (b, s') \<Longrightarrow> carries Q s s'"
  by (auto simp: is_limit_filled_def is_stop_filled_def is_slipped_def intro!: carries_same)

lemma is_limit_matched_carries: "is_limit_matched s iid sd px = (b, s') \<Longrightarrow> carries Q s s'"
  by (auto simp: is_limit_matched_def split: option.splits if_splits dest: draw_carries)

lemma is_stop_triggered_carries: "is_stop_triggered s iid sd px = (b, s') \<Longrightarrow> carries Q s s'"
  by (auto simp: is_stop_triggered_def split: option.splits if_splits dest: draw_carries)

lemma market_book_fills_carries: "market_book_fills s order = Inr (f, s') \<Longrightarrow> carries Q s s'"
  by (auto simp: market_book_fills_def Let_def split: sum.splits if_splits
      dest!: get_book_carries [where Q = Q])

lemma determine_limit_carries:
  "determine_limit_price_and_volume s order = Inr (f, s') \<Longrightarrow> carries Q s s'"
  by (auto simp: determine_limit_price_and_volume_def Let_def split: sum.splits if_splits
      dest!: get_book_carries [where Q = Q] intro: carries_same)

lemma determine_market_carries:
  "determine_market_price_and_volume s order = Inr (f, s') \<Longrightarrow> carries Q s s'"
  by (auto simp: determine_market_price_and_volume_def Let_def
      split: sum.splits if_splits option.splits
      dest!: market_book_fills_carries [where Q = Q] intro: carries_same)

lemma accept_order_carries: "accept_order s order = Inr s' \<Longrightarrow> carries Q s s'"
  unfolding accept_order_def
  by (blast intro: carries_trans add_order_carries generate_order_accepted_carries)

lemma cancel_order_alone_carries: "cancel_order_alone s order = Inr s' \<Longrightarrow> carries Q s s'"
  unfolding cancel_order_alone_def
  apply (erule seq_carries)
   apply (auto split: option.splits sum.splits dest!: generate_venue_order_id_carries [where Q = Q]
      intro: carries_trans [OF _ set_venue_order_id_carries])[1]
  apply (auto split: option.splits if_splits
      intro!: carries_trans [OF _ generate_simple_carries(8)] carries_same)
  done

lemma cancel_oco_sibling_carries: "cancel_oco_sibling cid s = Inr s' \<Longrightarrow> carries Q s s'"
  by (auto simp: cancel_oco_sibling_def split: option.splits if_splits
      dest: cancel_order_alone_carries)

lemma cancel_oco_orders_carries: "cancel_oco_orders s order = Inr s' \<Longrightarrow> carries Q s s'"
  unfolding cancel_oco_orders_def
  by (erule for_each_carries [rotated]) (rule cancel_oco_sibling_carries)

lemma cancel_order_carries: "cancel_order s order b = Inr s' \<Longrightarrow> carries Q s s'"
  unfolding cancel_order_def
  by (erule seq_carries)
    (auto split: if_splits dest: cancel_order_alone_carries cancel_oco_orders_carries)


lemma upd_carriesD: "upd_carries Q upd \<Longrightarrow> upd s order qty px trg u = Inr s' \<Longrightarrow> carries Q s s'"
  by (simp add: upd_carries_def)

lemma fill_order_oto_child_carries:
  "fill_order_oto_child order cid s = Inr s' \<Longrightarrow> carries Q s s'"
  unfolding fill_order_oto_child_def
  by (auto split: option.splits elim!: seq_carries
      dest: cache_add_position_id_carries accept_order_carries split: if_splits)

lemma fill_order_oco_sibling_carries:
  "upd_carries Q upd \<Longrightarrow> fill_order_oco_sibling upd order cid s = Inr s' \<Longrightarrow> carries Q s s'"
  unfolding fill_order_oco_sibling_def
  by (auto split: option.splits if_splits dest: cancel_order_carries upd_carriesD)

lemma fill_order_reduce_only_carries:
  "upd_carries Q upd \<Longrightarrow> fill_order_reduce_only upd position order s = Inr s' \<Longrightarrow> carries Q s s'"
  unfolding fill_order_reduce_only_def
  by (auto split: option.splits if_splits dest: cancel_order_carries upd_carriesD)

lemma fill_order_tail_carries:
  assumes u: "upd_carries Q upd"
    and r: "seq (if is_passive_c (obj s order) \<and> is_completed_c (obj s order)
              then delete_order s order else Inr s)
    (\<lambda>s. seq (if contingency (obj s order) = OTO then
                (case child_order_ids (obj s order) of
                   None \<Rightarrow> Inl TypeError
                 | Some children \<Rightarrow> for_each children (fill_order_oto_child order) s)
              else if contingency (obj s order) = OCO then
                for_each (contingency_ids (obj s order)) (fill_order_oco_sibling upd order) s
              else Inr s)
    (\<lambda>s. case position of
           None \<Rightarrow> Inr s
         | Some p \<Rightarrow>
             for_each (cache_orders_for_position s venue_position_id)
               (fill_order_reduce_only upd p) s)) = Inr s'"
  shows "carries Q s s'"
  using r
proof (elim seq_carries)
  fix s1
  assume "(if is_passive_c (obj s order) \<and> is_completed_c (obj s order)
              then delete_order s order else Inr s) = Inr s1"
  then show "carries Q s s1"
    by (auto split: if_splits dest: delete_order_carries)
next
  fix s1 s2
  assume "(if contingency (obj s1 order) = OTO then
                (case child_order_ids (obj s1 order) of
                   None \<Rightarrow> Inl TypeError
                 | Some children \<Rightarrow> for_each children (fill_order_oto_child order) s1)
              else if contingency (obj s1 order) = OCO then
                for_each (contingency_ids (obj s1 order)) (fill_order_oco_sibling upd order) s1
              else Inr s1) = Inr s2"
  then show "carries Q s1 s2"
    by (auto split: if_splits option.splits
        elim!: for_each_carries [rotated]
        dest: fill_order_oto_child_carries fill_order_oco_sibling_carries [OF u])
next
  fix s2
  assume "(case position of
           None \<Rightarrow> Inr s2
         | Some p \<Rightarrow>
             for_each (cache_orders_for_position s2 venue_position_id)
               (fill_order_reduce_only upd p) s2) = Inr s'"
  then show "carries Q s2 s'"
    by (auto split: if_splits option.splits
        elim!: for_each_carries [rotated]
        dest: fill_order_reduce_only_carries [OF u])
qed

lemma fill_order_carries:
  assumes u: "upd_carries Q upd"
    and r: "fill_order upd s instrument order pid position qty px liq = Inr s'"
  shows "carries Q s s'"
  using r unfolding fill_order_def
  apply (elim seq_carries [where Q = Q and s = s])
   apply (erule generate_order_filled_carries)
  apply (rule fill_order_tail_carries [OF u])
  apply (simp add: seq_def)
  done


lemma apply_fill_carries:
  assumes u: "upd_carries Q upd"
    and r: "apply_fill upd instrument order liq pid position fill_px fill_qty s = Inr (b, s')"
  shows "carries Q s s'"
  using r unfolding apply_fill_def Let_def
  by (auto split: if_splits prod.splits sum.splits option.splits
      dest!: draw_carries(3) [where Q = Q] generate_order_updated_carries [where Q = Q]
        fill_order_carries [OF u]
      intro: carries_trans)

lemma apply_fills_loop_carries:
  assumes u: "upd_carries Q upd"
  shows "apply_fills_loop upd instrument order liq pid position fills s = Inr (b, s')
         \<Longrightarrow> carries Q s s'"
proof (induction fills arbitrary: s)
  case Nil
  then show ?case by simp
next
  case (Cons a fills)
  obtain fill_px fill_qty where a: "a = (fill_px, fill_qty)" by (cases a)
  from Cons.prems obtain r s1 where
    f: "apply_fill upd instrument order liq pid position fill_px fill_qty s = Inr (r, s1)"
    and rest: "r \<and> s' = s1 \<or> (\<not> r \<and>
       apply_fills_loop upd instrument order liq pid position fills s1 = Inr (b, s'))"
    unfolding a by (auto split: sum.splits prod.splits if_splits)
  have "carries Q s s1" by (rule apply_fill_carries [OF u f])
  moreover have "carries Q s1 s'" using rest Cons.IH by auto
  ultimately show ?case by (rule carries_trans)
qed

lemma apply_fills_carries:
  assumes u: "upd_carries Q upd"
    and r: "apply_fills upd s order liq fills pid position = Inr s'"
  shows "carries Q s s'"
  using r unfolding apply_fills_def
  by (auto split: if_splits prod.splits sum.splits option.splits
      dest!: apply_fills_loop_carries [OF u] fill_order_carries [OF u]
      intro: carries_trans)

lemma fill_limit_order_carries:
  assumes u: "upd_carries Q upd"
    and r: "fill_limit_order upd s order liq = Inr s'"
  shows "carries Q s s'"
  using r unfolding fill_limit_order_def Let_def
  by (auto split: if_splits prod.splits sum.splits option.splits
      dest!: get_position_id_carries [where Q = Q] determine_limit_carries [where Q = Q]
        apply_fills_carries [OF u] cancel_order_carries [where Q = Q]
      intro: carries_trans)

lemma fill_market_order_carries:
  assumes u: "upd_carries Q upd"
    and r: "fill_market_order upd s order liq = Inr s'"
  shows "carries Q s s'"
  using r unfolding fill_market_order_def Let_def
  by (auto split: if_splits prod.splits sum.splits option.splits
      dest!: get_position_id_carries [where Q = Q] determine_market_carries [where Q = Q]
        apply_fills_carries [OF u] cancel_order_carries [where Q = Q]
      intro: carries_trans)

lemma update_limit_order_carries:
  assumes u: "upd_carries Q upd"
    and r: "update_limit_order upd s order qty px = Inr s'"
  shows "carries Q s s'"
  using r unfolding update_limit_order_def
  by (auto split: if_splits elim!: seq_carries simp: generate_simple_carries
      dest: generate_order_updated_carries fill_limit_order_carries [OF u])

lemma update_stop_market_order_carries:
  "update_stop_market_order s order qty px = Inr s' \<Longrightarrow> carries Q s s'"
  unfolding update_stop_market_order_def
  by (auto split: if_splits simp: generate_simple_carries dest: generate_order_updated_carries)

lemma update_stop_limit_order_carries:
  assumes u: "upd_carries Q upd"
    and r: "update_stop_limit_order upd s order qty px trg = Inr s'"
  shows "carries Q s s'"
  using r unfolding update_stop_limit_order_def
  by (auto split: if_splits elim!: seq_carries simp: generate_simple_carries
      dest: generate_order_updated_carries fill_limit_order_carries [OF u])

lemma update_oco_orders_carries:
  assumes u: "upd_carries Q upd"
    and r: "update_oco_orders upd s order = Inr s'"
  shows "carries Q s s'"
  using r unfolding update_oco_orders_def
  by (elim for_each_carries [rotated])
    (auto simp: update_oco_sibling_def split: option.splits if_splits dest: upd_carriesD [OF u])

lemma update_order_body_carries:
  assumes u: "upd_carries Q upd"
  shows "upd_carries Q (update_order_body upd)"
  unfolding upd_carries_def update_order_body_def Let_def
  by (auto elim!: seq_carries split: OrderType.splits if_splits
      dest: update_limit_order_carries [OF u] update_stop_market_order_carries
        update_stop_limit_order_carries [OF u] update_oco_orders_carries [OF u])

lemma update_order_carries: "upd_carries Q (update_order depth)"
proof (induction depth)
  case 0
  show ?case by (simp add: upd_carries_def)
next
  case (Suc depth)
  then show ?case by (simp add: update_order_body_carries)
qed


lemma process_market_order_carries:
  "process_market_order depth s order = Inr s' \<Longrightarrow> carries Q s s'"
  unfolding process_market_order_def
  by (auto split: if_splits simp: generate_simple_carries
      dest: fill_market_order_carries [OF update_order_carries])

lemma process_limit_order_carries:
  "process_limit_order depth s order = Inr s' \<Longrightarrow> carries Q s s'"
  unfolding process_limit_order_def
  by (auto split: if_splits prod.splits elim!: seq_carries simp: generate_simple_carries
      dest!: accept_order_carries [where Q = Q] is_limit_matched_carries [where Q = Q]
        fill_limit_order_carries [OF update_order_carries [where Q = Q]]
      intro: carries_trans)

lemma process_stop_market_order_carries:
  "process_stop_market_order s order = Inr s' \<Longrightarrow> carries Q s s'"
  unfolding process_stop_market_order_def
  by (auto split: if_splits simp: generate_simple_carries dest: accept_order_carries)

lemma process_stop_limit_order_carries:
  "process_stop_limit_order s order = Inr s' \<Longrightarrow> carries Q s s'"
  unfolding process_stop_limit_order_def
  by (auto split: if_splits simp: generate_simple_carries dest: accept_order_carries)

lemma process_order_oto_carries:
  "process_order_oto s order = Inr (b, s') \<Longrightarrow> carries Q s s'"
  unfolding process_order_oto_def
  by (auto split: if_splits option.splits sum.splits
      intro: carries_same carries_trans [OF carries_same generate_simple_carries(3)])

lemma process_order_reduce_only_carries:
  "process_order_reduce_only s order = (b, s') \<Longrightarrow> carries Q s s'"
  unfolding process_order_reduce_only_def
  by (auto split: if_splits option.splits simp: generate_simple_carries)

lemma process_order_carries:
  "process_order depth s order = Inr s' \<Longrightarrow> carries Q s s'"
  unfolding process_order_def process_order_dispatch_def
  by (auto split: if_splits option.splits sum.splits prod.splits OrderType.splits
      dest!: process_order_oto_carries [where Q = Q] process_order_reduce_only_carries [where Q = Q]
        process_market_order_carries [where Q = Q] process_limit_order_carries [where Q = Q]
        process_stop_market_order_carries [where Q = Q]
        process_stop_limit_order_carries [where Q = Q]
      intro: carries_trans)

lemma carries_field_updates [simp]:
  "carries Q (s\<lparr>order_index := x\<rparr>) s' = carries Q s s'"
  "carries Q (s\<lparr>message_queue := y\<rparr>) s' = carries Q s s'"
  "carries Q s (s'\<lparr>last_bids := z, last_asks := w\<rparr>) = carries Q s s'"
  "carries Q s (s'\<lparr>books := b\<rparr>) = carries Q s s'"
  "carries Q s (s'\<lparr>order_index := x\<rparr>) = carries Q s s'"
  by (simp_all add: carries_def logged_def)

lemma process_command_carries:
  "process_command depth s command = Inr s' \<Longrightarrow> carries Q s s'"
  unfolding process_command_def Let_def
  apply (cases command)
     apply (auto dest: process_order_carries)[1]
    apply (auto elim!: for_each_carries [rotated] dest: process_order_carries)[1]
   apply (auto split: option.splits if_splits simp: generate_simple_carries
      dest!: cancel_order_carries [where Q = Q]
      dest: carries_trans [OF generate_simple_carries(5)])[1]
  apply (auto split: option.splits if_splits simp: generate_simple_carries
      dest!: upd_carriesD [OF update_order_carries [where Q = Q]]
      dest: carries_trans [OF generate_simple_carries(4)])[1]
  done

lemma process_carries:
  "process depth s now_ns = Inr s' \<Longrightarrow> carries Q (s\<lparr>clock := now_ns\<rparr>) s'"
  unfolding process_def
  apply (erule seq_carries)
   apply (erule for_each_carries [rotated])
   apply (drule process_command_carries [where Q = Q])
   apply simp
  apply auto
  done

lemma match_order_carries:
  "match_order depth s order = Inr s' \<Longrightarrow> carries Q s s'"
  unfolding match_order_def match_limit_order_def match_stop_market_order_def
    match_stop_limit_order_def Let_def
  by (auto split: OrderType.splits prod.splits if_splits elim!: seq_carries
      dest!: is_limit_matched_carries [where Q = Q] is_stop_triggered_carries [where Q = Q]
        fill_limit_order_carries [OF update_order_carries [where Q = Q]]
        fill_market_order_carries [OF update_order_carries [where Q = Q]]
        delete_order_carries [where Q = Q]
      intro: carries_trans carries_trans [OF _ generate_simple_carries(9)]
        carries_trans [OF _ generate_simple_carries(3)]
        carries_trans [OF carries_trans [OF _ generate_simple_carries(9)]]
        carries_trans [OF carries_trans [OF carries_trans [OF _ generate_simple_carries(9)]] generate_simple_carries(3)])


lemma generate_order_expired_carries:
  "expire_time_ns (obj s order) \<le> now \<Longrightarrow> carries (expired_by now) s (generate_order_expired s order)"
  by (simp add: generate_order_expired_def carries_emit expired_by_def)

lemma expire_order_carries:
  "expire_order s order = Inr s' \<Longrightarrow> expire_time_ns (obj s order) \<le> now
   \<Longrightarrow> carries (expired_by now) s s'"
  unfolding expire_order_def Let_def
  by (auto split: if_splits simp: generate_order_expired_carries
      dest!: cancel_oco_orders_carries [where Q = "expired_by now"]
      intro: carries_trans [OF generate_order_expired_carries])

lemma iterate_order_carries:
  "iterate_order depth timestamp order s = Inr s' \<Longrightarrow> carries (expired_by timestamp) s s'"
proof -
  assume r: "iterate_order depth timestamp order s = Inr s'"
  show ?thesis
  proof (cases "is_working_c (obj s order) \<and> expire_time (obj s order) \<noteq> None
      \<and> timestamp \<ge> expire_time_ns (obj s order)")
    case True
    with r obtain s1 where d: "delete_order s order = Inr s1" and e: "expire_order s1 order = Inr s'"
      by (auto simp: iterate_order_def seq_def split: sum.splits)
    have "obj s1 order = obj s order" using delete_order_cache [OF d] by (simp add: obj_def)
    with True have "expire_time_ns (obj s1 order) \<le> timestamp" by simp
    from expire_order_carries [OF e this] delete_order_carries [OF d]
    show ?thesis by (blast intro: carries_trans)
  next
    case False
    with r show ?thesis
      by (auto simp: iterate_order_def split: if_splits dest: match_order_carries)
  qed
qed

lemma iterate_side_carries:
  "iterate_side depth s orders timestamp = Inr s' \<Longrightarrow> carries (expired_by timestamp) s s'"
  unfolding iterate_side_def
  by (erule for_each_carries [rotated]) (rule iterate_order_carries)

lemma iterate_matching_engine_carries:
  "iterate_matching_engine depth s iid timestamp = Inr s'
   \<Longrightarrow> carries (expired_by timestamp) s s'"
  unfolding iterate_matching_engine_def
  by (auto elim!: seq_carries split: option.splits dest: iterate_side_carries)

lemma carries_clock_books [simp]:
  "carries Q (s\<lparr>books := b\<rparr>) s' = carries Q s s'"
  by (simp_all add: carries_def logged_def)

lemma process_tick_carries:
  "process_tick depth s tick = Inr s'
   \<Longrightarrow> carries (expired_by (tick_ts_init tick)) (s\<lparr>clock := tick_ts_init tick\<rparr>) s'"
  unfolding process_tick_def
  by (auto split: sum.splits prod.splits if_splits
      dest!: get_book_carries [where Q = "expired_by (tick_ts_init tick)"]
        iterate_matching_engine_carries
      intro: carries_trans)

lemma process_order_book_carries:
  "process_order_book depth s data = Inr s'
   \<Longrightarrow> carries (expired_by (data_ts_init data)) (s\<lparr>clock := data_ts_init data\<rparr>) s'"
  unfolding process_order_book_def
  by (auto split: sum.splits prod.splits if_splits
      dest!: get_book_carries [where Q = "expired_by (data_ts_init data)"]
        iterate_matching_engine_carries
      intro: carries_trans)

lemma adjust_account_carries: "carries Q s (adjust_account s adjustment)"
  unfolding adjust_account_def Let_def timestamp_ns_def
  by (auto split: option.splits intro!: carries_trans [OF carries_same carries_emit])

lemma reset_carries: "carries Q s (reset s)"
  unfolding reset_def
  by (rule carries_trans [OF generate_simple_carries(1) carries_same]) simp_all

lemma carries_new_clock:
  assumes "carries Q (s\<lparr>clock := t\<rparr>) s'"
  shows "clock s' = t \<and> (\<exists>new. emitted s' = emitted s @ new \<and> list_all (\<lambda>e. ts_event e = t \<or> Q e) new)"
  using carries_new [OF assms] assms by (simp add: carries_def)

lemma generate_venue_order_id_emitted:
  "generate_venue_order_id s iid = Inr (v, s') \<Longrightarrow>
     emitted s' = emitted s \<and> cache s' = cache s \<and> clock s' = clock s \<and> exec_client s' = exec_client s
     \<and> books s' = books s \<and> fill_model s' = fill_model s"
  by (auto simp: generate_venue_order_id_def Let_def split: option.splits)

lemma generate_order_filled_emitted:
  "generate_order_filled s order pid qty px quote cm liq = Inr s' \<Longrightarrow>
     \<exists>fill. emitted s' = emitted s @ [fill] \<and> is_OrderFilled fill \<and> ev_last_px fill = px
       \<and> ev_last_qty fill = qty \<and> ev_commission fill = cm \<and> ev_liquidity_side fill = liq
       \<and> ev_venue_position_id fill = pid \<and> ts_event fill = clock s
       \<and> ev_client_order_id fill = client_order_id (obj s order)
       \<and> ev_order_type fill = order_type (obj s order)"
  by (auto simp: generate_order_filled_def generate_execution_id_def emit_def is_OrderFilled_def
      timestamp_ns_def Let_def
      split: option.splits sum.splits prod.splits dest!: generate_venue_order_id_emitted)

lemma generate_order_updated_emitted:
  "generate_order_updated s order qty px trg = Inr s' \<Longrightarrow>
     (\<exists>e. emitted s' = emitted s @ [e] \<and> is_OrderUpdated e)
     \<and> fill_model s' = fill_model s \<and> clock s' = clock s \<and> exec_client s' = exec_client s"
  by (auto simp: generate_order_updated_def emit_def is_OrderUpdated_def
      split: option.splits sum.splits prod.splits dest!: generate_venue_order_id_emitted)

lemma generate_order_accepted_emitted:
  "generate_order_accepted s order = Inr s' \<Longrightarrow>
     (\<exists>e. emitted s' = emitted s @ [e] \<and> is_OrderAccepted e)"
  by (auto simp: generate_order_accepted_def emit_def is_OrderAccepted_def
      split: option.splits sum.splits prod.splits dest!: generate_venue_order_id_emitted)

lemma sum_collapse: "\<not> isl x \<Longrightarrow> x = Inr (projr x)"
  by (cases x) simp_all

lemma sum_pair_collapse: "\<not> isl x \<Longrightarrow> \<not> fst (projr x) \<Longrightarrow> x = Inr (False, snd (projr x))"
  by (cases x) auto

subsection \<open>Time stamps\<close>

text \<open>
  C2 (counterexample). The claim says that every event emitted while the clock is set to
  \<open>t\<close> carries \<open>ts_event = t\<close>, an \<open>OrderExpired\<close> emitted by a matching iteration at
  \<open>now_ns\<close> in particular. A working order with \<open>expire_time_ns = 5\<close> meets the tick of time
  10: the clock is at 10 and the \<open>OrderExpired\<close> emitted carries \<open>ts_event = 5\<close>.
\<close>

theorem expired_event_carries_expire_time:
  "map_sum id (\<lambda>s. (clock s, emitted s)) (process_tick 1 expiring_exchange example_tick)
   = Inr (10, [OrderExpired ''S-001'' ''AUD/USD.SIM'' ''O-1'' None 5])"
  by code_simp

text \<open>
  C2 (amended). Every event emitted while the clock is set to \<open>t\<close> carries
  \<open>ts_event = t\<close>, except \<open>OrderExpired\<close>, which carries the order's \<open>expire_time_ns\<close>: a
  time not after \<open>t\<close> when a matching iteration at \<open>t\<close> emits it. This holds for every
  entry point that emits events: \<^verbatim>\<open>process\<close> (where no order expires),
  \<^verbatim>\<open>process_tick\<close>, \<^verbatim>\<open>process_order_book\<close>, \<^verbatim>\<open>adjust_account\<close>, \<^verbatim>\<open>reset\<close> and
  \<^verbatim>\<open>initialize_account\<close>, whenever they return, and whatever the execution client does
  with the events.
\<close>

theorem events_carry_clock_time:
  "(\<forall>s'. process depth s now_ns = Inr s' \<longrightarrow>
      clock s' = now_ns
      \<and> (\<exists>new. emitted s' = emitted s @ new \<and> list_all (\<lambda>e. ts_event e = now_ns) new))
   \<and> (\<forall>s'. process_tick depth s tick = Inr s' \<longrightarrow>
      clock s' = tick_ts_init tick
      \<and> (\<exists>new. emitted s' = emitted s @ new
            \<and> list_all (\<lambda>e. ts_event e = tick_ts_init tick \<or> expired_by (tick_ts_init tick) e)
                 new))
   \<and> (\<forall>s'. process_order_book depth s data = Inr s' \<longrightarrow>
      clock s' = data_ts_init data
      \<and> (\<exists>new. emitted s' = emitted s @ new
            \<and> list_all (\<lambda>e. ts_event e = data_ts_init data \<or> expired_by (data_ts_init data) e)
                 new))
   \<and> (\<exists>new. emitted (adjust_account s adjustment) = emitted s @ new
            \<and> list_all (\<lambda>e. ts_event e = clock s) new)
   \<and> (\<exists>new. emitted (reset s) = emitted s @ new \<and> list_all (\<lambda>e. ts_event e = clock s) new)
   \<and> (\<exists>new. emitted (initialize_account s) = emitted s @ new
            \<and> list_all (\<lambda>e. ts_event e = clock s) new)
   \<and> generate_order_expired s order =
        emit (OrderExpired (strategy_id (obj s order)) (instrument_id (obj s order))
                (client_order_id (obj s order)) (venue_order_id (obj s order))
                (expire_time_ns (obj s order))) s"
proof -
  have p: "\<forall>s'. process depth s now_ns = Inr s' \<longrightarrow>
      clock s' = now_ns
      \<and> (\<exists>new. emitted s' = emitted s @ new \<and> list_all (\<lambda>e. ts_event e = now_ns) new)"
    using carries_new_clock [OF process_carries [where Q = "\<lambda>_. False"]] by simp
  have t: "\<forall>s'. process_tick depth s tick = Inr s' \<longrightarrow>
      clock s' = tick_ts_init tick
      \<and> (\<exists>new. emitted s' = emitted s @ new
            \<and> list_all (\<lambda>e. ts_event e = tick_ts_init tick \<or> expired_by (tick_ts_init tick) e)
                 new)"
    using carries_new_clock [OF process_tick_carries] by simp
  have b: "\<forall>s'. process_order_book depth s data = Inr s' \<longrightarrow>
      clock s' = data_ts_init data
      \<and> (\<exists>new. emitted s' = emitted s @ new
            \<and> list_all (\<lambda>e. ts_event e = data_ts_init data \<or> expired_by (data_ts_init data) e)
                 new)"
    using carries_new_clock [OF process_order_book_carries] by simp
  have a: "\<exists>new. emitted (adjust_account s adjustment) = emitted s @ new
            \<and> list_all (\<lambda>e. ts_event e = clock s) new"
    using carries_new [OF adjust_account_carries [where Q = "\<lambda>_. False"]] by simp
  have r: "\<exists>new. emitted (reset s) = emitted s @ new \<and> list_all (\<lambda>e. ts_event e = clock s) new"
    using carries_new [OF reset_carries [where Q = "\<lambda>_. False"]] by simp
  have i: "\<exists>new. emitted (initialize_account s) = emitted s @ new
            \<and> list_all (\<lambda>e. ts_event e = clock s) new"
    using carries_new [OF generate_simple_carries(1) [where Q = "\<lambda>_. False"]]
    by (simp add: initialize_account_def)
  show ?thesis using p t b a r i by (simp add: generate_order_expired_def)
qed

lemma expiring_exchange_runs:
  "\<not> isl (process 1 expiring_exchange 20)"
  "\<not> isl (process_tick 1 expiring_exchange example_tick)"
  "\<not> isl (process_order_book 1 expiring_exchange example_book_data)"
  by code_simp+

theorem events_carry_clock_time_witness:
  "\<not> isl (process 1 expiring_exchange 20)
   \<and> list_all (\<lambda>e. ts_event e = 20) (emitted (projr (process 1 expiring_exchange 20)))
   \<and> \<not> isl (process_tick 1 expiring_exchange example_tick)
   \<and> list_all (\<lambda>e. ts_event e = 10 \<or> expired_by 10 e)
        (emitted (projr (process_tick 1 expiring_exchange example_tick)))
   \<and> \<not> isl (process_order_book 1 expiring_exchange example_book_data)
   \<and> list_all (\<lambda>e. ts_event e = 10 \<or> expired_by 10 e)
        (emitted (projr (process_order_book 1 expiring_exchange example_book_data)))"
proof -
  have e: "emitted expiring_exchange = []"
    by (simp add: expiring_exchange_def example_exchange_def)
  have t: "tick_ts_init example_tick = 10" "data_ts_init example_book_data = 10"
    by (simp_all add: example_tick_def example_book_data_def)
  note th = events_carry_clock_time [of 1 expiring_exchange 20 example_tick example_book_data]
  from th sum_collapse [OF expiring_exchange_runs(1)] have a:
    "list_all (\<lambda>e. ts_event e = 20) (emitted (projr (process 1 expiring_exchange 20)))"
    using e by auto
  from th sum_collapse [OF expiring_exchange_runs(2)] have b:
    "list_all (\<lambda>e. ts_event e = 10 \<or> expired_by 10 e)
        (emitted (projr (process_tick 1 expiring_exchange example_tick)))"
    using e t by auto
  from th sum_collapse [OF expiring_exchange_runs(3)] have c:
    "list_all (\<lambda>e. ts_event e = 10 \<or> expired_by 10 e)
        (emitted (projr (process_order_book 1 expiring_exchange example_book_data)))"
    using e t by auto
  from a b c expiring_exchange_runs show ?thesis by simp
qed

subsection \<open>What a step may fill\<close>

lemma same_attrs_refl [simp]: "same_attrs a a"
  by (simp add: same_attrs_def)

lemma same_attrs_trans: "same_attrs a b \<Longrightarrow> same_attrs b c \<Longrightarrow> same_attrs a c"
  by (simp add: same_attrs_def)

lemma orders_asD:
  assumes "orders_as known s"
  shows "client_order_id (obj s r) = client_order_id (known r)"
    and "order_type (obj s r) = order_type (known r)"
    and "is_post_only (obj s r) = is_post_only (known r)"
    and "instrument_id (obj s r) = instrument_id (known r)"
    and "side (obj s r) = side (known r)"
    and "handler_keeps (exec_client s)"
  using assms by (simp_all add: orders_as_def same_attrs_def)

lemma orders_as_self: "handler_keeps (exec_client s) \<Longrightarrow> orders_as (obj s) s"
  by (simp add: orders_as_def)

lemma allowsI: "(orders_as known s \<Longrightarrow> allows A known s s') \<Longrightarrow> allows A known s s'"
  by (auto simp: allows_def)

lemma allows_refl [simp]: "allows A known s s"
  by (simp add: allows_def)

lemma allows_trans: "allows A known s s1 \<Longrightarrow> allows A known s1 s2 \<Longrightarrow> allows A known s s2"
  by (simp add: allows_def)

lemma allows_orders_as: "allows A known s s' \<Longrightarrow> orders_as known s \<Longrightarrow> orders_as known s'"
  by (simp add: allows_def)

lemma allows_same:
  "exec_client s' = exec_client s \<Longrightarrow> order_objs (cache s') = order_objs (cache s)
   \<Longrightarrow> emitted s' = emitted s \<Longrightarrow> allows A known s s'"
  by (simp add: allows_def orders_as_def obj_def logged_def)

lemma orders_as_emit: "orders_as known s \<Longrightarrow> orders_as known (emit e s)"
  unfolding orders_as_def handler_keeps_def emit_def obj_def
  by (auto intro: same_attrs_trans)

lemma allows_emit:
  assumes "orders_as known s \<Longrightarrow> fill_allowed A known e"
  shows "allows A known s (emit e s)"
proof (rule allowsI)
  assume o: "orders_as known s"
  have "logged P old (emit e s)" if "\<forall>e. fill_allowed A known e \<longrightarrow> P e" "logged P old s" for P old
    using that assms [OF o] by (auto simp: logged_def emit_def)
  with orders_as_emit [OF o] show ?thesis by (simp add: allows_def)
qed

lemma allows_emit_other: "\<not> is_OrderFilled e \<Longrightarrow> allows A known s (emit e s)"
  by (rule allows_emit) (simp add: fill_allowed_def)

lemma allows_new:
  assumes "allows A known s s'" and "orders_as known s"
  shows "\<exists>new. emitted s' = emitted s @ new \<and> list_all (fill_allowed A known) new"
proof -
  have "logged (fill_allowed A known) (emitted s) s"
    by (simp add: logged_def)
  with assms have "logged (fill_allowed A known) (emitted s) s'"
    by (simp add: allows_def)
  then show ?thesis by (simp add: logged_def)
qed

lemma for_each_allows:
  assumes "\<And>a s1 s2. a \<in> set xs \<Longrightarrow> body a s1 = Inr s2 \<Longrightarrow> allows A known s1 s2"
  shows "for_each xs body s = Inr s' \<Longrightarrow> allows A known s s'"
  using assms
proof (induction xs arbitrary: s)
  case Nil
  then show ?case by simp
next
  case (Cons a xs)
  from Cons.prems(1) obtain s1 where a: "body a s = Inr s1" and r: "for_each xs body s1 = Inr s'"
    by (auto simp: seq_def split: sum.splits)
  have "allows A known s s1" using Cons.prems(2) [of a s s1] a by simp
  moreover have "allows A known s1 s'"
  proof (rule Cons.IH [OF r])
    fix b t1 t2
    assume "b \<in> set xs" and "body b t1 = Inr t2"
    then show "allows A known t1 t2" using Cons.prems(2) [of b t1 t2] by simp
  qed
  ultimately show ?case by (rule allows_trans)
qed

lemma seq_allows:
  assumes "seq r f = Inr s'" and "\<And>s1. r = Inr s1 \<Longrightarrow> allows A known s s1"
    and "\<And>s1. r = Inr s1 \<Longrightarrow> f s1 = Inr s' \<Longrightarrow> allows A known s1 s'"
  shows "allows A known s s'"
  using assms by (auto simp: seq_def split: sum.splits intro: allows_trans)

lemma generate_venue_order_id_allows:
  "generate_venue_order_id s iid = Inr (v, s') \<Longrightarrow> allows A known s s'"
  by (auto simp: generate_venue_order_id_def Let_def split: option.splits intro!: allows_same)

lemma generate_venue_position_id_allows:
  "generate_venue_position_id s iid = Inr (v, s') \<Longrightarrow> allows A known s s'"
  by (auto simp: generate_venue_position_id_def Let_def split: option.splits intro!: allows_same)

lemma generate_execution_id_allows:
  "generate_execution_id s = (v, s') \<Longrightarrow> allows A known s s'"
  by (auto simp: generate_execution_id_def Let_def intro!: allows_same)

lemma generate_simple_allows:
  "allows A known s (generate_fresh_account_state s)"
  "allows A known s (generate_order_submitted s order)"
  "allows A known s (generate_order_rejected s order reason)"
  "allows A known s (generate_order_pending_update s order)"
  "allows A known s (generate_order_pending_cancel s order)"
  "allows A known s (generate_order_modify_rejected s strat iid cid void reason)"
  "allows A known s (generate_order_cancel_rejected s strat iid cid void reason)"
  "allows A known s (generate_order_canceled s order)"
  "allows A known s (generate_order_triggered s order)"
  "allows A known s (generate_order_expired s order)"
  by (simp_all add: generate_fresh_account_state_def generate_order_submitted_def
      generate_order_rejected_def generate_order_pending_update_def
      generate_order_pending_cancel_def generate_order_modify_rejected_def
      generate_order_cancel_rejected_def generate_order_canceled_def
      generate_order_triggered_def generate_order_expired_def allows_emit_other
      is_OrderFilled_def)

lemma generate_order_accepted_allows:
  "generate_order_accepted s order = Inr s' \<Longrightarrow> allows A known s s'"
  by (auto simp: generate_order_accepted_def is_OrderFilled_def split: sum.splits
      dest!: generate_venue_order_id_allows [where A = A and known = known]
      intro: allows_trans [OF _ allows_emit_other])

lemma generate_order_updated_allows:
  "generate_order_updated s order qty px trg = Inr s' \<Longrightarrow> allows A known s s'"
  by (auto simp: generate_order_updated_def allows_emit_other is_OrderFilled_def
      split: sum.splits option.splits
      dest!: generate_venue_order_id_allows [where A = A and known = known]
      intro: allows_trans [OF _ allows_emit_other])

lemma generate_order_filled_allows:
  assumes ok: "A (order_type (known order)) (is_post_only (known order)) liq"
    and r: "generate_order_filled s order pid qty px quote cm liq = Inr s'"
  shows "allows A known s s'"
proof (rule allowsI)
  assume o: "orders_as known s"
  from r obtain void s1 where
    v: "(case venue_order_id (obj s order) of
              Some void \<Rightarrow> Inr (void, s)
            | None \<Rightarrow> generate_venue_order_id s (instrument_id (obj s order))) = Inr (void, s1)"
    and s': "s' = emit (OrderFilled (strategy_id (obj s order)) (instrument_id (obj s order))
                            (client_order_id (obj s order)) (Some void) pid
                            (fst (generate_execution_id s1)) (side (obj s order))
                            (order_type (obj s order))
                            qty px quote cm liq
                            (timestamp_ns (snd (generate_execution_id s1))))
                 (snd (generate_execution_id s1))"
    by (auto simp: generate_order_filled_def split: sum.splits prod.splits)
  from v have "allows A known s s1"
    by (auto split: option.splits dest: generate_venue_order_id_allows)
  moreover have "allows A known s1 (snd (generate_execution_id s1))"
    by (rule generate_execution_id_allows [of s1 "fst (generate_execution_id s1)"]) simp
  moreover have "fill_allowed A known
      (OrderFilled st (instrument_id (obj s order)) (client_order_id (obj s order)) v pid x
         (side (obj s order)) (order_type (obj s order)) qty px quote cm liq t)" for st v x t
    using ok orders_asD [OF o] by (auto simp: fill_allowed_def)
  then have "allows A known (snd (generate_execution_id s1)) s'"
    unfolding s' by (rule allows_emit)
  ultimately show ?thesis by (blast intro: allows_trans)
qed

lemma add_order_allows: "allows A known s (add_order s order)"
  by (simp add: add_order_def Let_def allows_same)

lemma delete_order_allows: "delete_order s order = Inr s' \<Longrightarrow> allows A known s s'"
  by (auto simp: delete_order_def Let_def split: option.splits if_splits intro!: allows_same)

lemma set_venue_order_id_allows: "allows A known s (set_venue_order_id s order void)"
  by (auto simp: set_venue_order_id_def allows_def orders_as_def obj_def logged_def
      same_attrs_def)

lemma cache_add_position_id_allows:
  "cache_add_position_id s pid cid = Inr s' \<Longrightarrow> allows A known s s'"
  by (auto simp: cache_add_position_id_def split: option.splits intro!: allows_same)

lemma get_book_allows: "get_book s iid = Inr (b, s') \<Longrightarrow> allows A known s s'"
  by (auto simp: get_book_def Let_def split: option.splits intro!: allows_same)

lemma get_position_id_allows: "get_position_id s order g = Inr (v, s') \<Longrightarrow> allows A known s s'"
  by (auto simp: get_position_id_def Let_def split: option.splits if_splits list.splits sum.splits
      dest!: generate_venue_position_id_allows [where A = A and known = known])

lemma draw_allows:
  "is_limit_filled s = (b, s') \<Longrightarrow> allows A known s s'"
  "is_stop_filled s = (b, s') \<Longrightarrow> allows A known s s'"
  "is_slipped s = (b, s') \<Longrightarrow> allows A known s s'"
  by (auto simp: is_limit_filled_def is_stop_filled_def is_slipped_def intro!: allows_same)

lemma is_limit_matched_allows: "is_limit_matched s iid sd px = (b, s') \<Longrightarrow> allows A known s s'"
  by (auto simp: is_limit_matched_def split: option.splits if_splits dest: draw_allows)

lemma market_book_fills_allows: "market_book_fills s order = Inr (f, s') \<Longrightarrow> allows A known s s'"
  by (auto simp: market_book_fills_def Let_def split: sum.splits if_splits
      dest!: get_book_allows [where A = A and known = known])

lemma determine_limit_allows:
  "determine_limit_price_and_volume s order = Inr (f, s') \<Longrightarrow> allows A known s s'"
  by (auto simp: determine_limit_price_and_volume_def Let_def split: sum.splits if_splits
      dest!: get_book_allows [where A = A and known = known] intro: allows_same)

lemma determine_market_allows:
  "determine_market_price_and_volume s order = Inr (f, s') \<Longrightarrow> allows A known s s'"
  by (auto simp: determine_market_price_and_volume_def Let_def
      split: sum.splits if_splits option.splits
      dest!: market_book_fills_allows [where A = A and known = known] intro: allows_same)

lemma accept_order_allows: "accept_order s order = Inr s' \<Longrightarrow> allows A known s s'"
  unfolding accept_order_def
  by (blast intro: allows_trans add_order_allows generate_order_accepted_allows)

lemma cancel_order_alone_allows: "cancel_order_alone s order = Inr s' \<Longrightarrow> allows A known s s'"
  unfolding cancel_order_alone_def
  apply (erule seq_allows)
   apply (auto split: option.splits sum.splits
      dest!: generate_venue_order_id_allows [where A = A and known = known]
      intro: allows_trans [OF _ set_venue_order_id_allows])[1]
  apply (auto split: option.splits if_splits
      intro!: allows_trans [OF _ generate_simple_allows(8)] allows_same)
  done

lemma cancel_oco_sibling_allows: "cancel_oco_sibling cid s = Inr s' \<Longrightarrow> allows A known s s'"
  by (auto simp: cancel_oco_sibling_def split: option.splits if_splits
      dest: cancel_order_alone_allows)

lemma cancel_oco_orders_allows: "cancel_oco_orders s order = Inr s' \<Longrightarrow> allows A known s s'"
  unfolding cancel_oco_orders_def
  by (erule for_each_allows [rotated]) (rule cancel_oco_sibling_allows)

lemma cancel_order_allows: "cancel_order s order b = Inr s' \<Longrightarrow> allows A known s s'"
  unfolding cancel_order_def
  by (erule seq_allows)
    (auto split: if_splits dest: cancel_order_alone_allows cancel_oco_orders_allows)

lemma upd_allowsD:
  "upd_allows A known upd \<Longrightarrow> upd s order qty px trg u = Inr s' \<Longrightarrow> allows A known s s'"
  by (simp add: upd_allows_def)

lemma fill_order_oto_child_allows:
  "fill_order_oto_child order cid s = Inr s' \<Longrightarrow> allows A known s s'"
  unfolding fill_order_oto_child_def
  by (auto split: option.splits elim!: seq_allows
      dest: cache_add_position_id_allows accept_order_allows split: if_splits)

lemma fill_order_oco_sibling_allows:
  "upd_allows A known upd \<Longrightarrow> fill_order_oco_sibling upd order cid s = Inr s'
   \<Longrightarrow> allows A known s s'"
  unfolding fill_order_oco_sibling_def
  by (auto split: option.splits if_splits dest: cancel_order_allows upd_allowsD)

lemma fill_order_reduce_only_allows:
  "upd_allows A known upd \<Longrightarrow> fill_order_reduce_only upd position order s = Inr s'
   \<Longrightarrow> allows A known s s'"
  unfolding fill_order_reduce_only_def
  by (auto split: option.splits if_splits dest: cancel_order_allows upd_allowsD)

lemma fill_order_tail_allows:
  assumes u: "upd_allows A known upd"
    and r: "seq (if is_passive_c (obj s order) \<and> is_completed_c (obj s order)
              then delete_order s order else Inr s)
    (\<lambda>s. seq (if contingency (obj s order) = OTO then
                (case child_order_ids (obj s order) of
                   None \<Rightarrow> Inl TypeError
                 | Some children \<Rightarrow> for_each children (fill_order_oto_child order) s)
              else if contingency (obj s order) = OCO then
                for_each (contingency_ids (obj s order)) (fill_order_oco_sibling upd order) s
              else Inr s)
    (\<lambda>s. case position of
           None \<Rightarrow> Inr s
         | Some p \<Rightarrow>
             for_each (cache_orders_for_position s venue_position_id)
               (fill_order_reduce_only upd p) s)) = Inr s'"
  shows "allows A known s s'"
  using r
proof (elim seq_allows)
  fix s1
  assume "(if is_passive_c (obj s order) \<and> is_completed_c (obj s order)
              then delete_order s order else Inr s) = Inr s1"
  then show "allows A known s s1"
    by (auto split: if_splits dest: delete_order_allows)
next
  fix s1 s2
  assume "(if contingency (obj s1 order) = OTO then
                (case child_order_ids (obj s1 order) of
                   None \<Rightarrow> Inl TypeError
                 | Some children \<Rightarrow> for_each children (fill_order_oto_child order) s1)
              else if contingency (obj s1 order) = OCO then
                for_each (contingency_ids (obj s1 order)) (fill_order_oco_sibling upd order) s1
              else Inr s1) = Inr s2"
  then show "allows A known s1 s2"
    by (auto split: if_splits option.splits
        elim!: for_each_allows [rotated]
        dest: fill_order_oto_child_allows fill_order_oco_sibling_allows [OF u])
next
  fix s2
  assume "(case position of
           None \<Rightarrow> Inr s2
         | Some p \<Rightarrow>
             for_each (cache_orders_for_position s2 venue_position_id)
               (fill_order_reduce_only upd p) s2) = Inr s'"
  then show "allows A known s2 s'"
    by (auto split: if_splits option.splits
        elim!: for_each_allows [rotated]
        dest: fill_order_reduce_only_allows [OF u])
qed

lemma fill_order_allows:
  assumes u: "upd_allows A known upd"
    and ok: "A (order_type (known order)) (is_post_only (known order)) liq"
    and r: "fill_order upd s instrument order pid position qty px liq = Inr s'"
  shows "allows A known s s'"
  using r unfolding fill_order_def
  apply (elim seq_allows [where A = A and known = known and s = s])
   apply (erule generate_order_filled_allows [where A = A and known = known and order = order and liq = liq, OF ok])
  apply (rule fill_order_tail_allows [OF u])
  apply (simp add: seq_def)
  done

lemma apply_fill_allows:
  assumes u: "upd_allows A known upd"
    and ok: "A (order_type (known order)) (is_post_only (known order)) liq"
    and r: "apply_fill upd instrument order liq pid position fill_px fill_qty s = Inr (b, s')"
  shows "allows A known s s'"
  using r unfolding apply_fill_def Let_def
  by (auto split: if_splits prod.splits sum.splits option.splits
      dest!: draw_allows(3) [where A = A and known = known]
        generate_order_updated_allows [where A = A and known = known]
        fill_order_allows [OF u ok]
      intro: allows_trans)

lemma apply_fills_loop_allows:
  assumes u: "upd_allows A known upd"
    and ok: "A (order_type (known order)) (is_post_only (known order)) liq"
  shows "apply_fills_loop upd instrument order liq pid position fills s = Inr (b, s')
         \<Longrightarrow> allows A known s s'"
proof (induction fills arbitrary: s)
  case Nil
  then show ?case by simp
next
  case (Cons a fills)
  obtain fill_px fill_qty where a: "a = (fill_px, fill_qty)" by (cases a)
  from Cons.prems obtain r s1 where
    f: "apply_fill upd instrument order liq pid position fill_px fill_qty s = Inr (r, s1)"
    and rest: "r \<and> s' = s1 \<or> (\<not> r \<and>
       apply_fills_loop upd instrument order liq pid position fills s1 = Inr (b, s'))"
    unfolding a by (auto split: sum.splits prod.splits if_splits)
  have "allows A known s s1" by (rule apply_fill_allows [OF u ok f])
  moreover have "allows A known s1 s'" using rest Cons.IH by auto
  ultimately show ?case by (rule allows_trans)
qed

lemma apply_fills_allows:
  assumes u: "upd_allows A known upd"
    and ok: "A (order_type (known order)) (is_post_only (known order)) liq"
    and r: "apply_fills upd s order liq fills pid position = Inr s'"
  shows "allows A known s s'"
  using r unfolding apply_fills_def
  by (auto split: if_splits prod.splits sum.splits option.splits
      dest!: apply_fills_loop_allows [OF u ok] fill_order_allows [OF u ok]
      intro: allows_trans)

lemma fill_limit_order_allows:
  assumes u: "upd_allows A known upd"
    and ok: "A (order_type (known order)) (is_post_only (known order)) liq"
    and r: "fill_limit_order upd s order liq = Inr s'"
  shows "allows A known s s'"
  using r unfolding fill_limit_order_def Let_def
  by (auto split: if_splits prod.splits sum.splits option.splits
      dest!: get_position_id_allows [where A = A and known = known]
        determine_limit_allows [where A = A and known = known]
        apply_fills_allows [OF u ok] cancel_order_allows [where A = A and known = known]
      intro: allows_trans)

lemma fill_market_order_allows:
  assumes u: "upd_allows A known upd"
    and ok: "A (order_type (known order)) (is_post_only (known order)) liq"
    and r: "fill_market_order upd s order liq = Inr s'"
  shows "allows A known s s'"
  using r unfolding fill_market_order_def Let_def
  by (auto split: if_splits prod.splits sum.splits option.splits
      dest!: get_position_id_allows [where A = A and known = known]
        determine_market_allows [where A = A and known = known]
        apply_fills_allows [OF u ok] cancel_order_allows [where A = A and known = known]
      intro: allows_trans)

lemma update_limit_order_allows:
  assumes u: "upd_allows A known upd"
    and ty: "order_type (obj s order) = LIMIT"
    and a: "upd_fills_allowed A"
    and r: "update_limit_order upd s order qty px = Inr s'"
  shows "allows A known s s'"
proof (rule allowsI)
  assume o: "orders_as known s"
  have ok: "A (order_type (known order)) (is_post_only (known order)) TAKER"
    if "\<not> is_post_only (obj s order)"
    using that a ty orders_asD(2,3) [OF o, of order] by (simp add: upd_fills_allowed_def)
  from r show ?thesis
    unfolding update_limit_order_def
    by (auto split: if_splits elim!: seq_allows simp: generate_simple_allows
        dest: generate_order_updated_allows fill_limit_order_allows [OF u ok])
qed

lemma update_stop_market_order_allows:
  "update_stop_market_order s order qty px = Inr s' \<Longrightarrow> allows A known s s'"
  unfolding update_stop_market_order_def
  by (auto split: if_splits simp: generate_simple_allows dest: generate_order_updated_allows)

lemma update_stop_limit_order_allows:
  assumes u: "upd_allows A known upd"
    and ty: "order_type (obj s order) = STOP_LIMIT"
    and a: "upd_fills_allowed A"
    and r: "update_stop_limit_order upd s order qty px trg = Inr s'"
  shows "allows A known s s'"
proof (rule allowsI)
  assume o: "orders_as known s"
  have ok: "A (order_type (known order)) (is_post_only (known order)) TAKER"
    if "\<not> is_post_only (obj s order)"
    using that a ty orders_asD(2,3) [OF o, of order] by (simp add: upd_fills_allowed_def)
  from r show ?thesis
    unfolding update_stop_limit_order_def
    by (auto split: if_splits elim!: seq_allows simp: generate_simple_allows
        dest: generate_order_updated_allows fill_limit_order_allows [OF u ok])
qed

lemma update_oco_orders_allows:
  assumes u: "upd_allows A known upd"
    and r: "update_oco_orders upd s order = Inr s'"
  shows "allows A known s s'"
  using r unfolding update_oco_orders_def
  by (elim for_each_allows [rotated])
    (auto simp: update_oco_sibling_def split: option.splits if_splits dest: upd_allowsD [OF u])

lemma update_order_body_allows:
  assumes a: "upd_fills_allowed A" and u: "upd_allows A known upd"
  shows "upd_allows A known (update_order_body upd)"
  unfolding upd_allows_def
proof (intro allI impI)
  fix s order qty px trg b s'
  assume r: "update_order_body upd s order qty px trg b = Inr s'"
  then show "allows A known s s'"
    unfolding update_order_body_def Let_def
    by (auto elim!: seq_allows split: OrderType.splits if_splits
        dest: update_limit_order_allows [OF u _ a] update_stop_market_order_allows
          update_stop_limit_order_allows [OF u _ a] update_oco_orders_allows [OF u])
qed

lemma update_order_allows: "upd_fills_allowed A \<Longrightarrow> upd_allows A known (update_order depth)"
proof (induction depth)
  case 0
  show ?case by (simp add: upd_allows_def)
next
  case (Suc depth)
  then show ?case by (simp add: update_order_body_allows)
qed

lemma example_handler_keeps:
  "handler_keeps \<lparr>handle_event = example_handle_event, calculate_commission = cm\<rparr>"
  unfolding handler_keeps_def
proof (intro allI)
  fix e c r
  show "same_attrs (order_objs c r)
          (order_objs (handle_event \<lparr>handle_event = example_handle_event,
             calculate_commission = cm\<rparr> e c) r)
        \<and> (is_OrderUpdated e
           \<or> price (order_objs (handle_event \<lparr>handle_event = example_handle_event,
                calculate_commission = cm\<rparr> e c) r) = price (order_objs c r))"
    by (cases e)
      (simp_all add: example_handle_event_def apply_order_event_def apply_position_fill_def
        same_attrs_def is_OrderUpdated_def Let_def split: option.splits)
qed

subsection \<open>The fill price of stop orders\<close>

text \<open>
  C3 (counterexample). The claim says that only the first allocation of a StopMarket
  order's plan is filled at the stop price and every later one at the plan's price. A
  StopMarket order to buy 30 with the stop price 99 is filled against the plan
  \<open>[(100, 10), (101, 20)]\<close> of an L2 book (no slippage): the second allocation is filled
  at 99 as well, not at 101.
\<close>

theorem stop_market_second_allocation_at_stop_price:
  "map_sum id (map (\<lambda>e. (ev_last_qty e, ev_last_px e)) \<circ> emitted)
     (fill_market_order (update_order 1) stop_exchange ''O-1'' TAKER)
   = Inr [(10, 99), (20, 99)]"
  by code_simp

lemma limit_fill_not_stop_market:
  "list_all (fill_allowed limit_fill known) es
   \<Longrightarrow> list_all (\<lambda>e. \<not> (is_OrderFilled e \<and> ev_order_type e = STOP_MARKET)) es"
  by (induction es) (auto simp: fill_allowed_def limit_fill_def)

lemma fill_order_events:
  assumes o: "orders_as known s"
    and r: "fill_order (update_order depth) s instrument order pid position qty px liq = Inr s'"
  shows "\<exists>fill rest. emitted s' = emitted s @ fill # rest \<and> is_OrderFilled fill
           \<and> ev_last_px fill = px \<and> ev_last_qty fill = qty \<and> ev_liquidity_side fill = liq
           \<and> ev_order_type fill = order_type (obj s order)
           \<and> list_all (\<lambda>e. \<not> (is_OrderFilled e \<and> ev_order_type e = STOP_MARKET)) rest"
proof -
  from r obtain s1 where
    g: "generate_order_filled s order pid qty px (quote_currency instrument)
          (calculate_commission (exec_client s) instrument (quantity (obj s order)) px liq) liq
        = Inr s1"
    and tail: "seq (if is_passive_c (obj s1 order) \<and> is_completed_c (obj s1 order)
              then delete_order s1 order else Inr s1)
    (\<lambda>s. seq (if contingency (obj s order) = OTO then
                (case child_order_ids (obj s order) of
                   None \<Rightarrow> Inl TypeError
                 | Some children \<Rightarrow> for_each children (fill_order_oto_child order) s)
              else if contingency (obj s order) = OCO then
                for_each (contingency_ids (obj s order))
                  (fill_order_oco_sibling (update_order depth) order) s
              else Inr s)
    (\<lambda>s. case position of
           None \<Rightarrow> Inr s
         | Some p \<Rightarrow>
             for_each (cache_orders_for_position s pid)
               (fill_order_reduce_only (update_order depth) p) s)) = Inr s'"
    unfolding fill_order_def by (auto simp: seq_def split: sum.splits)
  have "allows any_fill known s s1"
    by (rule generate_order_filled_allows [where A = any_fill and known = known
          and order = order and liq = liq, OF _ g]) (simp add: any_fill_def)
  then have o1: "orders_as known s1" using o by (rule allows_orders_as)
  have u: "upd_allows limit_fill known (update_order depth)"
    by (rule update_order_allows) (simp add: upd_fills_allowed_def limit_fill_def)
  from allows_new [OF fill_order_tail_allows [OF u tail] o1]
  obtain rest where "emitted s' = emitted s1 @ rest" "list_all (fill_allowed limit_fill known) rest"
    by blast
  with generate_order_filled_emitted [OF g] limit_fill_not_stop_market [of known rest]
  show ?thesis by auto
qed

lemma apply_fill_stop_market:
  assumes o: "orders_as known s"
    and ty: "order_type (obj s order) = STOP_MARKET"
    and r: "apply_fill (update_order depth) instrument order liquidity_side venue_position_id
           position fill_px fill_qty s = Inr (returned, s')"
  shows "\<exists>pre. length pre \<le> 1 \<and> list_all is_OrderUpdated pre
           \<and> (if returned then
                emitted s' = emitted s @ pre \<and> (is_reduce_only (obj s order) \<or> fill_qty \<le> 0)
              else
                (\<exists>fill rest.
                   emitted s' = emitted s @ pre @ fill # rest
                   \<and> is_OrderFilled fill \<and> ev_order_type fill = STOP_MARKET
                   \<and> ev_last_px fill = stop_fill_px s instrument order
                   \<and> 0 < ev_last_qty fill \<and> ev_last_qty fill \<le> fill_qty
                   \<and> ev_liquidity_side fill = liquidity_side
                   \<and> list_all (\<lambda>e. \<not> (is_OrderFilled e \<and> ev_order_type e = STOP_MARKET)) rest))"
proof -
  define base where "base = (if book_type s = L1_TBBO then snd (is_slipped s) else s)"
  define clip where "clip =
    (if is_reduce_only (obj base order) then
       (case position of
          None \<Rightarrow> Inl AttributeError
        | Some p \<Rightarrow>
            if fill_qty > pos_quantity (pos_obj base p) then
              (let org_qty = fill_qty;
                   adj_qty = fill_qty - (fill_qty - pos_quantity (pos_obj base p));
                   updated_qty = quantity (obj base order) - (org_qty - adj_qty)
               in if adj_qty < 0 then Inl ValueError
                  else if updated_qty > 0 then
                    (case generate_order_updated base order updated_qty None None of
                       Inl e \<Rightarrow> Inl e
                     | Inr s2 \<Rightarrow> Inr (adj_qty, s2))
                  else Inr (adj_qty, base))
            else Inr (fill_qty, base))
     else Inr (fill_qty, base))"
  have base: "emitted base = emitted s" "obj base order = obj s order"
    by (simp_all add: base_def is_slipped_def obj_def)
  have ob: "orders_as known base"
    using o by (simp add: base_def is_slipped_def orders_as_def obj_def)
  have unfolded: "apply_fill (update_order depth) instrument order liquidity_side
      venue_position_id position fill_px fill_qty s =
    (if is_reduce_only (obj s order) \<and> leaves_qty (obj s order) = 0 then Inr (True, s)
     else case clip of
       Inl e \<Rightarrow> Inl e
     | Inr (qty, s2) \<Rightarrow>
         if qty \<le> 0 then Inr (True, s2)
         else (case fill_order (update_order depth) s2 instrument order venue_position_id
                     position qty (stop_fill_px s instrument order) liquidity_side of
                 Inl e \<Rightarrow> Inl e
               | Inr s3 \<Rightarrow> Inr (False, s3)))"
    using ty
    by (simp add: apply_fill_def clip_def base_def stop_fill_px_def is_slipped_def Let_def obj_def
        pos_obj_def split: prod.splits cong: option.case_cong sum.case_cong if_cong)
  have clipped: "qty \<le> fill_qty \<and> (is_reduce_only (obj s order) \<or> qty = fill_qty)
      \<and> orders_as known s2
      \<and> (\<exists>pre. emitted s2 = emitted s @ pre \<and> length pre \<le> 1 \<and> list_all is_OrderUpdated pre)"
    if c: "clip = Inr (qty, s2)" for qty s2
  proof -
    from c have "qty \<le> fill_qty \<and> (is_reduce_only (obj base order) \<or> qty = fill_qty)
      \<and> (s2 = base \<or> (\<exists>q. generate_order_updated base order q None None = Inr s2))" 
      unfolding clip_def Let_def
      by (auto split: if_splits option.splits sum.splits)
    moreover have "orders_as known s2
        \<and> (\<exists>pre. emitted s2 = emitted base @ pre \<and> length pre \<le> 1 \<and> list_all is_OrderUpdated pre)"
      if "generate_order_updated base order q None None = Inr s2" for q
      using generate_order_updated_emitted [OF that]
        allows_orders_as [OF generate_order_updated_allows [OF that, of any_fill known] ob]
      by auto
    ultimately show ?thesis using base ob by auto
  qed
  show ?thesis
  proof (cases "is_reduce_only (obj s order) \<and> leaves_qty (obj s order) = 0")
    case True
    with r have "returned" "s' = s" unfolding unfolded by simp_all
    with True show ?thesis by (intro exI [of _ "[]"]) simp
  next
    case False
    with r obtain qty s2 where c: "clip = Inr (qty, s2)"
      and rest: "if qty \<le> 0 then returned \<and> s' = s2
                 else \<not> returned \<and> fill_order (update_order depth) s2 instrument order
                        venue_position_id position qty (stop_fill_px s instrument order)
                        liquidity_side = Inr s'"
      unfolding unfolded by (auto split: if_splits sum.splits prod.splits)
    from clipped [OF c] obtain pre where le: "qty \<le> fill_qty"
      and q: "is_reduce_only (obj s order) \<or> qty = fill_qty"
      and o2: "orders_as known s2"
      and p: "emitted s2 = emitted s @ pre" "length pre \<le> 1" "list_all is_OrderUpdated pre"
      by blast
    show ?thesis
    proof (cases "qty \<le> 0")
      case True
      with rest q p show ?thesis by (intro exI [of _ pre]) auto
    next
      case pos: False
      with rest have nr: "\<not> returned"
        and fo: "fill_order (update_order depth) s2 instrument order venue_position_id position
                   qty (stop_fill_px s instrument order) liquidity_side = Inr s'"
        by simp_all
      have "order_type (obj s2 order) = STOP_MARKET"
        using orders_asD(2) [OF o2, of order] orders_asD(2) [OF o, of order] ty by simp
      with fill_order_events [OF o2 fo] p pos le nr show ?thesis
        by (intro exI [of _ pre]) auto
    qed
  qed
qed

text \<open>
  C3 (amended). When a StopMarket order is filled against a fill plan, every allocation
  that is filled, the first and each later one alike, is filled at the order's stop price
  (moved by one increment when the book is L1 and the fill slips), whatever price the plan
  gives it. For a run of \<^verbatim>\<open>_apply_fills\<close> that returns and any allocation
  \<open>(fill_px, fill_qty)\<close> of its plan, wherever it stands in the plan (after the
  allocations \<open>taken\<close> and before the allocations \<open>later\<close>): either the loop has returned
  before it reaches the allocation; or it reaches the allocation in an exchange \<open>sk\<close> and
  its body returns there without a fill, which only happens for a reduce-only order or an
  allocation of no quantity; or the body emits at most one \<open>OrderUpdated\<close> (the
  reduce-only clip) and then the \<open>OrderFilled\<close> of the allocation, whose price is
  \<open>stop_fill_px sk\<close>, the stop price the order has in \<open>sk\<close>, and does not depend on
  \<open>fill_px\<close>. Whatever else the body emits is no fill of a StopMarket order, and all of
  it stays in the sequence the run has emitted. The execution client is taken to leave the
  fixed attributes of an order, its type among them, as they are (\<open>handler_keeps\<close>).
\<close>

theorem stop_market_every_allocation_at_stop_price:
  assumes hk: "handler_keeps (exec_client s)"
    and ty: "order_type (obj s order) = STOP_MARKET"
    and r: "apply_fills (update_order depth) s order liquidity_side
              (taken @ (fill_px, fill_qty) # later) venue_position_id position = Inr s'"
  shows "\<exists>instrument returned sk.
           instruments s (instrument_id (obj s order)) = Some instrument
           \<and> apply_fills_loop (update_order depth) instrument order liquidity_side
                venue_position_id position taken s = Inr (returned, sk)
           \<and> (returned
              \<or> (\<exists>returned1 s1 pre.
                    apply_fill (update_order depth) instrument order liquidity_side
                      venue_position_id position fill_px fill_qty sk = Inr (returned1, s1)
                    \<and> length pre \<le> 1 \<and> list_all is_OrderUpdated pre
                    \<and> (if returned1 then
                         emitted s1 = emitted sk @ pre
                         \<and> (is_reduce_only (obj sk order) \<or> fill_qty \<le> 0)
                       else
                         (\<exists>fill rest post.
                            emitted s1 = emitted sk @ pre @ fill # rest
                            \<and> emitted s' = emitted s1 @ post
                            \<and> is_OrderFilled fill \<and> ev_order_type fill = STOP_MARKET
                            \<and> ev_last_px fill = stop_fill_px sk instrument order
                            \<and> 0 < ev_last_qty fill \<and> ev_last_qty fill \<le> fill_qty
                            \<and> ev_liquidity_side fill = liquidity_side
                            \<and> list_all (\<lambda>e. \<not> (is_OrderFilled e \<and> ev_order_type e = STOP_MARKET))
                                 rest))))"
proof -
  let ?loop = "apply_fills_loop (update_order depth)"
  have append: "?loop instrument order liquidity_side venue_position_id position (xs @ ys) t =
     (case ?loop instrument order liquidity_side venue_position_id position xs t of
        Inl e \<Rightarrow> Inl e
      | Inr (ret, t1) \<Rightarrow>
          if ret then Inr (True, t1)
          else ?loop instrument order liquidity_side venue_position_id position ys t1)"
    for instrument xs ys t
  proof (induction xs arbitrary: t)
    case Nil
    show ?case by simp
  next
    case (Cons a xs)
    obtain p q where a: "a = (p, q)" by (cases a)
    show ?case
      unfolding a using Cons.IH by (simp split: sum.splits prod.splits)
  qed
  have run: "\<exists>instrument rl sl.
           instruments s (instrument_id (obj s order)) = Some instrument
           \<and> ?loop instrument order liquidity_side venue_position_id position fills s
               = Inr (rl, sl)
           \<and> (s' = sl
              \<or> (\<exists>qty px. fill_order (update_order depth) sl instrument order venue_position_id
                             position qty px liquidity_side = Inr s'))"
    if "apply_fills (update_order depth) s order liquidity_side fills venue_position_id position
          = Inr s'" and "fills \<noteq> []"
    for fills
    using that unfolding apply_fills_def
    by (auto split: option.splits sum.splits prod.splits if_splits)
  from r obtain instrument rl sl where
    i: "instruments s (instrument_id (obj s order)) = Some instrument"
    and l: "?loop instrument order liquidity_side venue_position_id position
              (taken @ (fill_px, fill_qty) # later) s = Inr (rl, sl)"
    and f: "s' = sl \<or> (\<exists>qty px. fill_order (update_order depth) sl instrument order
              venue_position_id position qty px liquidity_side = Inr s')"
    using run [OF r] by blast
  have grow_f: "\<exists>post. emitted s' = emitted sl @ post"
    using f
    by (auto dest!: fill_order_carries [OF update_order_carries, where Q = "\<lambda>_. False"]
        carries_new)
  from l obtain returned sk where
    k: "?loop instrument order liquidity_side venue_position_id position taken s
          = Inr (returned, sk)"
    and n: "returned \<or> ?loop instrument order liquidity_side venue_position_id position
             ((fill_px, fill_qty) # later) sk = Inr (rl, sl)"
    unfolding append by (auto split: sum.splits prod.splits if_splits)
  show ?thesis
  proof (cases returned)
    case True
    with i k show ?thesis by blast
  next
    case False
    with n obtain returned1 s1 where
      a: "apply_fill (update_order depth) instrument order liquidity_side venue_position_id
            position fill_px fill_qty sk = Inr (returned1, s1)"
      and m: "returned1 \<or> ?loop instrument order liquidity_side venue_position_id position
               later s1 = Inr (rl, sl)"
      by (auto split: sum.splits prod.splits if_splits)
    have u: "upd_allows any_fill (obj s) (update_order depth)"
      by (rule update_order_allows) (simp add: upd_fills_allowed_def any_fill_def)
    have "allows any_fill (obj s) s sk"
      by (rule apply_fills_loop_allows [OF u _ k]) (simp add: any_fill_def)
    then have ok: "orders_as (obj s) sk"
      using orders_as_self [OF hk] by (rule allows_orders_as)
    have tyk: "order_type (obj sk order) = STOP_MARKET"
      using orders_asD(2) [OF ok, of order] ty by simp
    from apply_fill_stop_market [OF ok tyk a] obtain pre where
      p: "length pre \<le> 1" "list_all is_OrderUpdated pre"
      and c: "if returned1 then
                emitted s1 = emitted sk @ pre \<and> (is_reduce_only (obj sk order) \<or> fill_qty \<le> 0)
              else
                (\<exists>fill rest.
                   emitted s1 = emitted sk @ pre @ fill # rest
                   \<and> is_OrderFilled fill \<and> ev_order_type fill = STOP_MARKET
                   \<and> ev_last_px fill = stop_fill_px sk instrument order
                   \<and> 0 < ev_last_qty fill \<and> ev_last_qty fill \<le> fill_qty
                   \<and> ev_liquidity_side fill = liquidity_side
                   \<and> list_all (\<lambda>e. \<not> (is_OrderFilled e \<and> ev_order_type e = STOP_MARKET)) rest)"
      by blast
    have post: "\<exists>post. emitted s' = emitted s1 @ post" if "\<not> returned1"
    proof -
      from m that have "?loop instrument order liquidity_side venue_position_id position
               later s1 = Inr (rl, sl)" by simp
      from carries_new [OF apply_fills_loop_carries [OF update_order_carries this,
            where Q = "\<lambda>_. False"]] grow_f
      show ?thesis by auto
    qed
    have body: "if returned1 then
                  emitted s1 = emitted sk @ pre
                  \<and> (is_reduce_only (obj sk order) \<or> fill_qty \<le> 0)
                else
                  (\<exists>fill rest post.
                     emitted s1 = emitted sk @ pre @ fill # rest
                     \<and> emitted s' = emitted s1 @ post
                     \<and> is_OrderFilled fill \<and> ev_order_type fill = STOP_MARKET
                     \<and> ev_last_px fill = stop_fill_px sk instrument order
                     \<and> 0 < ev_last_qty fill \<and> ev_last_qty fill \<le> fill_qty
                     \<and> ev_liquidity_side fill = liquidity_side
                     \<and> list_all (\<lambda>e. \<not> (is_OrderFilled e \<and> ev_order_type e = STOP_MARKET))
                          rest)"
    proof (cases returned1)
      case True
      with c show ?thesis by simp
    next
      case nr: False
      from post [OF nr] obtain post where "emitted s' = emitted s1 @ post" ..
      with nr c show ?thesis by auto
    qed
    show ?thesis
      apply (rule exI [of _ instrument], rule exI [of _ returned], rule exI [of _ sk])
      apply (intro conjI i k disjI2)
      apply (rule exI [of _ returned1], rule exI [of _ s1], rule exI [of _ pre])
      apply (intro conjI a p body)
      done
  qed
qed

theorem stop_market_every_allocation_at_stop_price_witness:
  "handler_keeps (exec_client stop_exchange)
   \<and> order_type (obj stop_exchange ''O-1'') = STOP_MARKET
   \<and> \<not> isl (apply_fills (update_order 1) stop_exchange ''O-1'' TAKER
              ([(100, 10)] @ (101, 20) # []) (Some ''1-001'') None)
   \<and> (\<exists>pre fill rest post.
         emitted (snd (projr (apply_fill (update_order 1) example_instrument ''O-1'' TAKER
                                (Some ''1-001'') None 101 20 stop_exchange_after_first)))
           = emitted stop_exchange_after_first @ pre @ fill # rest
         \<and> emitted (projr (apply_fills (update_order 1) stop_exchange ''O-1'' TAKER
                             ([(100, 10)] @ (101, 20) # []) (Some ''1-001'') None))
           = emitted (snd (projr (apply_fill (update_order 1) example_instrument ''O-1'' TAKER
                                    (Some ''1-001'') None 101 20 stop_exchange_after_first)))
             @ post
         \<and> length pre \<le> 1 \<and> list_all is_OrderUpdated pre
         \<and> is_OrderFilled fill \<and> ev_order_type fill = STOP_MARKET
         \<and> ev_last_px fill = 99 \<and> 0 < ev_last_qty fill \<and> ev_last_qty fill \<le> 20
         \<and> ev_liquidity_side fill = TAKER
         \<and> list_all (\<lambda>e. \<not> (is_OrderFilled e \<and> ev_order_type e = STOP_MARKET)) rest)
   \<and> map (\<lambda>e. (ev_last_qty e, ev_last_px e))
       (emitted (projr (apply_fills (update_order 1) stop_exchange ''O-1'' TAKER
                          ([(100, 10)] @ (101, 20) # []) (Some ''1-001'') None)))
     = [(10, 99), (20, 99)]"
proof -
  let ?run = "apply_fills (update_order 1) stop_exchange ''O-1'' TAKER
                ([(100, 10)] @ (101, 20) # []) (Some ''1-001'') None"
  let ?body = "apply_fill (update_order 1) example_instrument ''O-1'' TAKER (Some ''1-001'')
                 None 101 20 stop_exchange_after_first"
  have stop_exchange_runs:
    "\<not> isl (apply_fills (update_order 1) stop_exchange ''O-1'' TAKER
              ([(100, 10)] @ (101, 20) # []) (Some ''1-001'') None)"
    "\<not> isl (apply_fills_loop (update_order 1) example_instrument ''O-1'' TAKER (Some ''1-001'')
              None [(100, 10)] stop_exchange)"
    "\<not> fst (projr (apply_fills_loop (update_order 1) example_instrument ''O-1'' TAKER
                     (Some ''1-001'') None [(100, 10)] stop_exchange))"
    "\<not> isl (apply_fill (update_order 1) example_instrument ''O-1'' TAKER (Some ''1-001'') None
              101 20 stop_exchange_after_first)"
    "\<not> fst (projr (apply_fill (update_order 1) example_instrument ''O-1'' TAKER (Some ''1-001'')
                     None 101 20 stop_exchange_after_first))"
    "stop_fill_px stop_exchange_after_first example_instrument ''O-1'' = 99"
    by code_simp+
  have filled: "map (\<lambda>e. (ev_last_qty e, ev_last_px e)) (emitted (projr ?run))
                  = [(10, 99), (20, 99)]"
    by code_simp
  have hk: "handler_keeps (exec_client stop_exchange)"
    by (simp add: stop_exchange_def example_exchange_def example_handler_keeps)
  have ty: "order_type (obj stop_exchange ''O-1'') = STOP_MARKET"
    by (simp add: stop_exchange_def example_exchange_def example_order_def obj_def)
  have i: "instruments stop_exchange (instrument_id (obj stop_exchange ''O-1''))
             = Some example_instrument"
    by (simp add: stop_exchange_def example_exchange_def example_order_def obj_def)
  have l: "apply_fills_loop (update_order 1) example_instrument ''O-1'' TAKER (Some ''1-001'')
             None [(100, 10)] stop_exchange = Inr (False, stop_exchange_after_first)"
    unfolding stop_exchange_after_first_def
    by (rule sum_pair_collapse [OF stop_exchange_runs(2,3)])
  have b: "?body = Inr (False, snd (projr ?body))"
    by (rule sum_pair_collapse [OF stop_exchange_runs(4,5)])
  from stop_market_every_allocation_at_stop_price
    [OF hk ty sum_collapse [OF stop_exchange_runs(1)]]
  obtain instrument returned sk where
    "instruments stop_exchange (instrument_id (obj stop_exchange ''O-1'')) = Some instrument"
    and "apply_fills_loop (update_order 1) instrument ''O-1'' TAKER (Some ''1-001'') None
           [(100, 10)] stop_exchange = Inr (returned, sk)"
    and c: "returned
       \<or> (\<exists>returned1 s1 pre.
             apply_fill (update_order 1) instrument ''O-1'' TAKER (Some ''1-001'') None 101 20 sk
               = Inr (returned1, s1)
             \<and> length pre \<le> 1 \<and> list_all is_OrderUpdated pre
             \<and> (if returned1 then
                  emitted s1 = emitted sk @ pre \<and> (is_reduce_only (obj sk ''O-1'') \<or> 20 \<le> (0::int))
                else
                  (\<exists>fill rest post.
                     emitted s1 = emitted sk @ pre @ fill # rest
                     \<and> emitted (projr ?run) = emitted s1 @ post
                     \<and> is_OrderFilled fill \<and> ev_order_type fill = STOP_MARKET
                     \<and> ev_last_px fill = stop_fill_px sk instrument ''O-1''
                     \<and> 0 < ev_last_qty fill \<and> ev_last_qty fill \<le> 20
                     \<and> ev_liquidity_side fill = TAKER
                     \<and> list_all (\<lambda>e. \<not> (is_OrderFilled e \<and> ev_order_type e = STOP_MARKET))
                          rest)))"
    by blast
  with i l have e: "instrument = example_instrument" "\<not> returned" "sk = stop_exchange_after_first"
    by simp_all
  from c e b stop_exchange_runs(6) obtain pre fill rest post where
    "emitted (snd (projr ?body)) = emitted stop_exchange_after_first @ pre @ fill # rest"
    "emitted (projr ?run) = emitted (snd (projr ?body)) @ post"
    "length pre \<le> 1" "list_all is_OrderUpdated pre"
    "is_OrderFilled fill" "ev_order_type fill = STOP_MARKET"
    "ev_last_px fill = 99" "0 < ev_last_qty fill" "ev_last_qty fill \<le> 20"
    "ev_liquidity_side fill = TAKER"
    "list_all (\<lambda>e. \<not> (is_OrderFilled e \<and> ev_order_type e = STOP_MARKET)) rest"
    by auto
  then have "\<exists>pre fill rest post.
         emitted (snd (projr ?body)) = emitted stop_exchange_after_first @ pre @ fill # rest
         \<and> emitted (projr ?run) = emitted (snd (projr ?body)) @ post
         \<and> length pre \<le> 1 \<and> list_all is_OrderUpdated pre
         \<and> is_OrderFilled fill \<and> ev_order_type fill = STOP_MARKET
         \<and> ev_last_px fill = 99 \<and> 0 < ev_last_qty fill \<and> ev_last_qty fill \<le> 20
         \<and> ev_liquidity_side fill = TAKER
         \<and> list_all (\<lambda>e. \<not> (is_OrderFilled e \<and> ev_order_type e = STOP_MARKET)) rest"
    by blast
  with hk ty stop_exchange_runs(1) filled show ?thesis by blast
qed

subsection \<open>Post-only orders\<close>

lemma accept_order_result:
  assumes "accept_order s order = Inr s1"
  shows "books s1 = books s \<and> fill_model s1 = fill_model s
         \<and> (\<exists>e. is_OrderAccepted e \<and> emitted s1 = emitted s @ [e]
                \<and> cache s1 = handle_event (exec_client s) e (cache s))"
  using assms
  by (auto simp: accept_order_def generate_order_accepted_def generate_venue_order_id_def
      add_order_def emit_def is_OrderAccepted_def Let_def
      split: sum.splits option.splits if_splits)

lemma not_marketable_not_matched:
  "\<not> is_limit_marketable s iid sd px \<Longrightarrow> is_limit_matched s iid sd px = (False, s)"
  by (auto simp: is_limit_marketable_def is_limit_matched_def split: option.splits if_splits)

lemma handler_keeps_event:
  assumes "handler_keeps (exec_client s)" and "\<not> is_OrderUpdated e"
  shows "instrument_id (obj (emit e s) r) = instrument_id (obj s r)"
    and "side (obj (emit e s) r) = side (obj s r)"
    and "price (obj (emit e s) r) = price (obj s r)"
    and "order_type (obj (emit e s) r) = order_type (obj s r)"
    and "is_post_only (obj (emit e s) r) = is_post_only (obj s r)"
    and "client_order_id (obj (emit e s) r) = client_order_id (obj s r)"
  using assms unfolding handler_keeps_def same_attrs_def emit_def obj_def
  by (simp_all, (metis)+)

lemma is_limit_marketable_books:
  "books s' = books s \<Longrightarrow> is_limit_marketable s' iid sd px = is_limit_marketable s iid sd px"
  by (simp add: is_limit_marketable_def best_ask_price_def best_bid_price_def)

lemma process_limit_order_not_marketable:
  assumes hk: "handler_keeps (exec_client s)"
    and nm: "\<not> is_limit_marketable s (instrument_id (obj s order)) (side (obj s order))
               (price (obj s order))"
  shows "process_limit_order depth s order = accept_order s order"
proof (cases "accept_order s order")
  case (Inl err)
  with nm show ?thesis by (simp add: process_limit_order_def seq_def)
next
  case (Inr s1)
  from accept_order_result [OF Inr] obtain e where
    b: "books s1 = books s" and e: "is_OrderAccepted e"
    and c: "cache s1 = handle_event (exec_client s) e (cache s)"
    by blast
  from e have nu: "\<not> is_OrderUpdated e"
    by (cases e) (simp_all add: is_OrderAccepted_def is_OrderUpdated_def)
  have "obj s1 order = obj (emit e s) order"
    using c by (simp add: obj_def emit_def)
  with handler_keeps_event [OF hk nu, of order] have same:
    "instrument_id (obj s1 order) = instrument_id (obj s order)"
    "side (obj s1 order) = side (obj s order)"
    "price (obj s1 order) = price (obj s order)"
    by simp_all
  from nm same is_limit_marketable_books [OF b]
  have "is_limit_matched s1 (instrument_id (obj s1 order)) (side (obj s1 order))
        (price (obj s1 order)) = (False, s1)"
    by (simp add: not_marketable_not_matched)
  with Inr nm show ?thesis by (simp add: process_limit_order_def seq_def)
qed

lemma no_post_only_taker_upd: "upd_fills_allowed no_post_only_taker"
  by (simp add: upd_fills_allowed_def no_post_only_taker_def)

lemma process_market_order_allows:
  assumes ty: "order_type (obj s order) = MARKET"
    and r: "process_market_order depth s order = Inr s'"
  shows "allows no_post_only_taker known s s'"
proof (rule allowsI)
  assume o: "orders_as known s"
  have ok: "no_post_only_taker (order_type (known order)) (is_post_only (known order)) TAKER"
    using ty orders_asD(2) [OF o, of order] by (simp add: no_post_only_taker_def)
  from r show ?thesis
    unfolding process_market_order_def
    by (auto split: if_splits simp: generate_simple_allows
        dest: fill_market_order_allows [where A = no_post_only_taker and known = known
          and order = order and liq = TAKER, OF update_order_allows [OF no_post_only_taker_upd] ok])
qed

lemma process_limit_order_allows:
  assumes r: "process_limit_order depth s order = Inr s'"
  shows "allows no_post_only_taker known s s'"
proof (rule allowsI)
  assume o: "orders_as known s"
  show ?thesis
  proof (cases "is_post_only (obj s order)")
    case True
    show ?thesis
    proof (cases "is_limit_marketable s (instrument_id (obj s order)) (side (obj s order))
               (price (obj s order))")
      case m: True
      with True r show ?thesis
        by (auto simp: process_limit_order_def generate_simple_allows)
    next
      case False
      from process_limit_order_not_marketable [OF orders_asD(6) [OF o] False] r
      show ?thesis by (simp add: accept_order_allows)
    qed
  next
    case False
    have ok: "no_post_only_taker (order_type (known order)) (is_post_only (known order)) TAKER"
      using False orders_asD(3) [OF o, of order] by (simp add: no_post_only_taker_def)
    from r False show ?thesis
      unfolding process_limit_order_def
      by (auto split: if_splits prod.splits elim!: seq_allows
          dest!: accept_order_allows [where A = no_post_only_taker and known = known]
            is_limit_matched_allows [where A = no_post_only_taker and known = known]
            fill_limit_order_allows [where A = no_post_only_taker and known = known
              and order = order and liq = TAKER,
              OF update_order_allows [OF no_post_only_taker_upd] ok]
          intro: allows_trans)
  qed
qed

lemma process_stop_market_order_allows:
  "process_stop_market_order s order = Inr s' \<Longrightarrow> allows A known s s'"
  unfolding process_stop_market_order_def
  by (auto split: if_splits simp: generate_simple_allows dest: accept_order_allows)

lemma process_stop_limit_order_allows:
  "process_stop_limit_order s order = Inr s' \<Longrightarrow> allows A known s s'"
  unfolding process_stop_limit_order_def
  by (auto split: if_splits simp: generate_simple_allows dest: accept_order_allows)

lemma process_order_oto_allows:
  "process_order_oto s order = Inr (b, s') \<Longrightarrow> allows A known s s'"
  unfolding process_order_oto_def
  by (auto split: if_splits option.splits sum.splits
      intro: allows_same allows_trans [OF allows_same generate_simple_allows(3)])

lemma process_order_reduce_only_allows:
  "process_order_reduce_only s order = (b, s') \<Longrightarrow> allows A known s s'"
  unfolding process_order_reduce_only_def
  by (auto split: if_splits option.splits simp: generate_simple_allows)

lemma process_order_dispatch_allows:
  "process_order_dispatch depth s order = Inr s' \<Longrightarrow> allows no_post_only_taker known s s'"
  unfolding process_order_dispatch_def
  by (auto split: OrderType.splits
      dest: process_market_order_allows process_limit_order_allows
        process_stop_market_order_allows process_stop_limit_order_allows)

lemma process_order_allows:
  "process_order depth s order = Inr s' \<Longrightarrow> allows no_post_only_taker known s s'"
  unfolding process_order_def
  by (auto split: if_splits option.splits sum.splits prod.splits
      dest!: process_order_oto_allows [where A = no_post_only_taker and known = known]
        process_order_reduce_only_allows [where A = no_post_only_taker and known = known]
        process_order_dispatch_allows [where known = known]
      intro: allows_trans)

lemma allows_field_updates [simp]:
  "allows A known (s\<lparr>order_index := x\<rparr>) s' = allows A known s s'"
  "allows A known (s\<lparr>message_queue := y\<rparr>) s' = allows A known s s'"
  "allows A known s (s'\<lparr>order_index := x\<rparr>) = allows A known s s'"
  by (simp_all add: allows_def logged_def orders_as_def obj_def)

lemma process_command_allows:
  "process_command depth s command = Inr s' \<Longrightarrow> allows no_post_only_taker known s s'"
  unfolding process_command_def Let_def
  apply (cases command)
     apply (auto dest: process_order_allows)[1]
    apply (auto elim!: for_each_allows [rotated] dest: process_order_allows)[1]
   apply (auto split: option.splits if_splits simp: generate_simple_allows
      dest!: cancel_order_allows [where A = no_post_only_taker and known = known]
      dest: allows_trans [OF generate_simple_allows(5)])[1]
  apply (auto split: option.splits if_splits simp: generate_simple_allows
      dest!: upd_allowsD [OF update_order_allows [OF no_post_only_taker_upd, where known = known]]
      dest: allows_trans [OF generate_simple_allows(4)])[1]
  done

lemma allows_clock_updates [simp]:
  "allows A known (s\<lparr>clock := t\<rparr>) s' = allows A known s s'"
  "allows A known s (s'\<lparr>last_bids := z, last_asks := w\<rparr>) = allows A known s s'"
  by (simp_all add: allows_def logged_def orders_as_def obj_def)

lemma process_allows:
  "process depth s now_ns = Inr s' \<Longrightarrow> allows no_post_only_taker known s s'"
  unfolding process_def
  apply (drule seq_allows [where A = no_post_only_taker and known = known
        and s = "s\<lparr>clock := now_ns\<rparr>"])
    apply (erule for_each_allows [rotated])
    apply (drule process_command_allows [where known = known])
    apply simp
   apply auto
  done

lemma post_only_fills:
  assumes po: "\<forall>r. client_order_id (known r) = cid \<longrightarrow>
                 order_type (known r) = LIMIT \<and> is_post_only (known r)"
    and a: "allows no_post_only_taker known s s'"
    and o: "orders_as known s"
  shows "\<exists>new. emitted s' = emitted s @ new
           \<and> list_all (\<lambda>e. \<not> (is_OrderFilled e \<and> ev_client_order_id e = cid
                                 \<and> ev_liquidity_side e = TAKER)) new"
proof -
  from allows_new [OF a o] obtain new where
    n: "emitted s' = emitted s @ new" "list_all (fill_allowed no_post_only_taker known) new"
    by blast
  have "\<not> (is_OrderFilled e \<and> ev_client_order_id e = cid \<and> ev_liquidity_side e = TAKER)"
    if "fill_allowed no_post_only_taker known e" for e
    using that po by (auto simp: fill_allowed_def no_post_only_taker_def)
  with n(2) have "list_all (\<lambda>e. \<not> (is_OrderFilled e \<and> ev_client_order_id e = cid
                                 \<and> ev_liquidity_side e = TAKER)) new"
    by (simp add: list_all_iff)
  with n(1) show ?thesis by blast
qed

lemma process_order_oto_result:
  assumes "process_order_oto s order = Inr (returned, s1)"
  shows "order_index s1 = order_index s \<and> books s1 = books s
         \<and> exec_client s1 = exec_client s
         \<and> (if returned then
              (\<exists>e. is_OrderRejected e \<and> ev_client_order_id e = client_order_id (obj s order)
                    \<and> emitted s1 = emitted s @ [e])
              \<or> (\<exists>parent. parent_order_id (obj s order) = Some parent
                    \<and> status (obj s parent) = ACCEPTED \<and> emitted s1 = emitted s)
            else emitted s1 = emitted s \<and> cache s1 = cache s)"
  using assms unfolding process_order_oto_def
  by (auto simp: generate_order_rejected_def emit_def obj_def is_OrderRejected_def cache_order_def
      split: if_splits option.splits sum.splits)

lemma process_order_reduce_only_result:
  assumes "process_order_reduce_only s order = (returned, s1)"
  shows "order_index s1 = order_index s \<and> books s1 = books s
         \<and> exec_client s1 = exec_client s
         \<and> (if returned then
              (\<exists>e. is_OrderRejected e \<and> ev_client_order_id e = client_order_id (obj s order)
                    \<and> emitted s1 = emitted s @ [e])
            else s1 = s)"
  using assms unfolding process_order_reduce_only_def
  by (auto simp: generate_order_rejected_def emit_def obj_def is_OrderRejected_def
      split: if_splits option.splits)

text \<open>
  C5 (counterexample). The claim says that whenever the limit price of a post-only Limit
  order is marketable against the opposite best, its submission is rejected. \<open>O-2\<close>, a
  post-only Limit order to buy at 100 while the best ask is 100, is submitted as the child
  of the OTO order \<open>O-1\<close>. The fill of \<open>O-1\<close> accepts the child without a look at its
  price (\<^verbatim>\<open>_fill_order\<close> calls \<^verbatim>\<open>_accept_order\<close>), and the child's own submission,
  processed next, finds it in the order index and is dropped: no rejection is emitted, and
  \<open>O-2\<close> is working at a marketable price.
\<close>

theorem post_only_oto_child_accepted:
  "is_post_only (obj oto_exchange ''O-2'') \<and> order_type (obj oto_exchange ''O-2'') = LIMIT
   \<and> map_sum id (\<lambda>s. (emitted s, order_index s ''O-2'', status (obj s ''O-2''),
                      is_limit_marketable s ''AUD/USD.SIM'' BUY (price (obj s ''O-2''))))
       (process 1 oto_exchange 10)
     = Inr ([OrderAccepted ''S-001'' ''AUD/USD.SIM'' ''O-1'' (Some ''1-001'') 10,
             OrderFilled ''S-001'' ''AUD/USD.SIM'' ''O-1'' (Some ''1-001'') (Some ''1-001'') ''1''
               BUY LIMIT 10 100 ''USD'' \<lparr>amount = 10, currency = ''USD''\<rparr> TAKER 10,
             OrderAccepted ''S-001'' ''AUD/USD.SIM'' ''O-2'' (Some ''1-002'') 10],
            Some ''O-2'', ACCEPTED, True)"
  by code_simp

text \<open>
  C5 (amended). No \<open>OrderFilled\<close> with the liquidity side Taker is emitted for a post-only
  Limit order as the result of any command, its own submission and a \<open>ModifyOrder\<close>
  applied to it included (also when the command sets off updates of OCO siblings), nor by
  a whole run of \<^verbatim>\<open>process\<close>. A submission of the order while its limit price is
  marketable ends in one of three ways: the order is in the order index already and the
  submission is dropped; or exactly one event is emitted, an \<open>OrderRejected\<close> for the
  order; or the order is an OTO child whose parent is Accepted, and it is held back without
  any event. When the order is not in the index, no OTO parent or child and not
  reduce-only, the rejection is that of the post-only check. A \<open>ModifyOrder\<close> whose new
  limit price (the order's own when the command gives none) is marketable is rejected with
  \<open>OrderModifyRejected\<close>, after which only the OCO siblings of the order are looked at.
  The execution client is taken to leave the fixed attributes of orders as they are and
  to change a price only when it applies an \<open>OrderUpdated\<close> (\<open>handler_keeps\<close>); the
  order is the one with the client order id \<open>cid\<close>.
\<close>

theorem post_only_limit_not_filled_as_taker:
  assumes hk: "handler_keeps (exec_client s)"
    and every: "\<forall>r. client_order_id (obj s r) = cid \<longrightarrow>
                 order_type (obj s r) = LIMIT \<and> is_post_only (obj s r)"
  shows "(\<forall>command s'. process_command depth s command = Inr s' \<longrightarrow>
            (\<exists>new. emitted s' = emitted s @ new
               \<and> list_all (\<lambda>e. \<not> (is_OrderFilled e \<and> ev_client_order_id e = cid
                                     \<and> ev_liquidity_side e = TAKER)) new))
       \<and> (\<forall>now_ns s'. process depth s now_ns = Inr s' \<longrightarrow>
            (\<exists>new. emitted s' = emitted s @ new
               \<and> list_all (\<lambda>e. \<not> (is_OrderFilled e \<and> ev_client_order_id e = cid
                                     \<and> ev_liquidity_side e = TAKER)) new))
       \<and> (\<forall>order s'.
            client_order_id (obj s order) = cid
            \<and> is_limit_marketable s (instrument_id (obj s order)) (side (obj s order))
                (price (obj s order))
            \<and> process_command depth s (SubmitOrder order) = Inr s' \<longrightarrow>
              (order_index s cid \<noteq> None \<and> s' = s)
              \<or> (\<exists>e. is_OrderRejected e \<and> ev_client_order_id e = cid
                     \<and> emitted s' = emitted s @ [e] \<and> order_index s' = order_index s)
              \<or> (\<exists>parent. parent_order_id (obj s order) = Some parent
                     \<and> status (obj s parent) = ACCEPTED
                     \<and> emitted s' = emitted s \<and> order_index s' = order_index s))
       \<and> (\<forall>order.
            client_order_id (obj s order) = cid
            \<and> is_limit_marketable s (instrument_id (obj s order)) (side (obj s order))
                (price (obj s order))
            \<and> order_index s cid = None \<and> contingency (obj s order) \<noteq> OTO
            \<and> parent_order_id (obj s order) = None \<and> \<not> is_reduce_only (obj s order) \<longrightarrow>
              process_command depth s (SubmitOrder order) =
                Inr (generate_order_rejected s order
                       (post_only_reason s order '' order limit px of '' (price (obj s order)))))
       \<and> (\<forall>order strat iid void qty px trg.
            order_index s cid = Some order \<and> client_order_id (obj s order) = cid
            \<and> is_limit_marketable s (instrument_id (obj s order)) (side (obj s order))
                (case px of None \<Rightarrow> price (obj s order) | Some p \<Rightarrow> p) \<longrightarrow>
              process_command (Suc depth) s (ModifyOrder strat iid cid void qty px trg) =
                (let s1 = generate_order_pending_update s order;
                     s2 = generate_order_modify_rejected s1 (strategy_id (obj s1 order))
                            (instrument_id (obj s1 order)) (client_order_id (obj s1 order))
                            (venue_order_id (obj s1 order))
                            (post_only_reason s1 order '' order new limit px of ''
                               (case px of None \<Rightarrow> price (obj s order) | Some p \<Rightarrow> p))
                 in if contingency (obj s2 order) = OCO
                    then update_oco_orders (update_order depth) s2 order else Inr s2))"
proof -
  have submission:
    "(order_index s (client_order_id (obj s order)) \<noteq> None \<and> s' = s)
     \<or> (\<exists>e. is_OrderRejected e \<and> ev_client_order_id e = client_order_id (obj s order)
            \<and> emitted s' = emitted s @ [e] \<and> order_index s' = order_index s)
     \<or> (\<exists>parent. parent_order_id (obj s order) = Some parent
            \<and> status (obj s parent) = ACCEPTED
            \<and> emitted s' = emitted s \<and> order_index s' = order_index s)"
    if ty: "order_type (obj s order) = LIMIT"
      and po: "is_post_only (obj s order)"
      and m: "is_limit_marketable s (instrument_id (obj s order)) (side (obj s order))
                (price (obj s order))"
      and r: "process_command depth s (SubmitOrder order) = Inr s'"
    for order s'
  proof (cases "order_index s (client_order_id (obj s order)) = None")
    case False
    with r show ?thesis by (simp add: process_command_def process_order_def)
  next
    case True
    with r obtain ret1 s1 where
      o: "process_order_oto s order = Inr (ret1, s1)"
      and r1: "if ret1 then s' = s1
               else (case process_order_reduce_only s1 order of
                       (ret2, s2) \<Rightarrow> if ret2 then s' = s2
                                     else process_order_dispatch depth s2 order = Inr s')"
      by (auto simp: process_command_def process_order_def
          split: sum.splits prod.splits if_splits)
    note o1 = process_order_oto_result [OF o]
    show ?thesis
    proof (cases ret1)
      case True
      with o1 r1 show ?thesis by auto
    next
      case nr: False
      with o1 have c1: "cache s1 = cache s" "emitted s1 = emitted s" "books s1 = books s"
        "order_index s1 = order_index s" by simp_all
      then have same: "obj s1 order = obj s order" by (simp add: obj_def)
      obtain ret2 s2 where p: "process_order_reduce_only s1 order = (ret2, s2)"
        by (cases "process_order_reduce_only s1 order")
      note p1 = process_order_reduce_only_result [OF p]
      show ?thesis
      proof (cases ret2)
        case True
        with p1 p r1 nr c1 same show ?thesis by auto
      next
        case False
        with p1 have s2: "s2 = s1" by simp
        from r1 nr p False s2 have d: "process_order_dispatch depth s1 order = Inr s'" by simp
        have m1: "is_limit_marketable s1 (instrument_id (obj s1 order)) (side (obj s1 order))
                (price (obj s1 order))"
          using m same is_limit_marketable_books [OF c1(3)] by simp
        from d ty po m1 same have "s' = generate_order_rejected s1 order
            (post_only_reason s1 order '' order limit px of '' (price (obj s1 order)))"
          by (simp add: process_order_dispatch_def process_limit_order_def)
        with c1 same show ?thesis
          by (auto simp: generate_order_rejected_def emit_def is_OrderRejected_def)
      qed
    qed
  qed
  have plain:
    "process_command depth s (SubmitOrder order) =
       Inr (generate_order_rejected s order
              (post_only_reason s order '' order limit px of '' (price (obj s order))))"
    if "order_type (obj s order) = LIMIT" and "is_post_only (obj s order)"
      and "is_limit_marketable s (instrument_id (obj s order)) (side (obj s order))
             (price (obj s order))"
      and "order_index s (client_order_id (obj s order)) = None"
      and "contingency (obj s order) \<noteq> OTO" and "parent_order_id (obj s order) = None"
      and "\<not> is_reduce_only (obj s order)"
    for order
    using that
    by (simp add: process_command_def process_order_def process_order_oto_def
        process_order_reduce_only_def process_order_dispatch_def process_limit_order_def)
  have modification:
    "process_command (Suc depth) s (ModifyOrder strat iid cid void qty px trg) =
       (let s1 = generate_order_pending_update s order;
            s2 = generate_order_modify_rejected s1 (strategy_id (obj s1 order))
                   (instrument_id (obj s1 order)) (client_order_id (obj s1 order))
                   (venue_order_id (obj s1 order))
                   (post_only_reason s1 order '' order new limit px of ''
                      (case px of None \<Rightarrow> price (obj s order) | Some p \<Rightarrow> p))
        in if contingency (obj s2 order) = OCO
           then update_oco_orders (update_order depth) s2 order else Inr s2)"
    if ty: "order_type (obj s order) = LIMIT"
      and po: "is_post_only (obj s order)"
      and i: "order_index s cid = Some order"
      and m: "is_limit_marketable s (instrument_id (obj s order)) (side (obj s order))
                (case px of None \<Rightarrow> price (obj s order) | Some p \<Rightarrow> p)"
    for order strat iid void qty px trg
  proof -
    define e where "e = OrderPendingUpdate (strategy_id (obj s order)) (instrument_id (obj s order))
               (client_order_id (obj s order)) (venue_order_id (obj s order)) (timestamp_ns s)"
    define s1 where "s1 = generate_order_pending_update s order"
    have s1: "s1 = emit e s" by (simp add: s1_def e_def generate_order_pending_update_def)
    have nu: "\<not> is_OrderUpdated e" by (simp add: e_def is_OrderUpdated_def)
    note k = handler_keeps_event [OF hk nu, of order, folded s1]
    have b: "books s1 = books s" by (simp add: s1 emit_def)
    have px: "(case px of None \<Rightarrow> price (obj s1 order) | Some p \<Rightarrow> p)
              = (case px of None \<Rightarrow> price (obj s order) | Some p \<Rightarrow> p)"
      using k(3) by (simp split: option.splits)
    have m1: "is_limit_marketable s1 (instrument_id (obj s1 order)) (side (obj s1 order))
                (case px of None \<Rightarrow> price (obj s order) | Some p \<Rightarrow> p)"
      using m k(1,2) is_limit_marketable_books [OF b] by simp
    have "process_command (Suc depth) s (ModifyOrder strat iid cid void qty px trg) =
            update_order_body (update_order depth) s1 order qty px trg True"
      using i by (simp add: process_command_def s1_def)
    also have "\<dots> = seq (Inr (generate_order_modify_rejected s1 (strategy_id (obj s1 order))
                         (instrument_id (obj s1 order)) (client_order_id (obj s1 order))
                         (venue_order_id (obj s1 order))
                         (post_only_reason s1 order '' order new limit px of ''
                            (case px of None \<Rightarrow> price (obj s order) | Some p \<Rightarrow> p))))
                    (\<lambda>s. if contingency (obj s order) = OCO \<and> True
                         then update_oco_orders (update_order depth) s order else Inr s)"
      using ty po k(4,5) m1 px
      by (simp add: update_order_body_def update_limit_order_def Let_def)
    finally show ?thesis by (simp add: seq_def Let_def s1_def)
  qed
  show ?thesis
  proof (intro conjI allI impI)
    fix command s'
    assume "process_command depth s command = Inr s'"
    from post_only_fills [OF every process_command_allows [OF this] orders_as_self [OF hk]]
    show "\<exists>new. emitted s' = emitted s @ new
                 \<and> list_all (\<lambda>e. \<not> (is_OrderFilled e \<and> ev_client_order_id e = cid
                                       \<and> ev_liquidity_side e = TAKER)) new" .
  next
    fix now_ns s'
    assume "process depth s now_ns = Inr s'"
    from post_only_fills [OF every process_allows [OF this] orders_as_self [OF hk]]
    show "\<exists>new. emitted s' = emitted s @ new
                 \<and> list_all (\<lambda>e. \<not> (is_OrderFilled e \<and> ev_client_order_id e = cid
                                       \<and> ev_liquidity_side e = TAKER)) new" .
  next
    fix order s'
    assume a: "client_order_id (obj s order) = cid
              \<and> is_limit_marketable s (instrument_id (obj s order)) (side (obj s order))
                  (price (obj s order))
              \<and> process_command depth s (SubmitOrder order) = Inr s'"
    with every have "order_type (obj s order) = LIMIT" "is_post_only (obj s order)" by auto
    from submission [OF this] a
    show "(order_index s cid \<noteq> None \<and> s' = s)
                \<or> (\<exists>e. is_OrderRejected e \<and> ev_client_order_id e = cid
                       \<and> emitted s' = emitted s @ [e] \<and> order_index s' = order_index s)
                \<or> (\<exists>parent. parent_order_id (obj s order) = Some parent
                       \<and> status (obj s parent) = ACCEPTED
                       \<and> emitted s' = emitted s \<and> order_index s' = order_index s)"
      by auto
  next
    fix order
    assume a: "client_order_id (obj s order) = cid
              \<and> is_limit_marketable s (instrument_id (obj s order)) (side (obj s order))
                  (price (obj s order))
              \<and> order_index s cid = None \<and> contingency (obj s order) \<noteq> OTO
              \<and> parent_order_id (obj s order) = None \<and> \<not> is_reduce_only (obj s order)"
    with every have "order_type (obj s order) = LIMIT" "is_post_only (obj s order)" by auto
    from plain [OF this] a
    show "process_command depth s (SubmitOrder order) =
                  Inr (generate_order_rejected s order
                         (post_only_reason s order '' order limit px of '' (price (obj s order))))"
      by auto
  next
    fix order strat iid void qty px trg
    assume a: "order_index s cid = Some order \<and> client_order_id (obj s order) = cid
              \<and> is_limit_marketable s (instrument_id (obj s order)) (side (obj s order))
                  (case px of None \<Rightarrow> price (obj s order) | Some p \<Rightarrow> p)"
    with every have "order_type (obj s order) = LIMIT" "is_post_only (obj s order)" by auto
    from modification [OF this] a
    show "process_command (Suc depth) s (ModifyOrder strat iid cid void qty px trg) =
                  (let s1 = generate_order_pending_update s order;
                       s2 = generate_order_modify_rejected s1 (strategy_id (obj s1 order))
                              (instrument_id (obj s1 order)) (client_order_id (obj s1 order))
                              (venue_order_id (obj s1 order))
                              (post_only_reason s1 order '' order new limit px of ''
                                 (case px of None \<Rightarrow> price (obj s order) | Some p \<Rightarrow> p))
                   in if contingency (obj s2 order) = OCO
                      then update_oco_orders (update_order depth) s2 order else Inr s2)"
      by blast
  qed
qed

lemma post_only_exchange_facts:
  "handler_keeps (exec_client post_only_exchange)"
  "order_type (obj post_only_exchange r) = LIMIT \<and> is_post_only (obj post_only_exchange r)"
  "client_order_id (obj post_only_exchange ''O-1'') = ''O-1''"
  "instrument_id (obj post_only_exchange ''O-1'') = ''AUD/USD.SIM''"
  "side (obj post_only_exchange ''O-1'') = BUY"
  "price (obj post_only_exchange ''O-1'') = 100"
  "is_limit_marketable post_only_exchange ''AUD/USD.SIM'' BUY 100"
  "order_index post_only_exchange ''O-1'' = None"
  "contingency (obj post_only_exchange ''O-1'') \<noteq> OTO"
  "parent_order_id (obj post_only_exchange ''O-1'') = None"
  "\<not> is_reduce_only (obj post_only_exchange ''O-1'')"
  "emitted post_only_exchange = []"
  by (simp_all add: post_only_exchange_def example_exchange_def example_order_def obj_def
      example_handler_keeps example_book_def is_limit_marketable_def best_ask_price_def)

lemma post_only_working_exchange_facts:
  "handler_keeps (exec_client post_only_working_exchange)"
  "order_type (obj post_only_working_exchange r) = LIMIT
   \<and> is_post_only (obj post_only_working_exchange r)"
  "client_order_id (obj post_only_working_exchange ''O-1'') = ''O-1''"
  "instrument_id (obj post_only_working_exchange ''O-1'') = ''AUD/USD.SIM''"
  "side (obj post_only_working_exchange ''O-1'') = BUY"
  "is_limit_marketable post_only_working_exchange ''AUD/USD.SIM'' BUY 100"
  "order_index post_only_working_exchange ''O-1'' = Some ''O-1''"
  "contingency (obj (generate_order_modify_rejected
       (generate_order_pending_update post_only_working_exchange ''O-1'') st ii ci vo re) ''O-1'')
     \<noteq> OCO"
  "strategy_id (obj (generate_order_pending_update post_only_working_exchange ''O-1'') ''O-1'')
     = ''S-001''"
  "instrument_id (obj (generate_order_pending_update post_only_working_exchange ''O-1'') ''O-1'')
     = ''AUD/USD.SIM''"
  "client_order_id (obj (generate_order_pending_update post_only_working_exchange ''O-1'') ''O-1'')
     = ''O-1''"
  "venue_order_id (obj (generate_order_pending_update post_only_working_exchange ''O-1'') ''O-1'')
     = None"
  by (simp_all add: post_only_working_exchange_def example_exchange_def example_order_def obj_def
      example_handler_keeps example_book_def is_limit_marketable_def best_ask_price_def
      generate_order_modify_rejected_def generate_order_pending_update_def emit_def
      example_handle_event_def apply_order_event_def apply_position_fill_def)

theorem post_only_limit_not_filled_as_taker_witness:
  "handler_keeps (exec_client post_only_exchange)
   \<and> (\<forall>r. order_type (obj post_only_exchange r) = LIMIT \<and> is_post_only (obj post_only_exchange r))
   \<and> is_limit_marketable post_only_exchange ''AUD/USD.SIM'' BUY 100
   \<and> order_index post_only_exchange ''O-1'' = None
   \<and> process_command 1 post_only_exchange (SubmitOrder ''O-1'') =
       Inr (generate_order_rejected post_only_exchange ''O-1''
              (post_only_reason post_only_exchange ''O-1'' '' order limit px of '' 100))
   \<and> list_all (\<lambda>e. \<not> (is_OrderFilled e \<and> ev_client_order_id e = ''O-1''
                         \<and> ev_liquidity_side e = TAKER))
       (emitted (generate_order_rejected post_only_exchange ''O-1''
                   (post_only_reason post_only_exchange ''O-1'' '' order limit px of '' 100)))
   \<and> handler_keeps (exec_client post_only_working_exchange)
   \<and> (\<forall>r. order_type (obj post_only_working_exchange r) = LIMIT
           \<and> is_post_only (obj post_only_working_exchange r))
   \<and> order_index post_only_working_exchange ''O-1'' = Some ''O-1''
   \<and> is_limit_marketable post_only_working_exchange ''AUD/USD.SIM'' BUY 100
   \<and> process_command (Suc 0) post_only_working_exchange
         (ModifyOrder ''S-001'' ''AUD/USD.SIM'' ''O-1'' None None (Some 100) None) =
       Inr (generate_order_modify_rejected
              (generate_order_pending_update post_only_working_exchange ''O-1'')
              ''S-001'' ''AUD/USD.SIM'' ''O-1'' None
              (post_only_reason (generate_order_pending_update post_only_working_exchange ''O-1'')
                 ''O-1'' '' order new limit px of '' 100))
   \<and> map_sum id emitted (process_command 1 post_only_exchange (SubmitOrder ''O-1'')) =
       Inr [OrderRejected ''S-001'' ''AUD/USD.SIM'' ''O-1''
              ''POST_ONLY LIMIT BUY order limit px of 100 would have been a TAKER: bid=99, ask=100''
              10]
   \<and> map_sum id emitted
         (process_command (Suc 0) post_only_working_exchange
            (ModifyOrder ''S-001'' ''AUD/USD.SIM'' ''O-1'' None None (Some 100) None)) =
       Inr [OrderPendingUpdate ''S-001'' ''AUD/USD.SIM'' ''O-1'' None 10,
            OrderModifyRejected ''S-001'' ''AUD/USD.SIM'' ''O-1'' None
              ''POST_ONLY LIMIT BUY order new limit px of 100 would have been a TAKER: bid=99, ask=100''
              10]"
proof -
  have events:
    "map_sum id emitted (process_command 1 post_only_exchange (SubmitOrder ''O-1'')) =
       Inr [OrderRejected ''S-001'' ''AUD/USD.SIM'' ''O-1''
              ''POST_ONLY LIMIT BUY order limit px of 100 would have been a TAKER: bid=99, ask=100''
              10]"
    "map_sum id emitted
         (process_command (Suc 0) post_only_working_exchange
            (ModifyOrder ''S-001'' ''AUD/USD.SIM'' ''O-1'' None None (Some 100) None)) =
       Inr [OrderPendingUpdate ''S-001'' ''AUD/USD.SIM'' ''O-1'' None 10,
            OrderModifyRejected ''S-001'' ''AUD/USD.SIM'' ''O-1'' None
              ''POST_ONLY LIMIT BUY order new limit px of 100 would have been a TAKER: bid=99, ask=100''
              10]"
    by code_simp+
  note f = post_only_exchange_facts
  note g = post_only_working_exchange_facts
  note a = post_only_limit_not_filled_as_taker [of post_only_exchange "''O-1''" 1]
  note b = post_only_limit_not_filled_as_taker [of post_only_working_exchange "''O-1''" 0]
  have submit: "process_command 1 post_only_exchange (SubmitOrder ''O-1'') =
       Inr (generate_order_rejected post_only_exchange ''O-1''
              (post_only_reason post_only_exchange ''O-1'' '' order limit px of '' 100))"
    using a f by auto
  have fills: "list_all (\<lambda>e. \<not> (is_OrderFilled e \<and> ev_client_order_id e = ''O-1''
                         \<and> ev_liquidity_side e = TAKER))
       (emitted (generate_order_rejected post_only_exchange ''O-1''
                   (post_only_reason post_only_exchange ''O-1'' '' order limit px of '' 100)))"
    using a f submit by auto
  have modify: "process_command (Suc 0) post_only_working_exchange
         (ModifyOrder ''S-001'' ''AUD/USD.SIM'' ''O-1'' None None (Some 100) None) =
       Inr (generate_order_modify_rejected
              (generate_order_pending_update post_only_working_exchange ''O-1'')
              ''S-001'' ''AUD/USD.SIM'' ''O-1'' None
              (post_only_reason (generate_order_pending_update post_only_working_exchange ''O-1'')
                 ''O-1'' '' order new limit px of '' 100))"
    using b g by (auto simp: Let_def)
  from f g submit fills modify events show ?thesis by simp
qed

end
